(* ===== verification/Prelude.thy ===== *)
theory Prelude
  imports Main
begin

text \<open>
  Shared vocabulary of the development. The build command of
  \<^verbatim>\<open>src/packages/preset-umi/src/commands/build.ts\<close> is an \<^verbatim>\<open>async\<close> JavaScript
  function: every statement may throw, and a thrown exception leaves the side
  effects made so far in place (files already written stay written). The model
  therefore threads an explicit state \<open>'s\<close> through every operation and returns,
  next to the final state, either the error that was thrown (\<open>Inl\<close>) or the
  value computed (\<open>Inr\<close>): the type \<open>('a, 's) exn\<close> below. An \<^verbatim>\<open>await\<close> is
  sequential composition \<open>bindx\<close>; a \<^verbatim>\<open>throw\<close> is \<open>throw\<close>.
\<close>

named_theorems exn_simps "evaluation rules of the exception-state monad"

datatype error =
    TypeError string      \<comment> \<open>a JavaScript TypeError raised by the runtime or by Node\<close>
  | HandlerFailure string \<comment> \<open>a registered plugin handler threw\<close>
  | BackendFailure string \<comment> \<open>the bundler backend's build rejected\<close>
  | IOFailure string      \<comment> \<open>a file-system call failed\<close>
  | InvalidArguments string \<comment> \<open>the dispatcher refused its arguments\<close>

type_synonym 'a res = "error + 'a"
type_synonym ('a, 's) exn = "'s \<Rightarrow> (error + 'a) \<times> 's"

definition ret :: "'a \<Rightarrow> ('a, 's) exn" where
  "ret a s = (Inr a, s)"

definition throw :: "error \<Rightarrow> ('a, 's) exn" where
  "throw e s = (Inl e, s)"

definition bindx :: "('a, 's) exn \<Rightarrow> ('a \<Rightarrow> ('b, 's) exn) \<Rightarrow> ('b, 's) exn" where
  "bindx m f s = (case m s of (Inl e, s') \<Rightarrow> (Inl e, s') | (Inr a, s') \<Rightarrow> f a s')"

text \<open>A pure computation that may fail, run without touching the state.\<close>

definition lift_res :: "'a res \<Rightarrow> ('a, 's) exn" where
  "lift_res r s = (r, s)"

text \<open>A state transformer that cannot fail.\<close>

definition modify_st :: "('s \<Rightarrow> 's) \<Rightarrow> (unit, 's) exn" where
  "modify_st f s = (Inr (), f s)"

text \<open>String prefix test (\<^verbatim>\<open>String.prototype.startsWith\<close>).\<close>

definition starts_with :: "string \<Rightarrow> string \<Rightarrow> bool" where
  "starts_with p k \<longleftrightarrow> take (length p) k = p"

text \<open>\<^verbatim>\<open>String.prototype.split\<close> on a one-character separator.\<close>

fun split_on :: "char \<Rightarrow> string \<Rightarrow> string list" where
  "split_on c [] = [[]]"
| "split_on c (x # xs) = (if x = c then [] # split_on c xs
     else (case split_on c xs of ys # yss \<Rightarrow> (x # ys) # yss | [] \<Rightarrow> [[x]]))"

text \<open>\<open>xs\<close> is a prefix of \<open>ys\<close>.\<close>

definition is_prefix :: "'a list \<Rightarrow> 'a list \<Rightarrow> bool" where
  "is_prefix xs ys \<longleftrightarrow> take (length xs) ys = xs"

subsection \<open>A failure-free computation\<close>

text \<open>
  \<open>no_throw m\<close>: from every state, \<open>m\<close> returns normally. Used to state which
  collaborators are assumed not to fail.
\<close>

definition no_throw :: "('a, 's) exn \<Rightarrow> bool" where
  "no_throw m \<longleftrightarrow> (\<forall>s. \<exists>a s'. m s = (Inr a, s'))"

subsection \<open>Evaluation rules\<close>

lemma ret_apply [simp, exn_simps]: "ret a s = (Inr a, s)"
  by (simp add: ret_def)

lemma throw_apply [simp, exn_simps]: "throw e s = (Inl e, s)"
  by (simp add: throw_def)

lemma lift_res_apply [simp, exn_simps]: "lift_res r s = (r, s)"
  by (simp add: lift_res_def)

lemma modify_st_apply [simp, exn_simps]: "modify_st f s = (Inr (), f s)"
  by (simp add: modify_st_def)

lemma bindx_apply [exn_simps]:
  "bindx m f s = (case m s of (Inl e, s') \<Rightarrow> (Inl e, s') | (Inr a, s') \<Rightarrow> f a s')"
  by (simp add: bindx_def)

lemma bindx_Inr [simp]: "m s = (Inr a, s') \<Longrightarrow> bindx m f s = f a s'"
  by (simp add: bindx_def)

lemma bindx_Inl [simp]: "m s = (Inl e, s') \<Longrightarrow> bindx m f s = (Inl e, s')"
  by (simp add: bindx_def)

lemma bindx_ret [simp]: "bindx (ret a) f = f a"
  by (rule ext) (simp add: bindx_def)

lemma bindx_throw [simp]: "bindx (throw e) f = throw e"
  by (rule ext) (simp add: bindx_def)

lemma bindx_modify_st [simp]: "bindx (modify_st g) f s = f () (g s)"
  by (simp add: bindx_def)

lemma bindx_lift_Inr [simp]: "bindx (lift_res (Inr a)) f = f a"
  by (rule ext) (simp add: bindx_def)

lemma bindx_lift_Inl [simp]: "bindx (lift_res (Inl e)) f = throw e"
  by (rule ext) (simp add: bindx_def)

lemma bindx_right_ret [simp]: "bindx m ret = m"
  by (rule ext) (simp add: bindx_def split: prod.splits sum.splits)

lemma bindx_assoc:
  "bindx (bindx m f) g = bindx m (\<lambda>a. bindx (f a) g)"
  by (rule ext) (simp add: bindx_def split: prod.splits sum.splits)

text \<open>Reading a composed run back: the first computation returned normally.\<close>

lemma bindx_eq_Inr:
  "bindx m f s = (Inr b, s'') \<longleftrightarrow> (\<exists>a s'. m s = (Inr a, s') \<and> f a s' = (Inr b, s''))"
  by (auto simp: bindx_def split: prod.splits sum.splits)

lemma bindx_eq_Inl:
  "bindx m f s = (Inl e, s'') \<longleftrightarrow>
     m s = (Inl e, s'') \<or> (\<exists>a s'. m s = (Inr a, s') \<and> f a s' = (Inl e, s''))"
  by (auto simp: bindx_def split: prod.splits sum.splits)

lemma is_prefix_Nil [simp]: "is_prefix [] ys"
  by (simp add: is_prefix_def)

lemma is_prefix_refl [simp]: "is_prefix xs xs"
  by (simp add: is_prefix_def)

lemma is_prefix_append_right: "is_prefix xs ys \<Longrightarrow> is_prefix xs (ys @ zs)"
proof -
  assume "is_prefix xs ys"
  then have t: "take (length xs) ys = xs" by (simp add: is_prefix_def)
  then have "length (take (length xs) ys) = length xs" by simp
  then have "length xs \<le> length ys" by simp
  with t show ?thesis by (simp add: is_prefix_def)
qed

lemma is_prefix_append_left: "is_prefix zs ys \<Longrightarrow> is_prefix (xs @ zs) (xs @ ys)"
  by (simp add: is_prefix_def)

lemma no_throw_ret [simp, intro]: "no_throw (ret a)"
  by (simp add: no_throw_def)

lemma no_throw_modify_st [simp, intro]: "no_throw (modify_st f)"
  by (simp add: no_throw_def)

lemma no_throw_bindx [intro]:
  "no_throw m \<Longrightarrow> (\<And>a. no_throw (f a)) \<Longrightarrow> no_throw (bindx m f)"
  unfolding no_throw_def by (metis bindx_Inr)

lemma split_on_no_sep: "c \<notin> set xs \<Longrightarrow> split_on c xs = [xs]"
  by (induction xs) auto

lemma split_on_sep: "c \<notin> set xs \<Longrightarrow> split_on c (xs @ c # ys) = xs # split_on c ys"
  by (induction xs) auto

lemma split_on_ne: "split_on c xs \<noteq> []"
  by (induction xs) (auto split: list.splits)

lemma split_on_append: "split_on c (xs @ c # ys) = split_on c xs @ split_on c ys"
proof (induction xs)
  case (Cons x xs)
  then show ?case using split_on_ne [of c xs] by (auto split: list.splits)
qed simp

lemma map_upd_add_map_of: "m(k \<mapsto> v) ++ map_of xs = m ++ map_of (xs @ [(k, v)])"
  by (rule ext) (simp add: map_add_def split: option.split)

end
