(* ===== verification/JsValue.thy ===== *)
theory JsValue
  imports Prelude
begin

text \<open>
  The JavaScript values the build command handles, and the few runtime operations
  it performs on them: truthiness (the \<^verbatim>\<open>||\<close>, \<^verbatim>\<open>!!\<close>, \<^verbatim>\<open>&&\<close> and \<^verbatim>\<open>?:\<close> of the
  source), property reads (\<^verbatim>\<open>a.b\<close>, which throws a TypeError on \<^verbatim>\<open>undefined\<close>
  and \<^verbatim>\<open>null\<close>, and optional chaining \<^verbatim>\<open>a?.b\<close>, which does not), and object
  literals with spread (\<^verbatim>\<open>{k: v, ...x}\<close>). Numbers are integers (no NaN or
  fractions: the command never computes with numbers). A function value is a
  \<open>JFun\<close> carrying the name of the closure it denotes; what calling it does is
  given by whoever interprets the name (the build command's closures, the
  bundler backend).
\<close>

datatype js =
    JUndef
  | JNull
  | JBool bool
  | JNum int
  | JStr string
  | JArr "js list"
  | JObj "(string \<times> js) list"
  | JFun string

type_synonym jobj = "(string \<times> js) list"

subsection \<open>Truthiness\<close>

fun truthy :: "js \<Rightarrow> bool" where
  "truthy JUndef = False"
| "truthy JNull = False"
| "truthy (JBool b) = b"
| "truthy (JNum n) = (n \<noteq> 0)"
| "truthy (JStr s) = (s \<noteq> [])"
| "truthy (JArr _) = True"
| "truthy (JObj _) = True"
| "truthy (JFun _) = True"

text \<open>\<^verbatim>\<open>a || b\<close>: the first operand when it is truthy, the second otherwise.\<close>

definition js_or :: "js \<Rightarrow> js \<Rightarrow> js" where
  "js_or a b = (if truthy a then a else b)"

definition nullish :: "js \<Rightarrow> bool" where
  "nullish v \<longleftrightarrow> v = JUndef \<or> v = JNull"

subsection \<open>Property reads\<close>

definition obj_get :: "jobj \<Rightarrow> string \<Rightarrow> js" where
  "obj_get ps k = (case map_of ps k of None \<Rightarrow> JUndef | Some v \<Rightarrow> v)"

text \<open>
  A property of a non-nullish value: an object's own property, \<^verbatim>\<open>undefined\<close> for
  a missing one. Primitives, arrays and functions have no own property the
  command reads.
\<close>

fun prop_of :: "js \<Rightarrow> string \<Rightarrow> js" where
  "prop_of (JObj ps) k = obj_get ps k"
| "prop_of _ k = JUndef"

text \<open>\<^verbatim>\<open>v.k\<close>: a TypeError on \<^verbatim>\<open>undefined\<close> and \<^verbatim>\<open>null\<close>.\<close>

definition get_prop :: "js \<Rightarrow> string \<Rightarrow> js res" where
  "get_prop v k =
     (if v = JUndef then Inl (TypeError (''Cannot read properties of undefined (reading '' @ k @ '')''))
      else if v = JNull then Inl (TypeError (''Cannot read properties of null (reading '' @ k @ '')''))
      else Inr (prop_of v k))"

text \<open>\<^verbatim>\<open>v?.k\<close>: \<^verbatim>\<open>undefined\<close> on a nullish value.\<close>

definition opt_get :: "js \<Rightarrow> string \<Rightarrow> js" where
  "opt_get v k = (if nullish v then JUndef else prop_of v k)"

subsection \<open>Object literals and spread\<close>

text \<open>
  Setting a key keeps its position when it exists and appends it otherwise, as
  JavaScript's own-property order does.
\<close>

definition obj_set :: "jobj \<Rightarrow> string \<Rightarrow> js \<Rightarrow> jobj" where
  "obj_set ps k v =
     (if k \<in> fst ` set ps then map (\<lambda>(k', v'). if k' = k then (k', v) else (k', v')) ps
      else ps @ [(k, v)])"

definition obj_spread :: "jobj \<Rightarrow> jobj \<Rightarrow> jobj" where
  "obj_spread ps qs = foldl (\<lambda>acc (k, v). obj_set acc k v) ps qs"

fun digit_char :: "nat \<Rightarrow> char" where
  "digit_char n = char_of (48 + n)"

fun nat_str :: "nat \<Rightarrow> string" where
  "nat_str n = (if n < 10 then [digit_char n] else nat_str (n div 10) @ [digit_char (n mod 10)])"

declare nat_str.simps [simp del]

definition indexed :: "js list \<Rightarrow> jobj" where
  "indexed xs = zip (map nat_str [0..<length xs]) xs"

text \<open>
  The own enumerable properties \<^verbatim>\<open>{...v}\<close> copies: an object's properties, the
  indexed elements of an array or the characters of a string, nothing for the
  other values (\<^verbatim>\<open>{...undefined}\<close> is \<^verbatim>\<open>{}\<close>).
\<close>

fun spread_props :: "js \<Rightarrow> jobj" where
  "spread_props (JObj ps) = ps"
| "spread_props (JArr xs) = indexed xs"
| "spread_props (JStr s) = indexed (map (\<lambda>c. JStr [c]) s)"
| "spread_props _ = []"

datatype lit_item = Field string js | Spread js

fun add_prop :: "jobj \<Rightarrow> lit_item \<Rightarrow> jobj" where
  "add_prop acc (Field k v) = obj_set acc k v"
| "add_prop acc (Spread x) = obj_spread acc (spread_props x)"

definition obj_lit :: "lit_item list \<Rightarrow> js" where
  "obj_lit props = JObj (foldl add_prop [] props)"

subsection \<open>Well-formed values\<close>

text \<open>A JavaScript object never has the same key twice.\<close>

fun wf_js :: "js \<Rightarrow> bool" where
  "wf_js (JArr xs) = list_all wf_js xs"
| "wf_js (JObj ps) = (distinct (map fst ps) \<and> list_all (\<lambda>p. wf_js (snd p)) ps)"
| "wf_js _ = True"

text \<open>
  The abstract meaning of an object literal: a key has the value of the last
  field or spread source, read from the right, that defines it.
\<close>

fun item_lookup :: "lit_item \<Rightarrow> string \<Rightarrow> js option" where
  "item_lookup (Field k' v) k = (if k = k' then Some v else None)"
| "item_lookup (Spread x) k = map_of (rev (spread_props x)) k"

fun lit_lookup :: "lit_item list \<Rightarrow> string \<Rightarrow> js option" where
  "lit_lookup [] k = None"
| "lit_lookup (p # ps) k = (case lit_lookup ps k of Some v \<Rightarrow> Some v | None \<Rightarrow> item_lookup p k)"

fun wf_item :: "lit_item \<Rightarrow> bool" where
  "wf_item (Field k v) = wf_js v"
| "wf_item (Spread x) = list_all (\<lambda>p. wf_js (snd p)) (spread_props x)"

text \<open>\<^verbatim>\<open>k in v\<close>: \<open>v\<close> has the own property \<open>k\<close>, whatever its value.\<close>

fun has_key :: "js \<Rightarrow> string \<Rightarrow> bool" where
  "has_key (JObj ps) k = (k \<in> fst ` set ps)"
| "has_key _ k = False"

subsection \<open>Objects: lookup after update and spread\<close>

lemma map_of_rekey:
  "map_of (map (\<lambda>(k', v'). if k' = k then (k', v) else (k', v')) ps) =
     (if k \<in> fst ` set ps then (map_of ps)(k \<mapsto> v) else map_of ps)"
  by (induction ps) (auto simp: fun_eq_iff)

lemma map_of_obj_set [simp]: "map_of (obj_set ps k v) = (map_of ps)(k \<mapsto> v)"
proof (cases "k \<in> fst ` set ps")
  case True
  then show ?thesis by (simp add: obj_set_def map_of_rekey)
next
  case False
  then have "map_of ps k = None" by (simp add: map_of_eq_None_iff)
  with False show ?thesis
    by (auto simp: obj_set_def fun_eq_iff map_add_def split: option.splits)
qed

lemma keys_obj_set [simp]: "map fst (obj_set ps k v) = (if k \<in> fst ` set ps then map fst ps else map fst ps @ [k])"
proof -
  have "map fst (map (\<lambda>(k', v'). if k' = k then (k', v) else (k', v')) ps) = map fst ps"
    by (induction ps) auto
  then show ?thesis by (simp add: obj_set_def)
qed

lemma distinct_obj_set [simp]: "distinct (map fst (obj_set ps k v)) = distinct (map fst ps)"
  by (auto simp: image_iff)

lemma obj_spread_Nil [simp]: "obj_spread ps [] = ps"
  by (simp add: obj_spread_def)

lemma obj_spread_Cons [simp]: "obj_spread ps ((k, v) # qs) = obj_spread (obj_set ps k v) qs"
  by (simp add: obj_spread_def)

lemma map_of_obj_spread [simp]:
  "map_of (obj_spread ps qs) = map_of ps ++ map_of (rev qs)"
proof (induction qs arbitrary: ps)
  case (Cons q qs)
  then show ?case by (cases q) (auto simp: fun_eq_iff map_add_def split: option.splits)
qed simp

lemma distinct_obj_spread [simp]:
  "distinct (map fst (obj_spread ps qs)) = distinct (map fst ps)"
proof (induction qs arbitrary: ps)
  case (Cons q qs)
  then show ?case by (cases q) (simp del: keys_obj_set)
qed simp

lemma map_of_add_prop:
  "map_of (add_prop acc p) k = (case item_lookup p k of Some v \<Rightarrow> Some v | None \<Rightarrow> map_of acc k)"
  by (cases p) (auto simp: map_add_def split: option.splits)

lemma map_of_foldl_add_prop:
  "map_of (foldl add_prop acc ps) k =
     (case lit_lookup ps k of Some v \<Rightarrow> Some v | None \<Rightarrow> map_of acc k)"
proof (induction ps arbitrary: acc)
  case Nil
  then show ?case by simp
next
  case (Cons p ps)
  then show ?case by (simp add: map_of_add_prop split: option.splits)
qed

text \<open>An object literal yields, for each key, the value its last definer gives.\<close>

lemma obj_lit_get:
  "prop_of (obj_lit ps) k = (case lit_lookup ps k of Some v \<Rightarrow> v | None \<Rightarrow> JUndef)"
  by (simp add: obj_lit_def obj_get_def map_of_foldl_add_prop split: option.splits)

lemma obj_lit_distinct: "obj_lit ps = JObj qs \<Longrightarrow> distinct (map fst qs)"
proof -
  have "distinct (map fst (foldl add_prop acc ps))" if "distinct (map fst acc)" for acc
    using that
  proof (induction ps arbitrary: acc)
    case (Cons p ps)
    then show ?case by (cases p) (simp_all del: keys_obj_set)
  qed simp
  then have "distinct (map fst (foldl add_prop [] ps))" by simp
  then show "obj_lit ps = JObj qs \<Longrightarrow> distinct (map fst qs)"
    by (simp add: obj_lit_def)
qed

subsection \<open>Well-formedness is preserved\<close>

lemma wf_vals_obj_set:
  "list_all (\<lambda>p. wf_js (snd p)) ps \<Longrightarrow> wf_js v \<Longrightarrow> list_all (\<lambda>p. wf_js (snd p)) (obj_set ps k v)"
  by (auto simp: obj_set_def list_all_iff)

lemma wf_vals_obj_spread:
  "list_all (\<lambda>p. wf_js (snd p)) ps \<Longrightarrow> list_all (\<lambda>p. wf_js (snd p)) qs \<Longrightarrow>
   list_all (\<lambda>p. wf_js (snd p)) (obj_spread ps qs)"
  by (induction qs arbitrary: ps) (auto simp: obj_spread_def wf_vals_obj_set)

lemma wf_vals_foldl_add_prop:
  "list_all (\<lambda>p. wf_js (snd p)) acc \<Longrightarrow> list_all wf_item ps \<Longrightarrow>
   list_all (\<lambda>p. wf_js (snd p)) (foldl add_prop acc ps)"
proof (induction ps arbitrary: acc)
  case (Cons p ps)
  then show ?case by (cases p) (auto simp: wf_vals_obj_set wf_vals_obj_spread)
qed simp

lemma wf_obj_lit: "list_all wf_item ps \<Longrightarrow> wf_js (obj_lit ps)"
  using obj_lit_distinct [of ps] wf_vals_foldl_add_prop [of "[]" ps]
  by (simp add: obj_lit_def)

lemma wf_item_Spread: "wf_js x \<Longrightarrow> wf_item (Spread x)"
  by (cases x) (auto simp: indexed_def list_all_iff dest!: set_zip_rightD)

lemma get_prop_JObj [simp]: "get_prop (JObj ps) k = Inr (obj_get ps k)"
  by (simp add: get_prop_def)

lemma get_prop_JUndef: "get_prop JUndef k = Inl (TypeError (''Cannot read properties of undefined (reading '' @ k @ '')''))"
  by (simp add: get_prop_def)


subsection \<open>Key presence and spread of a literal\<close>

lemma has_key_obj_lit: "has_key (obj_lit ps) k \<longleftrightarrow> lit_lookup ps k \<noteq> None"
proof -
  have "has_key (obj_lit ps) k \<longleftrightarrow> map_of (foldl add_prop [] ps) k \<noteq> None"
    by (simp add: obj_lit_def map_of_eq_None_iff)
  then show ?thesis by (simp add: map_of_foldl_add_prop split: option.splits)
qed

lemma map_of_rev_distinct: "distinct (map fst xs) \<Longrightarrow> map_of (rev xs) = map_of xs"
proof
  fix k
  assume d: "distinct (map fst xs)"
  then have d': "distinct (map fst (rev xs))" by (simp add: rev_map [symmetric])
  show "map_of (rev xs) k = map_of xs k"
  proof (cases "map_of xs k")
    case None
    then have "map_of (rev xs) k = None" by (simp add: map_of_eq_None_iff)
    with None show ?thesis by simp
  next
    case (Some v)
    with d d' show ?thesis by (simp add: map_of_eq_Some_iff)
  qed
qed

lemma item_lookup_Spread_obj_lit [simp]: "item_lookup (Spread (obj_lit ps)) k = lit_lookup ps k"
proof -
  have "distinct (map fst (foldl add_prop [] ps))" using obj_lit_distinct [of ps] by (simp add: obj_lit_def)
  then show ?thesis
    by (simp add: obj_lit_def map_of_rev_distinct map_of_foldl_add_prop split: option.splits)
qed

lemma get_prop_obj_lit [simp]: "get_prop (obj_lit ps) k = Inr (prop_of (obj_lit ps) k)"
  by (simp add: obj_lit_def get_prop_def)

end
