(* ===== verification/Hooks.thy ===== *)
theory Hooks
  imports JsValue
begin

text \<open>
  The hook registry and the dispatcher \<^verbatim>\<open>api.applyPlugins\<close> that the build
  command calls at every stage. Their code is in \<^verbatim>\<open>@umijs/core\<close>, outside
  \<^verbatim>\<open>src/\<close>; they are modelled from the spec (sections 4.1 and 4.2). A handler
  is a function of its JavaScript arguments that may change the world \<open>'w\<close> and
  may throw; the registry keeps, per key, the handlers in registration order.
  \<open>apply_plugins\<close> runs them: a MODIFY dispatch folds them over an accumulator,
  an EVENT dispatch runs them for their effects, a COLLECT dispatch is a MODIFY
  whose accumulator is a list. A call that names no mode gets it from its key,
  as the spec's stage list assigns them: \<^verbatim>\<open>on...\<close> keys are events,
  \<^verbatim>\<open>modify...\<close> keys modify, \<^verbatim>\<open>add...\<close> keys collect.
\<close>

record 'w hook =
  hook_plugin :: string
  hook_key :: string
  hook_fn :: "js list \<Rightarrow> (js, 'w) exn"

type_synonym 'w registry = "string \<rightharpoonup> 'w hook list"

datatype apply_type = Modify | Event | Collect

definition handlers_for :: "'w registry \<Rightarrow> string \<Rightarrow> 'w hook list" where
  "handlers_for r k = (case r k of None \<Rightarrow> [] | Some hs \<Rightarrow> hs)"

definition register :: "'w registry \<Rightarrow> 'w hook \<Rightarrow> 'w registry" where
  "register r h = r(hook_key h \<mapsto> handlers_for r (hook_key h) @ [h])"

text \<open>The plugin-loading phase: the handlers registered one after the other.\<close>

definition register_all :: "'w registry \<Rightarrow> 'w hook list \<Rightarrow> 'w registry" where
  "register_all r hs = foldl register r hs"

text \<open>MODIFY: \<open>acc := await handler(acc, args)\<close>, in order; a throw aborts.\<close>

fun run_modify :: "'w hook list \<Rightarrow> js \<Rightarrow> js \<Rightarrow> (js, 'w) exn" where
  "run_modify [] memo args = ret memo"
| "run_modify (h # hs) memo args =
     bindx (hook_fn h [memo, args]) (\<lambda>memo'. run_modify hs memo' args)"

text \<open>EVENT: \<open>await handler(args)\<close>, in order, results discarded; a throw aborts.\<close>

fun run_event :: "'w hook list \<Rightarrow> js \<Rightarrow> (unit, 'w) exn" where
  "run_event [] args = ret ()"
| "run_event (h # hs) args = bindx (hook_fn h [args]) (\<lambda>_. run_event hs args)"

fun infer_type :: "string \<Rightarrow> apply_type option \<Rightarrow> apply_type res" where
  "infer_type k (Some t) = Inr t"
| "infer_type k None =
     (if starts_with ''on'' k then Inr Event
      else if starts_with ''modify'' k then Inr Modify
      else if starts_with ''add'' k then Inr Collect
      else Inl (InvalidArguments (''Invalid applyPlugins arguments, type must be supplied for key '' @ k)))"

text \<open>
  \<open>apply_plugins r key type initialValue args\<close>; an absent \<open>initialValue\<close> is
  \<open>None\<close>, absent \<open>args\<close> are \<open>JUndef\<close>. An EVENT dispatch returns no meaningful
  value (\<open>JUndef\<close>).
\<close>

definition apply_plugins ::
  "'w registry \<Rightarrow> string \<Rightarrow> apply_type option \<Rightarrow> js option \<Rightarrow> js \<Rightarrow> (js, 'w) exn" where
  "apply_plugins r k ty init args =
     (case infer_type k ty of
        Inl e \<Rightarrow> throw e
      | Inr Modify \<Rightarrow> run_modify (handlers_for r k) (case init of None \<Rightarrow> JUndef | Some v \<Rightarrow> v) args
      | Inr Collect \<Rightarrow> run_modify (handlers_for r k) (case init of None \<Rightarrow> JArr [] | Some v \<Rightarrow> v) args
      | Inr Event \<Rightarrow> bindx (run_event (handlers_for r k) args) (\<lambda>_. ret JUndef))"

subsection \<open>Handlers that are plain functions\<close>

text \<open>
  The abstract contract of a dispatch (spec section 9): a MODIFY handler is a
  function \<open>acc \<Rightarrow> args \<Rightarrow> acc\<close>, an EVENT handler a function of the arguments
  with an effect on the world. Missing JavaScript arguments are \<open>undefined\<close>.
\<close>

definition arg :: "js list \<Rightarrow> nat \<Rightarrow> js" where
  "arg xs i = (if i < length xs then xs ! i else JUndef)"

definition pure_fn :: "(js \<Rightarrow> js \<Rightarrow> js) \<Rightarrow> js list \<Rightarrow> (js, 'w) exn" where
  "pure_fn f xs = ret (f (arg xs 0) (arg xs 1))"

definition event_fn :: "(js \<Rightarrow> 'w \<Rightarrow> 'w) \<Rightarrow> js list \<Rightarrow> (js, 'w) exn" where
  "event_fn g xs = bindx (modify_st (g (arg xs 0))) (\<lambda>_. ret JUndef)"

definition modify_hook :: "string \<Rightarrow> string \<Rightarrow> (js \<Rightarrow> js \<Rightarrow> js) \<Rightarrow> 'w hook" where
  "modify_hook p k f = \<lparr>hook_plugin = p, hook_key = k, hook_fn = pure_fn f\<rparr>"

definition event_hook :: "string \<Rightarrow> string \<Rightarrow> (js \<Rightarrow> 'w \<Rightarrow> 'w) \<Rightarrow> 'w hook" where
  "event_hook p k g = \<lparr>hook_plugin = p, hook_key = k, hook_fn = event_fn g\<rparr>"

definition failing_hook :: "string \<Rightarrow> string \<Rightarrow> string \<Rightarrow> 'w hook" where
  "failing_hook p k msg = \<lparr>hook_plugin = p, hook_key = k, hook_fn = (\<lambda>xs. throw (HandlerFailure msg))\<rparr>"

text \<open>The marker handler of the spec's ordering test: it appends its number.\<close>

definition append_marker :: "int \<Rightarrow> js \<Rightarrow> js \<Rightarrow> js" where
  "append_marker n m a = (case m of JArr xs \<Rightarrow> JArr (xs @ [JNum n]) | _ \<Rightarrow> m)"

subsection \<open>The registry\<close>

lemma handlers_for_empty [simp]: "handlers_for Map.empty k = []"
  by (simp add: handlers_for_def)

lemma handlers_for_register [simp]:
  "handlers_for (register r h) k =
     (if k = hook_key h then handlers_for r k @ [h] else handlers_for r k)"
  by (simp add: handlers_for_def register_def)

lemma register_all_Cons [simp]: "register_all r (h # hs) = register_all (register r h) hs"
  by (simp add: register_all_def)

lemma register_all_Nil [simp]: "register_all r [] = r"
  by (simp add: register_all_def)

lemma handlers_for_register_all:
  "handlers_for (register_all r hs) k = handlers_for r k @ filter (\<lambda>h. hook_key h = k) hs"
  by (induction hs arbitrary: r) simp_all

subsection \<open>Sequencing of handlers\<close>

lemma run_modify_append:
  "run_modify (hs1 @ hs2) m a = bindx (run_modify hs1 m a) (\<lambda>m'. run_modify hs2 m' a)"
  by (induction hs1 arbitrary: m) (simp_all add: bindx_assoc)

lemma run_event_append:
  "run_event (hs1 @ hs2) a = bindx (run_event hs1 a) (\<lambda>_. run_event hs2 a)"
  by (induction hs1) (simp_all add: bindx_assoc)

lemma arg_simps [simp]: "arg (x # xs) 0 = x" "arg (x # y # xs) (Suc 0) = y" "arg [] i = JUndef"
  by (simp_all add: arg_def)

lemma run_modify_pure:
  "map hook_fn hs = map pure_fn fs \<Longrightarrow>
   run_modify hs m a s = (Inr (foldl (\<lambda>m f. f m a) m fs), s)"
proof (induction fs arbitrary: hs m)
  case Nil
  then show ?case by simp
next
  case (Cons f fs)
  then obtain h hs' where hs: "hs = h # hs'" "hook_fn h = pure_fn f" and
    tl: "map hook_fn hs' = map pure_fn fs"
    by (cases hs) auto
  from Cons.IH [OF tl] hs show ?case by (simp add: pure_fn_def)
qed

lemma run_event_pure:
  "map hook_fn hs = map event_fn gs \<Longrightarrow>
   run_event hs a s = (Inr (), fold (\<lambda>g. g a) gs s)"
proof (induction gs arbitrary: hs s)
  case Nil
  then show ?case by simp
next
  case (Cons g gs)
  then obtain h hs' where hs: "hs = h # hs'" "hook_fn h = event_fn g" and
    tl: "map hook_fn hs' = map event_fn gs"
    by (cases hs) auto
  from Cons.IH [OF tl] hs show ?case by (simp add: event_fn_def)
qed

lemma apply_plugins_Modify:
  "infer_type k ty = Inr Modify \<Longrightarrow>
   apply_plugins r k ty init a = run_modify (handlers_for r k) (case init of None \<Rightarrow> JUndef | Some v \<Rightarrow> v) a"
  by (simp add: apply_plugins_def)

lemma apply_plugins_Event:
  "infer_type k ty = Inr Event \<Longrightarrow>
   apply_plugins r k ty init a = bindx (run_event (handlers_for r k) a) (\<lambda>_. ret JUndef)"
  by (simp add: apply_plugins_def)

lemma apply_plugins_Collect_is_Modify:
  "apply_plugins r k (Some Collect) (Some v) a = apply_plugins r k (Some Modify) (Some v) a"
  by (simp add: apply_plugins_def)

subsection \<open>What a dispatch does\<close>

text \<open>
  A MODIFY dispatch over a registry built by registering handlers one after
  the other is the left fold of the key's handlers, in registration order, over
  the initial value: handler \<open>i\<close> receives what handler \<open>i - 1\<close> returned, and
  the dispatch returns what the last one returned. Handlers of other keys may be
  registered in between; they do not run.
\<close>

lemma dispatch_modify_fold:
  assumes "infer_type k ty = Inr Modify"
    and "map hook_fn (filter (\<lambda>h. hook_key h = k) hs) = map pure_fn fs"
  shows "apply_plugins (register_all Map.empty hs) k ty (Some v) a s = (Inr (foldl (\<lambda>m f. f m a) v fs), s)"
  using assms by (simp add: apply_plugins_Modify handlers_for_register_all run_modify_pure)

text \<open>
  An EVENT dispatch runs the key's handlers strictly one after the other in
  registration order: their effects on the world compose in that order, and the
  dispatch returns no value.
\<close>

lemma dispatch_event_order:
  assumes "infer_type k ty = Inr Event"
    and "map hook_fn (filter (\<lambda>h. hook_key h = k) hs) = map event_fn gs"
  shows "apply_plugins (register_all Map.empty hs) k ty init a s = (Inr JUndef, fold (\<lambda>g. g a) gs s)"
  using assms by (simp add: apply_plugins_Event handlers_for_register_all run_event_pure)

text \<open>
  Error policy: when a handler of a MODIFY dispatch throws, the dispatch
  throws that error at once, in the world the failing handler left; the handlers
  registered after it do not run (the outcome does not depend on them), and no
  partial result is returned.
\<close>

lemma dispatch_modify_abort:
  assumes "infer_type k ty = Inr Modify"
    and "handlers_for r k = hs1 @ h # hs2"
    and "run_modify hs1 (case init of None \<Rightarrow> JUndef | Some v \<Rightarrow> v) a s = (Inr m1, s1)"
    and "hook_fn h [m1, a] s1 = (Inl e, s2)"
  shows "apply_plugins r k ty init a s = (Inl e, s2)"
  using assms by (simp add: apply_plugins_Modify run_modify_append)

text \<open>
  A dispatch on a key with no registered handler never changes the world:
  MODIFY returns its initial value unchanged (\<open>undefined\<close> when none is given),
  COLLECT its initial list, EVENT nothing.
\<close>

lemma dispatch_no_handlers:
  assumes "handlers_for r k = []"
  shows "apply_plugins r k ty init a s =
    (case infer_type k ty of
       Inl e \<Rightarrow> (Inl e, s)
     | Inr Modify \<Rightarrow> (Inr (case init of None \<Rightarrow> JUndef | Some v \<Rightarrow> v), s)
     | Inr Collect \<Rightarrow> (Inr (case init of None \<Rightarrow> JArr [] | Some v \<Rightarrow> v), s)
     | Inr Event \<Rightarrow> (Inr JUndef, s))"
  using assms by (simp add: apply_plugins_def split: sum.split apply_type.split)

end
