(* ===== verification/Effects.thy ===== *)
theory Effects
  imports Hooks
begin

text \<open>
  The state the build command acts on. The \<open>world\<close> is what plugins, the
  bundler backend and the command share: the files and directories on disk, and
  the paths a write fails on (a full disk, a missing permission). The
  \<open>pstate\<close> adds the record of what the command itself did, in order
  (\<open>trace\<close>): each hook it dispatched, the backend call, the size measurement,
  each directory it created and file it wrote. What anyone prints goes to the
  world's \<open>console\<close>. Handlers
  and the backend see the world only. Paths are strings; \<^verbatim>\<open>path.resolve\<close>,
  \<^verbatim>\<open>path.join\<close> and \<^verbatim>\<open>path.dirname\<close> are modelled for absolute base
  paths; \<^verbatim>\<open>path.resolve\<close> normalises \<^verbatim>\<open>.\<close> and \<^verbatim>\<open>..\<close>
  segments as Node does.
\<close>

record world =
  files :: "string \<rightharpoonup> string"
  dirs :: "string set"
  unwritable :: "string set"
  console :: "string list"

datatype act =
    Hook string          \<comment> \<open>\<^verbatim>\<open>api.applyPlugins({key})\<close>, called by the command\<close>
  | BuildCall            \<comment> \<open>\<^verbatim>\<open>bundler.build(opts)\<close>\<close>
  | Rimraf string        \<comment> \<open>\<^verbatim>\<open>rimraf.sync\<close>\<close>
  | MeasureDir string    \<comment> \<open>\<^verbatim>\<open>measureFileSizesBeforeBuild\<close>\<close>
  | PrintSizes string js js  \<comment> \<open>\<^verbatim>\<open>printFileSizesAfterBuild({buildFolder, previousSizeMap, webpackStats})\<close>\<close>
  | Mkdirp string        \<comment> \<open>\<^verbatim>\<open>fsExtra.mkdirpSync\<close>\<close>
  | WriteFile string     \<comment> \<open>\<^verbatim>\<open>writeFileSync\<close>\<close>

record pstate =
  world :: world
  trace :: "act list"

subsection \<open>Paths\<close>

definition path_join :: "string \<Rightarrow> string \<Rightarrow> string" where
  "path_join a b = a @ ''/'' @ b"

text \<open>
  Node's \<^verbatim>\<open>normalizeString\<close> on an absolute path: empty and \<^verbatim>\<open>.\<close>
  segments are dropped, \<^verbatim>\<open>..\<close> removes the segment before it (and nothing
  at the root), and the segments left are joined under \<^verbatim>\<open>/\<close>.
\<close>

fun norm_segs :: "string list \<Rightarrow> string list \<Rightarrow> string list" where
  "norm_segs acc [] = rev acc"
| "norm_segs acc (s # ss) =
     (if s = [] \<or> s = ''.'' then norm_segs acc ss
      else if s = ''..'' then norm_segs (drop 1 acc) ss
      else norm_segs (s # acc) ss)"

fun seg_join :: "string list \<Rightarrow> string" where
  "seg_join [] = []"
| "seg_join [s] = s"
| "seg_join (s # t # ss) = s @ ''/'' @ seg_join (t # ss)"

definition path_str :: "string list \<Rightarrow> string" where
  "path_str ss = ''/'' @ seg_join ss"

definition path_normalize :: "string \<Rightarrow> string" where
  "path_normalize p = path_str (norm_segs [] (split_on CHR ''/'' p))"

text \<open>
  \<^verbatim>\<open>path.resolve(base, p)\<close> for an absolute \<open>base\<close>: an absolute \<open>p\<close>
  replaces the base, a relative one is appended to it, and the result is
  normalised, with no trailing separator.
\<close>

definition path_resolve :: "string \<Rightarrow> string \<Rightarrow> string" where
  "path_resolve base p = path_normalize (if starts_with ''/'' p then p else base @ ''/'' @ p)"

definition path_dirname :: "string \<Rightarrow> string" where
  "path_dirname p =
     (let q = rev (dropWhile (\<lambda>c. c \<noteq> CHR ''/'') (rev p))
      in if q = [] then ''.'' else if q = ''/'' then ''/'' else butlast q)"

text \<open>A directory and all its ancestors, as \<^verbatim>\<open>mkdir -p\<close> creates them.\<close>

definition path_prefixes :: "string \<Rightarrow> string list" where
  "path_prefixes d = map (\<lambda>i. take i d) (filter (\<lambda>i. i = length d \<or> d ! i = CHR ''/'') [1..<Suc (length d)])"

text \<open>A path segment that normalisation keeps as it is.\<close>

definition seg_ok :: "string \<Rightarrow> bool" where
  "seg_ok s \<longleftrightarrow> s \<noteq> [] \<and> s \<noteq> ''.'' \<and> s \<noteq> ''..'' \<and> CHR ''/'' \<notin> set s"

definition under :: "string \<Rightarrow> string \<Rightarrow> bool" where
  "under p q \<longleftrightarrow> q = p \<or> starts_with (p @ ''/'') q"

subsection \<open>File-system calls on the world\<close>

definition rimraf :: "string \<Rightarrow> world \<Rightarrow> world" where
  "rimraf p w = w\<lparr>files := (\<lambda>q. if under p q then None else files w q),
                  dirs := {d \<in> dirs w. \<not> under p d}\<rparr>"

definition mkdirp :: "string \<Rightarrow> (unit, world) exn" where
  "mkdirp d w =
     (if d \<in> unwritable w then (Inl (IOFailure (''EACCES: permission denied, mkdir '' @ d)), w)
      else (Inr (), w\<lparr>dirs := dirs w \<union> set (path_prefixes d)\<rparr>))"

definition write_file :: "string \<Rightarrow> string \<Rightarrow> (unit, world) exn" where
  "write_file p c w =
     (if path_dirname p \<notin> dirs w then (Inl (IOFailure (''ENOENT: no such file or directory, open '' @ p)), w)
      else if p \<in> unwritable w then (Inl (IOFailure (''EACCES: permission denied, open '' @ p)), w)
      else (Inr (), w\<lparr>files := (files w)(p \<mapsto> c)\<rparr>))"

text \<open>\<^verbatim>\<open>logger.info\<close>, \<^verbatim>\<open>logger.event\<close>, \<^verbatim>\<open>console.log\<close>: one line on the console.\<close>

definition log_line :: "string \<Rightarrow> (unit, world) exn" where
  "log_line l = modify_st (\<lambda>w. w\<lparr>console := console w @ [l]\<rparr>)"

subsection \<open>The command's own steps\<close>

definition on_world :: "('a, world) exn \<Rightarrow> ('a, pstate) exn" where
  "on_world m ps = (case m (world ps) of (r, w') \<Rightarrow> (r, ps\<lparr>world := w'\<rparr>))"

definition log_msg :: "string \<Rightarrow> (unit, pstate) exn" where
  "log_msg l = on_world (log_line l)"

definition read_world :: "(world \<Rightarrow> 'a) \<Rightarrow> ('a, pstate) exn" where
  "read_world f ps = (Inr (f (world ps)), ps)"

definition emit :: "act \<Rightarrow> (unit, pstate) exn" where
  "emit a = modify_st (\<lambda>ps. ps\<lparr>trace := trace ps @ [a]\<rparr>)"

text \<open>A dispatch issued by the command: recorded, then run on the world.\<close>

definition hook :: "world registry \<Rightarrow> string \<Rightarrow> apply_type option \<Rightarrow> js option \<Rightarrow> js \<Rightarrow> (js, pstate) exn" where
  "hook r k ty init args = bindx (emit (Hook k)) (\<lambda>_. on_world (apply_plugins r k ty init args))"

subsection \<open>Evaluating paths\<close>

lemmas path_eval = path_resolve_def path_normalize_def path_str_def starts_with_def

subsection \<open>Reading a dispatch back\<close>

lemma hook_eq_Inr:
  "hook r k ty i args ps = (Inr v, ps') \<longleftrightarrow>
     (\<exists>w'. apply_plugins r k ty i args (world ps) = (Inr v, w') \<and>
           ps' = ps\<lparr>trace := trace ps @ [Hook k], world := w'\<rparr>)"
  by (auto simp: hook_def emit_def on_world_def bindx_def split: prod.splits sum.splits)

subsection \<open>Paths and directories\<close>

lemma path_dirname_ne: "path_dirname p \<noteq> []"
proof (cases "dropWhile (\<lambda>c. c \<noteq> CHR ''/'') (rev p) = []")
  case True
  then show ?thesis by (simp add: path_dirname_def)
next
  case False
  let ?d = "dropWhile (\<lambda>c. c \<noteq> CHR ''/'') (rev p)"
  have h: "hd ?d = CHR ''/''" using hd_dropWhile [OF False] by simp
  show ?thesis
  proof (cases "rev ?d = ''/''")
    case True
    then show ?thesis by (simp add: path_dirname_def)
  next
    case ne: False
    obtain x xs where dx: "?d = x # xs" using False by (cases ?d) auto
    with h have "x = CHR ''/''" by simp
    with ne dx have "xs \<noteq> []" by auto
    with dx have "butlast (rev ?d) \<noteq> []" by simp
    with False ne show ?thesis by (simp add: path_dirname_def Let_def)
  qed
qed

lemma split_on_seg_join:
  "ss \<noteq> [] \<Longrightarrow> \<forall>s \<in> set ss. CHR ''/'' \<notin> set s \<Longrightarrow> split_on CHR ''/'' (seg_join ss) = ss"
  by (induction ss rule: seg_join.induct) (simp_all add: split_on_append split_on_no_sep)

lemma norm_segs_append: "norm_segs acc (xs @ ys) = norm_segs (rev (norm_segs acc xs)) ys"
  by (induction acc xs rule: norm_segs.induct) auto

lemma norm_segs_no_up:
  "''..'' \<notin> set xs \<Longrightarrow> norm_segs acc xs = rev acc @ filter (\<lambda>s. s \<noteq> [] \<and> s \<noteq> ''.'') xs"
  by (induction acc xs rule: norm_segs.induct) auto

lemma norm_segs_ok: "\<forall>s \<in> set xs. seg_ok s \<Longrightarrow> norm_segs acc xs = rev acc @ xs"
  by (induction acc xs rule: norm_segs.induct) (auto simp: seg_ok_def)

lemma seg_join_append:
  "xs \<noteq> [] \<Longrightarrow> ys \<noteq> [] \<Longrightarrow> seg_join (xs @ ys) = seg_join xs @ ''/'' @ seg_join ys"
  by (induction xs rule: seg_join.induct) (auto simp: neq_Nil_conv)

text \<open>
  Resolving a relative path with no \<^verbatim>\<open>..\<close> segment against a normalised
  absolute base appends its non-empty, non-\<^verbatim>\<open>.\<close> segments to the base.
\<close>

lemma path_resolve_relative:
  assumes "os \<noteq> []" and "\<forall>s \<in> set os. seg_ok s"
    and "\<not> starts_with ''/'' p" and "''..'' \<notin> set (split_on CHR ''/'' p)"
  shows "path_resolve (path_str os) p = path_str (os @ filter (\<lambda>s. s \<noteq> [] \<and> s \<noteq> ''.'') (split_on CHR ''/'' p))"
proof -
  have "split_on CHR ''/'' (path_str os @ ''/'' @ p) = [] # os @ split_on CHR ''/'' p"
    using assms(1,2) by (simp add: path_str_def split_on_append split_on_seg_join seg_ok_def)
  moreover have "norm_segs [] (os @ split_on CHR ''/'' p) = os @ filter (\<lambda>s. s \<noteq> [] \<and> s \<noteq> ''.'') (split_on CHR ''/'' p)"
    using assms(2,4) by (simp add: norm_segs_append norm_segs_ok norm_segs_no_up)
  ultimately show ?thesis using assms(3) by (simp add: path_resolve_def path_normalize_def)
qed

lemma split_on_climb:
  "split_on CHR ''/'' (concat (replicate n ''../'') @ r) = replicate n ''..'' @ split_on CHR ''/'' r"
  by (induction n) (simp_all add: split_on_append [of _ "''..''", simplified] split_on_no_sep)

lemma norm_segs_climb: "norm_segs acc (replicate (length acc) ''..'' @ xs) = norm_segs [] xs"
  by (induction acc) simp_all

text \<open>
  Climbing out with as many \<^verbatim>\<open>..\<close> segments as the base has, or giving an
  absolute path, reaches the same file whatever the base is.
\<close>

lemma path_resolve_climb:
  assumes "\<forall>s \<in> set os. seg_ok s"
  shows "path_resolve (path_str os) (concat (replicate (length os) ''../'') @ r) = path_normalize r"
proof (cases "os = [] \<and> starts_with ''/'' r")
  case True
  then show ?thesis by (simp add: path_resolve_def)
next
  case False
  have rel: "\<not> starts_with ''/'' (concat (replicate (length os) ''../'') @ r)"
    using False by (cases os) (simp_all add: starts_with_def)
  have "split_on CHR ''/'' (path_str os @ ''/'' @ concat (replicate (length os) ''../'') @ r) =
        [] # (if os = [] then [[]] else os) @ replicate (length os) ''..'' @ split_on CHR ''/'' r"
    using assms
    by (cases "os = []") (simp_all add: path_str_def split_on_append split_on_seg_join seg_ok_def split_on_climb)
  moreover have "norm_segs [] ((if os = [] then [[]] else os) @ replicate (length os) ''..'' @ xs) = norm_segs [] xs" for xs
    using assms norm_segs_climb [of "rev os" xs]
    by (cases "os = []") (simp_all add: norm_segs_append norm_segs_ok)
  ultimately show ?thesis using rel by (simp add: path_resolve_def path_normalize_def)
qed

lemma under_path_str_append: "os \<noteq> [] \<Longrightarrow> under (path_str os) (path_str (os @ ss))"
  by (cases "ss = []") (simp_all add: under_def path_str_def seg_join_append starts_with_def)

lemma in_path_prefixes: "d \<noteq> [] \<Longrightarrow> d \<in> set (path_prefixes d)"
  unfolding path_prefixes_def set_map
  by (rule image_eqI [where x = "length d"]) (simp_all add: Suc_le_eq)

subsection \<open>Dispatches issued by the command\<close>

text \<open>
  C16. A dispatch of a key with no handler (spec section 8): under MODIFY it
  returns the initial value unchanged, under EVENT it returns \<^verbatim>\<open>undefined\<close>,
  and in both cases the world is untouched; only the command's own trace
  records the dispatch.
\<close>

theorem hook_no_handlers:
  assumes "handlers_for r k = []"
  shows "(infer_type k ty = Inr Modify \<longrightarrow> hook r k ty (Some v) args ps = (Inr v, ps\<lparr>trace := trace ps @ [Hook k]\<rparr>)) \<and>
         (infer_type k ty = Inr Event \<longrightarrow> hook r k ty i args ps = (Inr JUndef, ps\<lparr>trace := trace ps @ [Hook k]\<rparr>))"
  using assms by (simp add: hook_def emit_def on_world_def dispatch_no_handlers)

theorem hook_no_handlers_witness:
  "hook Map.empty ''modifyEntry'' None (Some (JStr ''x'')) JUndef \<lparr>world = \<lparr>files = Map.empty, dirs = {}, unwritable = {}, console = []\<rparr>, trace = []\<rparr> =
     (Inr (JStr ''x''), \<lparr>world = \<lparr>files = Map.empty, dirs = {}, unwritable = {}, console = []\<rparr>, trace = []\<rparr>\<lparr>trace := [Hook ''modifyEntry'']\<rparr>) \<and>
   hook Map.empty ''onCheckPkgJSON'' None None JUndef \<lparr>world = \<lparr>files = Map.empty, dirs = {}, unwritable = {}, console = []\<rparr>, trace = []\<rparr> = (Inr JUndef, \<lparr>world = \<lparr>files = Map.empty, dirs = {}, unwritable = {}, console = []\<rparr>, trace = []\<rparr>\<lparr>trace := [Hook ''onCheckPkgJSON'']\<rparr>)"
  using hook_no_handlers [of "Map.empty" "''modifyEntry''" None "JStr ''x''" JUndef "\<lparr>world = \<lparr>files = Map.empty, dirs = {}, unwritable = {}, console = []\<rparr>, trace = []\<rparr>"]
    hook_no_handlers [of "Map.empty" "''onCheckPkgJSON''" None "JStr ''x''" JUndef "\<lparr>world = \<lparr>files = Map.empty, dirs = {}, unwritable = {}, console = []\<rparr>, trace = []\<rparr>" None]
  by (simp add: starts_with_def)

text \<open>
  C17. Under MODIFY the handlers of a key run in the order the plugins
  registered them, each receiving the previous one's result (spec section 8):
  when the plugin-loading phase registers \<open>hs\<close> one after the other and the
  handlers of key \<open>k\<close> among them are the pure functions \<open>fs\<close>, in
  registration order, the dispatch returns the left fold of \<open>fs\<close> over the
  initial value; handlers of other keys do not run, and the world is
  untouched.
\<close>

theorem hook_modify_order:
  assumes "infer_type k ty = Inr Modify"
    and "map hook_fn (filter (\<lambda>h. hook_key h = k) hs) = map pure_fn fs"
  shows "hook (register_all Map.empty hs) k ty (Some v) args ps =
           (Inr (foldl (\<lambda>m f. f m args) v fs), ps\<lparr>trace := trace ps @ [Hook k]\<rparr>)"
  using dispatch_modify_fold [OF assms, of v args "world ps"]
  by (simp add: hook_def emit_def on_world_def)

theorem hook_modify_order_witness:
  "hook (register_all Map.empty [modify_hook ''p1'' ''modifyEntry'' (append_marker 1),
          modify_hook ''p2'' ''modifyHTML'' (append_marker 9),
          modify_hook ''p2'' ''modifyEntry'' (append_marker 2), modify_hook ''p3'' ''modifyEntry'' (append_marker 3)])
     ''modifyEntry'' None (Some (JArr [])) JUndef \<lparr>world = \<lparr>files = Map.empty, dirs = {}, unwritable = {}, console = []\<rparr>, trace = []\<rparr> =
   (Inr (JArr [JNum 1, JNum 2, JNum 3]), \<lparr>world = \<lparr>files = Map.empty, dirs = {}, unwritable = {}, console = []\<rparr>, trace = [Hook ''modifyEntry'']\<rparr>)"
  using hook_modify_order [where k = "''modifyEntry''" and ty = None
      and hs = "[modify_hook ''p1'' ''modifyEntry'' (append_marker 1), modify_hook ''p2'' ''modifyHTML'' (append_marker 9),
          modify_hook ''p2'' ''modifyEntry'' (append_marker 2), modify_hook ''p3'' ''modifyEntry'' (append_marker 3)]"
      and fs = "[append_marker 1, append_marker 2, append_marker 3]" and v = "JArr []" and args = JUndef
      and ps = "\<lparr>world = \<lparr>files = Map.empty, dirs = {}, unwritable = {}, console = []\<rparr>, trace = []\<rparr>"]
  by (simp add: starts_with_def modify_hook_def append_marker_def)

end
