(* ===== verification/Semver.thy ===== *)
theory Semver
  imports JsValue
begin

text \<open>
  \<^verbatim>\<open>semver.gte(v, '17.0.0')\<close> (line 104 of build.ts) decides the React runtime.
  node-semver is a library the command only calls; spec section 4.4 fixes the
  contract the command relies on, and this theory models it: a version string
  is trimmed, may start with \<^verbatim>\<open>v\<close>, has three numeric parts without leading
  zeros, an optional pre-release (\<^verbatim>\<open>-rc.1\<close>) and optional build metadata
  (\<^verbatim>\<open>+sha\<close>, ignored in comparisons); anything else, or a value that is not a
  string, makes the constructor throw a TypeError. Precedence is SemVer's:
  numeric parts first, then a pre-release is lower than the release, and
  pre-release identifiers compare numerically, numeric below alphanumeric,
  alphanumeric in ASCII order, a shorter list below a longer one it prefixes.
\<close>

datatype ident = NumId nat | AlnumId string

type_synonym version = "(nat \<times> nat \<times> nat) \<times> ident list"

definition sv_digit :: "char \<Rightarrow> bool" where
  "sv_digit c \<longleftrightarrow> (48::nat) \<le> of_char c \<and> of_char c \<le> (57::nat)"

definition sv_ident_char :: "char \<Rightarrow> bool" where
  "sv_ident_char c \<longleftrightarrow> sv_digit c \<or> c = CHR ''-'' \<or>
     ((65::nat) \<le> of_char c \<and> of_char c \<le> (90::nat)) \<or> ((97::nat) \<le> of_char c \<and> of_char c \<le> (122::nat))"

definition sv_space :: "char \<Rightarrow> bool" where
  "sv_space c \<longleftrightarrow> c \<in> {CHR '' '', CHR 0x09, CHR 0x0A, CHR 0x0B, CHR 0x0C, CHR 0x0D}"

definition sv_trim :: "string \<Rightarrow> string" where
  "sv_trim s = rev (dropWhile sv_space (rev (dropWhile sv_space s)))"

definition digits_val :: "string \<Rightarrow> nat" where
  "digits_val s = foldl (\<lambda>n c. 10 * n + (of_char c - 48)) 0 s"

text \<open>\<^verbatim>\<open>0|[1-9]\d*\<close>\<close>

definition numeric_id :: "string \<Rightarrow> bool" where
  "numeric_id s \<longleftrightarrow> s \<noteq> [] \<and> list_all sv_digit s \<and> (s = ''0'' \<or> hd s \<noteq> CHR ''0'')"

definition MAX_SAFE_INTEGER :: nat where
  "MAX_SAFE_INTEGER = 9007199254740991"

definition parse_pre_ident :: "string \<Rightarrow> ident option" where
  "parse_pre_ident s =
     (if numeric_id s then Some (NumId (digits_val s))
      else if s \<noteq> [] \<and> list_all sv_ident_char s \<and> \<not> list_all sv_digit s then Some (AlnumId s)
      else None)"

definition parse_core :: "string \<Rightarrow> (nat \<times> nat \<times> nat) option" where
  "parse_core s = (case split_on CHR ''.'' s of
       [a, b, c] \<Rightarrow> if numeric_id a \<and> numeric_id b \<and> numeric_id c
                   then Some (digits_val a, digits_val b, digits_val c) else None
     | _ \<Rightarrow> None)"

text \<open>The text after the version core: \<^verbatim>\<open>(-PRE)?(+BUILD)?\<close>.\<close>

definition parse_tail :: "string \<Rightarrow> ident list option" where
  "parse_tail t =
     (let pre = (if t \<noteq> [] \<and> hd t = CHR ''-'' then takeWhile (\<lambda>c. c \<noteq> CHR ''+'') (tl t) else []);
          rest = (if t \<noteq> [] \<and> hd t = CHR ''-'' then dropWhile (\<lambda>c. c \<noteq> CHR ''+'') (tl t) else t);
          pres = (if t \<noteq> [] \<and> hd t = CHR ''-'' then map parse_pre_ident (split_on CHR ''.'' pre) else []);
          build_ok = (rest = [] \<or> (hd rest = CHR ''+'' \<and>
                        list_all (\<lambda>b. b \<noteq> [] \<and> list_all sv_ident_char b) (split_on CHR ''.'' (tl rest))))
      in if build_ok \<and> list_all (\<lambda>p. p \<noteq> None) pres then Some (map the pres) else None)"

definition parse_version :: "string \<Rightarrow> version option" where
  "parse_version s =
     (let t = sv_trim s;
          u = (if t \<noteq> [] \<and> hd t = CHR ''v'' then tl t else t);
          core = takeWhile (\<lambda>c. c \<noteq> CHR ''-'' \<and> c \<noteq> CHR ''+'') u;
          tail = dropWhile (\<lambda>c. c \<noteq> CHR ''-'' \<and> c \<noteq> CHR ''+'') u
      in case (parse_core core, parse_tail tail) of
           (Some m, Some p) \<Rightarrow> Some (m, p)
         | _ \<Rightarrow> None)"

fun str_less :: "string \<Rightarrow> string \<Rightarrow> bool" where
  "str_less [] [] = False"
| "str_less [] (y # ys) = True"
| "str_less (x # xs) [] = False"
| "str_less (x # xs) (y # ys) =
     (if x = y then str_less xs ys else (of_char x :: nat) < of_char y)"

fun ident_less :: "ident \<Rightarrow> ident \<Rightarrow> bool" where
  "ident_less (NumId a) (NumId b) = (a < b)"
| "ident_less (NumId a) (AlnumId b) = True"
| "ident_less (AlnumId a) (NumId b) = False"
| "ident_less (AlnumId a) (AlnumId b) = str_less a b"

fun ids_less :: "ident list \<Rightarrow> ident list \<Rightarrow> bool" where
  "ids_less [] [] = False"
| "ids_less [] (y # ys) = True"
| "ids_less (x # xs) [] = False"
| "ids_less (x # xs) (y # ys) = (if x = y then ids_less xs ys else ident_less x y)"

text \<open>A release (no pre-release) is above every pre-release of the same core.\<close>

definition pre_less :: "ident list \<Rightarrow> ident list \<Rightarrow> bool" where
  "pre_less p q = (if p = [] then False else if q = [] then True else ids_less p q)"

definition version_less :: "version \<Rightarrow> version \<Rightarrow> bool" where
  "version_less v w =
     (case (v, w) of ((m1, p1), (m2, p2)) \<Rightarrow>
        (let (a1, b1, c1) = m1; (a2, b2, c2) = m2 in
         a1 < a2 \<or> (a1 = a2 \<and> (b1 < b2 \<or> (b1 = b2 \<and> (c1 < c2 \<or> (c1 = c2 \<and> pre_less p1 p2)))))))"

text \<open>\<^verbatim>\<open>new SemVer(v)\<close>: the checks of the constructor, in its order.\<close>

definition to_version :: "js \<Rightarrow> version res" where
  "to_version v =
     (case v of
        JStr s \<Rightarrow>
          if 256 < length s then Inl (TypeError ''version is longer than 256 characters'')
          else (case parse_version s of
                  None \<Rightarrow> Inl (TypeError (''Invalid Version: '' @ s))
                | Some ((a, b, c), p) \<Rightarrow>
                    if MAX_SAFE_INTEGER < a then Inl (TypeError ''Invalid major version'')
                    else if MAX_SAFE_INTEGER < b then Inl (TypeError ''Invalid minor version'')
                    else if MAX_SAFE_INTEGER < c then Inl (TypeError ''Invalid patch version'')
                    else Inr ((a, b, c), p))
      | _ \<Rightarrow> Inl (TypeError ''Invalid version. Must be a string.''))"

definition semver_gte :: "js \<Rightarrow> js \<Rightarrow> bool res" where
  "semver_gte a b =
     (case to_version a of
        Inl e \<Rightarrow> Inl e
      | Inr v \<Rightarrow> (case to_version b of Inl e \<Rightarrow> Inl e | Inr w \<Rightarrow> Inr (\<not> version_less v w)))"

text \<open>A plain release version, as \<^verbatim>\<open>major.minor.patch\<close>.\<close>

definition release_str :: "nat \<Rightarrow> nat \<Rightarrow> nat \<Rightarrow> string" where
  "release_str a b c = nat_str a @ ''.'' @ nat_str b @ ''.'' @ nat_str c"

subsection \<open>Release strings parse back to their numbers\<close>

lemma of_char_digit: "n < 10 \<Longrightarrow> of_char (char_of (48 + n) :: char) = (48 + n :: nat)"
  by simp

lemma sv_digit_digit_char: "(n::nat) < 10 \<Longrightarrow> sv_digit (char_of (48 + n))"
  by (simp add: sv_digit_def)

lemma digit_char_nonzero: "0 < (n::nat) \<Longrightarrow> n < 10 \<Longrightarrow> char_of (48 + n) \<noteq> CHR ''0''"
proof
  assume "0 < n" "n < 10" "char_of (48 + n) = CHR ''0''"
  then have "of_char (char_of (48 + n) :: char) = (of_char CHR ''0'' :: nat)" by simp
  with \<open>0 < n\<close> \<open>n < 10\<close> show False by (simp only: of_char_digit) simp
qed

lemma nat_str_digits: "list_all sv_digit (nat_str n)"
  by (induction n rule: nat_str.induct) (subst nat_str.simps, simp add: sv_digit_digit_char)

lemma nat_str_ne [simp]: "nat_str n \<noteq> []"
  by (subst nat_str.simps) simp

lemma nat_str_hd: "0 < n \<Longrightarrow> hd (nat_str n) \<noteq> CHR ''0''"
proof (induction n rule: nat_str.induct)
  case (1 n)
  show ?case
  proof (cases "n < 10")
    case True
    with "1.prems" show ?thesis by (subst nat_str.simps) (simp add: digit_char_nonzero)
  next
    case False
    then have "0 < n div 10" by simp
    with False "1.IH" show ?thesis by (subst nat_str.simps) simp
  qed
qed

lemma digits_val_snoc: "digits_val (xs @ [c]) = 10 * digits_val xs + (of_char c - 48)"
  by (simp add: digits_val_def)

lemma digits_val_nat_str [simp]: "digits_val (nat_str n) = n"
proof (induction n rule: nat_str.induct)
  case (1 n)
  then show ?case
    by (subst nat_str.simps) (simp add: digits_val_snoc, simp add: digits_val_def)
qed

lemma numeric_id_nat_str: "numeric_id (nat_str n)"
proof (cases "n = 0")
  case True
  then show ?thesis by (simp add: numeric_id_def nat_str.simps sv_digit_def)
next
  case False
  then show ?thesis using nat_str_hd [of n] nat_str_digits [of n] by (simp add: numeric_id_def)
qed

lemma digits_no_char: "list_all sv_digit s \<Longrightarrow> \<not> sv_digit c \<Longrightarrow> c \<notin> set s"
  by (auto simp: list_all_iff)

lemma nat_str_no [simp]:
  "CHR ''.'' \<notin> set (nat_str n)" "CHR ''-'' \<notin> set (nat_str n)" "CHR ''+'' \<notin> set (nat_str n)"
  using nat_str_digits [of n] by (auto simp: sv_digit_def list_all_iff)

lemma parse_core_release: "parse_core (release_str a b c) = Some (a, b, c)"
  by (simp add: parse_core_def release_str_def split_on_sep split_on_no_sep numeric_id_nat_str)

lemma release_str_chars: "x \<in> set (release_str a b c) \<Longrightarrow> sv_digit x \<or> x = CHR ''.''"
  using nat_str_digits [of a] nat_str_digits [of b] nat_str_digits [of c]
  by (auto simp: release_str_def list_all_iff)

lemma not_sv_space_digit: "sv_digit x \<Longrightarrow> \<not> sv_space x"
  by (auto simp: sv_digit_def sv_space_def)

lemma release_str_hd: "sv_digit (hd (release_str a b c))"
  using nat_str_digits [of a] nat_str_ne [of a]
  by (cases "nat_str a") (simp_all add: release_str_def)

lemma release_str_last: "sv_digit (last (release_str a b c))"
  using nat_str_digits [of c] nat_str_ne [of c]
  by (simp add: release_str_def list_all_iff)

lemma release_str_ne [simp]: "release_str a b c \<noteq> []"
  by (simp add: release_str_def)

lemma sv_trim_release: "sv_trim (release_str a b c) = release_str a b c"
proof -
  have "dropWhile sv_space (release_str a b c) = release_str a b c"
    using release_str_hd not_sv_space_digit by (simp add: dropWhile_eq_self_iff)
  moreover have "dropWhile sv_space (rev (release_str a b c)) = rev (release_str a b c)"
    using release_str_last not_sv_space_digit by (simp add: dropWhile_eq_self_iff hd_rev)
  ultimately show ?thesis by (simp add: sv_trim_def)
qed

lemma parse_version_release: "parse_version (release_str a b c) = Some ((a, b, c), [])"
proof -
  let ?s = "release_str a b c"
  have ns: "\<forall>x\<in>set ?s. x \<noteq> CHR ''-'' \<and> x \<noteq> CHR ''+''"
    using release_str_chars by (fastforce simp: sv_digit_def)
  have "hd ?s \<noteq> CHR ''v''"
  proof
    assume "hd ?s = CHR ''v''"
    with release_str_hd [of a b c] show False by (simp add: sv_digit_def)
  qed
  moreover have tw: "takeWhile (\<lambda>x. x \<noteq> CHR ''-'' \<and> x \<noteq> CHR ''+'') ?s = ?s"
    using ns by (simp add: takeWhile_eq_all_conv)
  moreover have "dropWhile (\<lambda>x. x \<noteq> CHR ''-'' \<and> x \<noteq> CHR ''+'') ?s = []"
    using ns by (simp add: dropWhile_eq_Nil_conv)
  ultimately show ?thesis
    by (simp add: parse_version_def sv_trim_release parse_core_release parse_tail_def Let_def tw)
qed

lemma to_version_release:
  "length (release_str a b c) \<le> 256 \<Longrightarrow> a \<le> MAX_SAFE_INTEGER \<Longrightarrow> b \<le> MAX_SAFE_INTEGER \<Longrightarrow>
   c \<le> MAX_SAFE_INTEGER \<Longrightarrow> to_version (JStr (release_str a b c)) = Inr ((a, b, c), [])"
  by (simp add: to_version_def parse_version_release)

end
