(* ===== verification/BuildOpts.thy ===== *)
theory BuildOpts
  imports Effects Semver
begin

text \<open>
  The inputs of the build command and the options object it composes
  (build.ts, lines 62 to 131). \<open>api\<close> holds what the command reads from the
  plugin API: paths, application data, the user's and the resolved
  configuration, the CLI arguments and the plugin registry. \<open>env\<close> holds the
  collaborators the command calls but does not define (spec section 6):
  \<^verbatim>\<open>getBabelOpts\<close>, the bundler backends behind \<^verbatim>\<open>bundler.build\<close>, the webpack
  bundler's default output path, the file-size measurement, \<^verbatim>\<open>getAssetsMap\<close>,
  \<^verbatim>\<open>getMarkupArgs\<close> and \<^verbatim>\<open>getMarkup\<close>. A backend is named by the function
  value \<^verbatim>\<open>bundler.build\<close> holds and receives, besides the options, a handle
  that calls the command's closures: the only way it re-enters the dispatcher.
\<close>

record api =
  umi_version :: string
  abs_tmp_path :: string
  abs_output_path :: string
  api_cwd :: string
  app_pkg :: js
  app_react :: js
  app_bundler :: js
  api_user_config :: jobj
  api_config :: jobj
  api_args :: jobj
  plugins :: "world registry"

text \<open>What \<^verbatim>\<open>getMarkupArgs\<close> returns: its style and script lists and the rest.\<close>

record markup_args =
  ma_styles :: "js list"
  ma_scripts :: "js list"
  ma_rest :: jobj

type_synonym backend = "(js \<Rightarrow> js list \<Rightarrow> (js, world) exn) \<Rightarrow> js \<Rightarrow> (js, world) exn"

record env =
  babel_opts :: jobj
  backends :: "string \<Rightarrow> backend"
  default_output_path :: string
  measure_sizes :: "string \<Rightarrow> world \<Rightarrow> js"
  assets_map :: "js \<Rightarrow> js \<Rightarrow> js"
  get_markup_args :: markup_args
  get_markup :: "js \<Rightarrow> string"

subsection \<open>The React runtime (lines 99 to 107)\<close>

text \<open>
  \<^verbatim>\<open>react?.version && semver.gte(react.version, '17.0.0')\<close>, then
  \<^verbatim>\<open>? 'automatic' : 'classic'\<close>. A falsy version short-circuits to classic; a
  truthy one that is not a valid version makes \<^verbatim>\<open>semver.gte\<close> throw.
\<close>

definition react_runtime :: "js \<Rightarrow> string res" where
  "react_runtime react =
     (if \<not> truthy (opt_get react ''version'') then Inr ''classic''
      else (case semver_gte (prop_of react ''version'') (JStr ''17.0.0'') of
              Inl e \<Rightarrow> Inl e
            | Inr b \<Rightarrow> Inr (if b then ''automatic'' else ''classic'')))"

subsection \<open>The bundler selection and the options literal (lines 105 to 131)\<close>

definition is_vite :: "api \<Rightarrow> bool" where
  "is_vite a \<longleftrightarrow> truthy (obj_get (api_config a) ''vite'')"

definition is_mako :: "api \<Rightarrow> bool" where
  "is_mako a \<longleftrightarrow> truthy (obj_get (api_config a) ''mako'')"

text \<open>
  \<^verbatim>\<open>...(api.config.vite ? { modifyViteConfig } : { babelPreset, chainWebpack,
  modifyWebpackConfig })\<close>: the backend-specific part of the options.
\<close>

definition bundler_fields :: "api \<Rightarrow> jobj \<Rightarrow> js" where
  "bundler_fields a babel =
     (if is_vite a then obj_lit [Field ''modifyViteConfig'' (JFun ''modifyViteConfig'')]
      else obj_lit [Field ''babelPreset'' (obj_get babel ''babelPreset''),
                    Field ''chainWebpack'' (JFun ''chainWebpack''),
                    Field ''modifyWebpackConfig'' (JFun ''modifyWebpackConfig'')])"

definition build_opts :: "api \<Rightarrow> jobj \<Rightarrow> js \<Rightarrow> string \<Rightarrow> js" where
  "build_opts a babel entry runtime = obj_lit
     [Field ''react'' (obj_lit [Field ''runtime'' (JStr runtime)]),
      Field ''config'' (obj_lit
        [Field ''outputPath'' (js_or (obj_get (api_user_config a) ''outputPath'') (JStr ''dist'')),
         Spread (JObj (api_config a))]),
      Field ''cwd'' (JStr (api_cwd a)),
      Field ''entry'' entry,
      Spread (bundler_fields a babel),
      Field ''beforeBabelPlugins'' (obj_get babel ''beforeBabelPlugins''),
      Field ''beforeBabelPresets'' (obj_get babel ''beforeBabelPresets''),
      Field ''extraBabelPlugins'' (obj_get babel ''extraBabelPlugins''),
      Field ''extraBabelPresets'' (obj_get babel ''extraBabelPresets''),
      Field ''onBuildComplete'' (JFun ''onBuildComplete''),
      Field ''clean'' (JBool True),
      Field ''htmlFiles'' (JArr [])]"

subsection \<open>The closures handed to the backend (lines 71 to 92, 122 to 128)\<close>

text \<open>
  \<^verbatim>\<open>chainWebpack\<close> dispatches a MODIFY and returns nothing (webpack-chain is
  mutated in place); \<^verbatim>\<open>modifyWebpackConfig\<close> and \<^verbatim>\<open>modifyViteConfig\<close> return
  the dispatch's result; \<^verbatim>\<open>onBuildComplete\<close> prints the memory usage, then
  dispatches an event.
\<close>

definition call_closure :: "world registry \<Rightarrow> string \<Rightarrow> js list \<Rightarrow> (js, world) exn" where
  "call_closure r n xs =
     (if n = ''chainWebpack'' then
        bindx (apply_plugins r ''chainWebpack'' (Some Modify) (Some (arg xs 0)) (arg xs 1)) (\<lambda>_. ret JUndef)
      else if n = ''modifyWebpackConfig'' then
        apply_plugins r ''modifyWebpackConfig'' None (Some (arg xs 0)) (arg xs 1)
      else if n = ''modifyViteConfig'' then
        apply_plugins r ''modifyViteConfig'' None (Some (arg xs 0)) (arg xs 1)
      else if n = ''onBuildComplete'' then
        bindx (log_line ''memory usage'') (\<lambda>_.
          bindx (apply_plugins r ''onBuildComplete'' None None (arg xs 0)) (\<lambda>_. ret JUndef))
      else throw (TypeError (n @ '' is not a function'')))"

text \<open>The handle the backend gets: calling a function value of the options.\<close>

definition invoke :: "world registry \<Rightarrow> js \<Rightarrow> js list \<Rightarrow> (js, world) exn" where
  "invoke r f xs = (case f of JFun n \<Rightarrow> call_closure r n xs | _ \<Rightarrow> throw (TypeError ''not a function''))"

subsection \<open>Properties of the options literal and the runtime choice\<close>

text \<open>
  C5. The options literal carries the backend-specific fields of exactly one
  backend: \<^verbatim>\<open>modifyViteConfig\<close> when \<^verbatim>\<open>api.config.vite\<close> is truthy, and
  \<^verbatim>\<open>babelPreset\<close>, \<^verbatim>\<open>chainWebpack\<close> and \<^verbatim>\<open>modifyWebpackConfig\<close> otherwise
  (\<^verbatim>\<open>babelPreset\<close> is present even when its value is undefined); the closures
  present are the command's own.
\<close>

theorem bundler_option_fields:
  "has_key (build_opts a b ent rt) ''modifyViteConfig'' = is_vite a \<and>
   has_key (build_opts a b ent rt) ''babelPreset'' = (\<not> is_vite a) \<and>
   has_key (build_opts a b ent rt) ''chainWebpack'' = (\<not> is_vite a) \<and>
   has_key (build_opts a b ent rt) ''modifyWebpackConfig'' = (\<not> is_vite a) \<and>
   prop_of (build_opts a b ent rt) ''modifyViteConfig'' = (if is_vite a then JFun ''modifyViteConfig'' else JUndef) \<and>
   prop_of (build_opts a b ent rt) ''modifyWebpackConfig'' = (if is_vite a then JUndef else JFun ''modifyWebpackConfig'')"
  by (cases "is_vite a") (simp_all add: has_key_obj_lit obj_lit_get build_opts_def bundler_fields_def del: item_lookup.simps(2))

text \<open>
  C6. For any release version \<^verbatim>\<open>x.y.z\<close> of React within semver's limits, the
  command chooses the automatic JSX runtime exactly when the major version is
  at least 17, and the classic one otherwise.
\<close>

theorem react_runtime_release:
  assumes "obj_get ps ''version'' = JStr (release_str x y z)"
    and "length (release_str x y z) \<le> 256"
    and "x \<le> MAX_SAFE_INTEGER" "y \<le> MAX_SAFE_INTEGER" "z \<le> MAX_SAFE_INTEGER"
  shows "react_runtime (JObj ps) = Inr (if 17 \<le> x then ''automatic'' else ''classic'')"
proof -
  have "to_version (JStr ''17.0.0'') = Inr ((17, 0, 0), [])"
    by (simp add: to_version_def parse_version_def sv_trim_def sv_space_def parse_core_def
        numeric_id_def sv_digit_def digits_val_def parse_tail_def MAX_SAFE_INTEGER_def)
  with assms show ?thesis
    by (simp add: react_runtime_def opt_get_def nullish_def semver_gte_def to_version_release
        version_less_def pre_less_def not_less)
qed

lemma release_str_18_2_0: "release_str 18 2 0 = ''18.2.0''"
  by code_simp

theorem react_runtime_release_witness:
  "react_runtime (JObj [(''version'', JStr ''18.2.0'')]) = Inr ''automatic''"
  using react_runtime_release [of "[(''version'', JStr ''18.2.0'')]" 18 2 0]
  by (simp add: obj_get_def release_str_18_2_0 MAX_SAFE_INTEGER_def)

subsection \<open>The closures re-enter the dispatcher\<close>

lemma call_closure_keys:
  "call_closure r ''chainWebpack'' xs =
     bindx (apply_plugins r ''chainWebpack'' (Some Modify) (Some (arg xs 0)) (arg xs 1)) (\<lambda>_. ret JUndef)"
  "call_closure r ''modifyWebpackConfig'' xs = apply_plugins r ''modifyWebpackConfig'' None (Some (arg xs 0)) (arg xs 1)"
  "call_closure r ''modifyViteConfig'' xs = apply_plugins r ''modifyViteConfig'' None (Some (arg xs 0)) (arg xs 1)"
  "call_closure r ''onBuildComplete'' xs =
     bindx (log_line ''memory usage'') (\<lambda>_. bindx (apply_plugins r ''onBuildComplete'' None None (arg xs 0)) (\<lambda>_. ret JUndef))"
  by (simp_all add: call_closure_def)

text \<open>
  C8. \<^verbatim>\<open>modifyWebpackConfig\<close> and \<^verbatim>\<open>modifyViteConfig\<close> return the MODIFY
  fold of their key's handlers over the configuration the backend passes: with
  pure handlers \<open>fs\<close>, registration order, each handler given the backend's
  second argument, the world untouched.
\<close>

theorem config_closure_fold:
  assumes "n = ''modifyWebpackConfig'' \<or> n = ''modifyViteConfig''"
    and "map hook_fn (handlers_for r n) = map pure_fn fs"
  shows "call_closure r n [memo, args] w = (Inr (foldl (\<lambda>m f. f m args) memo fs), w)"
  using assms by (elim disjE) (simp_all add: call_closure_keys apply_plugins_Modify run_modify_pure starts_with_def)

theorem config_closure_fold_witness:
  "call_closure (register_all Map.empty
       [modify_hook ''p1'' ''modifyWebpackConfig'' (append_marker 1),
        modify_hook ''p2'' ''modifyWebpackConfig'' (append_marker 2)])
     ''modifyWebpackConfig'' [JArr [], JUndef] \<lparr>files = Map.empty, dirs = {}, unwritable = {}, console = []\<rparr> =
   (Inr (JArr [JNum 1, JNum 2]), \<lparr>files = Map.empty, dirs = {}, unwritable = {}, console = []\<rparr>)"
  using config_closure_fold [of "''modifyWebpackConfig''"
      "register_all Map.empty [modify_hook ''p1'' ''modifyWebpackConfig'' (append_marker 1),
        modify_hook ''p2'' ''modifyWebpackConfig'' (append_marker 2)]"
      "[append_marker 1, append_marker 2]" "JArr []" JUndef]
  by (simp add: handlers_for_register_all modify_hook_def append_marker_def)

text \<open>
  C9. \<^verbatim>\<open>chainWebpack\<close> runs the MODIFY chain of its key and throws
  what a handler throws, but its result is discarded: the closure always
  returns \<^verbatim>\<open>undefined\<close>, so a handler that returns a new chain instead of
  mutating the one it was given has no effect.
\<close>

theorem chain_webpack_discards:
  "call_closure r ''chainWebpack'' [memo, args] w =
     (case run_modify (handlers_for r ''chainWebpack'') memo args w of
        (Inl err, w') \<Rightarrow> (Inl err, w')
      | (Inr m, w') \<Rightarrow> (Inr JUndef, w'))"
  by (simp add: call_closure_keys apply_plugins_def bindx_def split: prod.split sum.split)

text \<open>
  C10. \<^verbatim>\<open>onBuildComplete\<close> first prints the memory usage, then runs the
  \<^verbatim>\<open>onBuildComplete\<close> event handlers in registration order on the backend's
  argument, and returns \<^verbatim>\<open>undefined\<close>.
\<close>

theorem on_build_complete_order:
  assumes "map hook_fn (handlers_for r ''onBuildComplete'') = map event_fn gs"
  shows "call_closure r ''onBuildComplete'' [st] w =
           (Inr JUndef, fold (\<lambda>g. g st) gs (w\<lparr>console := console w @ [''memory usage'']\<rparr>))"
  using assms by (simp add: call_closure_keys log_line_def apply_plugins_Event run_event_pure starts_with_def)

theorem on_build_complete_order_witness:
  "call_closure (register_all Map.empty
       [event_hook ''p1'' ''onBuildComplete'' (\<lambda>st w. w\<lparr>console := console w @ [''built'']\<rparr>)])
     ''onBuildComplete'' [JObj []] \<lparr>files = Map.empty, dirs = {}, unwritable = {}, console = []\<rparr> =
   (Inr JUndef, \<lparr>files = Map.empty, dirs = {}, unwritable = {}, console = [''memory usage'', ''built'']\<rparr>)"
  using on_build_complete_order [of
      "register_all Map.empty [event_hook ''p1'' ''onBuildComplete'' (\<lambda>st w. w\<lparr>console := console w @ [''built'']\<rparr>)]"
      "[\<lambda>st w. w\<lparr>console := console w @ [''built'']\<rparr>]" "JObj []"]
  by (simp add: handlers_for_register_all event_hook_def)

text \<open>
  C11. A handler that throws inside a configuration closure aborts it: when
  the handler at some position of the chain throws, the closure throws the
  same error, in the world that handler left, so no later handler runs and
  no partial fold is returned (spec section 8, failing handler 2 of 3).
\<close>

theorem closure_handler_failure:
  assumes "n = ''chainWebpack'' \<or> n = ''modifyWebpackConfig'' \<or> n = ''modifyViteConfig''"
    and "handlers_for r n = hs1 @ h # hs2"
    and "run_modify hs1 memo args w = (Inr m1, w1)"
    and "hook_fn h [m1, args] w1 = (Inl err, w2)"
  shows "call_closure r n [memo, args] w = (Inl err, w2)"
  using assms by (elim disjE) (simp_all add: call_closure_keys apply_plugins_def run_modify_append starts_with_def)

theorem closure_handler_failure_witness:
  "call_closure (register_all Map.empty
       [modify_hook ''p1'' ''modifyWebpackConfig'' (append_marker 1),
        failing_hook ''p2'' ''modifyWebpackConfig'' ''boom'',
        modify_hook ''p3'' ''modifyWebpackConfig'' (append_marker 3)])
     ''modifyWebpackConfig'' [JArr [], JUndef] \<lparr>files = Map.empty, dirs = {}, unwritable = {}, console = []\<rparr> =
   (Inl (HandlerFailure ''boom''), \<lparr>files = Map.empty, dirs = {}, unwritable = {}, console = []\<rparr>)"
  using closure_handler_failure [of "''modifyWebpackConfig''"
      "register_all Map.empty [modify_hook ''p1'' ''modifyWebpackConfig'' (append_marker 1),
        failing_hook ''p2'' ''modifyWebpackConfig'' ''boom'', modify_hook ''p3'' ''modifyWebpackConfig'' (append_marker 3)]"
      "[modify_hook ''p1'' ''modifyWebpackConfig'' (append_marker 1)]"
      "failing_hook ''p2'' ''modifyWebpackConfig'' ''boom''"
      "[modify_hook ''p3'' ''modifyWebpackConfig'' (append_marker 3)]" "JArr []" JUndef
      "\<lparr>files = Map.empty, dirs = {}, unwritable = {}, console = []\<rparr>" "JArr [JNum 1]"
      "\<lparr>files = Map.empty, dirs = {}, unwritable = {}, console = []\<rparr>" "HandlerFailure ''boom''"]
  by (simp add: handlers_for_register_all modify_hook_def failing_hook_def append_marker_def pure_fn_def)

subsection \<open>Shape of the options\<close>

lemma item_lookup_Spread_JObj: "item_lookup (Spread (JObj ps)) k = map_of (rev ps) k"
  by simp

text \<open>
  C18. \<^verbatim>\<open>opts.config.outputPath\<close> is the resolved configuration's
  \<^verbatim>\<open>outputPath\<close> when it has one, since \<^verbatim>\<open>...api.config\<close> is spread after
  the default; only otherwise is it \<^verbatim>\<open>api.userConfig.outputPath || 'dist'\<close>.
\<close>

theorem output_path_precedence:
  assumes "distinct (map fst (api_config a))"
  shows "prop_of (prop_of (build_opts a b ent rt) ''config'') ''outputPath'' =
           (case map_of (api_config a) ''outputPath'' of
              Some v \<Rightarrow> v
            | None \<Rightarrow> js_or (obj_get (api_user_config a) ''outputPath'') (JStr ''dist''))"
  using assms
  by (cases "is_vite a") (simp_all add: build_opts_def bundler_fields_def obj_lit_get item_lookup_Spread_JObj
      map_of_rev_distinct del: item_lookup.simps(2) split: option.split)

subsection \<open>The runtime on concrete versions\<close>

text \<open>
  C19. Bounds: a React version whose major part exceeds
  \<^verbatim>\<open>Number.MAX_SAFE_INTEGER\<close> makes \<^verbatim>\<open>semver.gte\<close>, and with it the build,
  throw, even though the string is a well-formed version.
\<close>

theorem react_runtime_major_bound:
  assumes "obj_get ps ''version'' = JStr s" and "length s \<le> 256"
    and "parse_version s = Some ((x, y, z), p)" and "MAX_SAFE_INTEGER < x"
  shows "react_runtime (JObj ps) = Inl (TypeError ''Invalid major version'')"
proof -
  have "s \<noteq> []"
  proof
    assume "s = []"
    with assms(3) show False by (simp add: parse_version_def sv_trim_def parse_core_def)
  qed
  with assms show ?thesis
    by (simp add: react_runtime_def opt_get_def nullish_def semver_gte_def to_version_def)
qed

theorem react_runtime_major_bound_witness:
  "react_runtime (JObj [(''version'', JStr ''9007199254740992.0.0'')]) = Inl (TypeError ''Invalid major version'')"
  using react_runtime_major_bound [of "[(''version'', JStr ''9007199254740992.0.0'')]" "''9007199254740992.0.0''"
      9007199254740992 0 0 "[]"]
  by (simp add: obj_get_def MAX_SAFE_INTEGER_def parse_version_def sv_trim_def sv_space_def parse_core_def
      numeric_id_def sv_digit_def digits_val_def parse_tail_def)

end
