(* ===== verification/Html.thy ===== *)
theory Html
  imports BuildOpts
begin

text \<open>
  HTML generation (build.ts, lines 173 to 222): the asset references of the
  build's stats become \<^verbatim>\<open>{src}\<close> objects, merged into the markup arguments
  (styles appended after the supplied ones, scripts prepended before them),
  rendered by \<^verbatim>\<open>getMarkup\<close>, offered to the \<^verbatim>\<open>modifyExportHTMLFiles\<close> hook,
  and each resulting document is written at \<^verbatim>\<open>path.resolve\<close> of the
  output path and its own path, its directory created first. The last
  lemmas show where a document can land: inside the output directory for a
  relative path without \<^verbatim>\<open>..\<close>, anywhere otherwise.
\<close>

text \<open>\<^verbatim>\<open>[...(v).map((src) => ({ src }))]\<close>\<close>

definition src_objs :: "js \<Rightarrow> js list res" where
  "src_objs v =
     (case v of
        JArr xs \<Rightarrow> Inr (map (\<lambda>s. obj_lit [Field ''src'' s]) xs)
      | JUndef \<Rightarrow> Inl (TypeError ''Cannot read properties of undefined (reading 'map')'')
      | JNull \<Rightarrow> Inl (TypeError ''Cannot read properties of null (reading 'map')'')
      | _ \<Rightarrow> Inl (TypeError ''map is not a function''))"

text \<open>\<^verbatim>\<open>api.config.vite ? [] : [...(assetsMap[k] || []).map(...)]\<close>\<close>

definition mapped_assets :: "api \<Rightarrow> js \<Rightarrow> string \<Rightarrow> js list res" where
  "mapped_assets a am k =
     (if is_vite a then Inr []
      else (case get_prop am k of Inl e \<Rightarrow> Inl e | Inr v \<Rightarrow> src_objs (js_or v (JArr []))))"

definition markup_args_js :: "markup_args \<Rightarrow> js" where
  "markup_args_js ma = obj_lit [Spread (JObj (ma_rest ma)),
     Field ''styles'' (JArr (ma_styles ma)), Field ''scripts'' (JArr (ma_scripts ma))]"

text \<open>\<^verbatim>\<open>{...args, styles: args.styles.concat(css), scripts: js.concat(args.scripts), esmScript, path: '/'}\<close>\<close>

definition final_markup_args :: "markup_args \<Rightarrow> js list \<Rightarrow> js list \<Rightarrow> js \<Rightarrow> js" where
  "final_markup_args ma css scripts esm = obj_lit
     [Spread (markup_args_js ma),
      Field ''styles'' (JArr (ma_styles ma @ css)),
      Field ''scripts'' (JArr (scripts @ ma_scripts ma)),
      Field ''esmScript'' esm,
      Field ''path'' (JStr ''/'')]"

text \<open>\<^verbatim>\<open>!!opts.config.esm || vite\<close>\<close>

definition esm_script :: "js \<Rightarrow> js \<Rightarrow> js res" where
  "esm_script opts vite =
     (case get_prop opts ''config'' of
        Inl e \<Rightarrow> Inl e
      | Inr cf \<Rightarrow> (case get_prop cf ''esm'' of
                    Inl e \<Rightarrow> Inl e
                  | Inr esm \<Rightarrow> Inr (if truthy esm then JBool True else vite)))"

definition default_html :: "string \<Rightarrow> js" where
  "default_html content = JArr [obj_lit [Field ''path'' (JStr ''index.html''), Field ''content'' (JStr content)]]"

text \<open>An element of \<^verbatim>\<open>htmlFiles: { path: string; content: string }[]\<close>.\<close>

definition html_doc :: "string \<times> string \<Rightarrow> js" where
  "html_doc d = obj_lit [Field ''path'' (JStr (fst d)), Field ''content'' (JStr (snd d))]"

text \<open>
  One iteration of \<^verbatim>\<open>htmlFiles.forEach(({ path, content }) => ...)\<close>:
  destructuring throws on a nullish element, \<^verbatim>\<open>path.resolve\<close> on a path that
  is not a string, \<^verbatim>\<open>writeFileSync\<close> on content that is not a string.
\<close>

definition write_html_file :: "string \<Rightarrow> js \<Rightarrow> (unit, pstate) exn" where
  "write_html_file out f =
     (if nullish f then throw (TypeError ''Cannot destructure property 'path' of undefined'')
      else (case prop_of f ''path'' of
        JStr p \<Rightarrow>
          (let abs = path_resolve out p in
           bindx (emit (Mkdirp (path_dirname abs))) (\<lambda>_.
           bindx (on_world (mkdirp (path_dirname abs))) (\<lambda>_.
           (case prop_of f ''content'' of
              JStr c \<Rightarrow>
                bindx (emit (WriteFile abs)) (\<lambda>_.
                bindx (on_world (write_file abs c)) (\<lambda>_.
                log_msg (''Build '' @ p)))
            | _ \<Rightarrow> throw (TypeError ''The data argument must be of type string'')))))
      | _ \<Rightarrow> throw (TypeError ''The paths[1] argument must be of type string'')))"

fun write_html_files :: "string \<Rightarrow> js list \<Rightarrow> (unit, pstate) exn" where
  "write_html_files out [] = ret ()"
| "write_html_files out (f # fs) = bindx (write_html_file out f) (\<lambda>_. write_html_files out fs)"

definition for_each_html :: "string \<Rightarrow> js \<Rightarrow> (unit, pstate) exn" where
  "for_each_html out hf =
     (case hf of
        JArr fs \<Rightarrow> write_html_files out fs
      | JUndef \<Rightarrow> throw (TypeError ''Cannot read properties of undefined (reading 'forEach')'')
      | JNull \<Rightarrow> throw (TypeError ''Cannot read properties of null (reading 'forEach')'')
      | _ \<Rightarrow> throw (TypeError ''htmlFiles.forEach is not a function''))"

subsection \<open>Writing the documents\<close>

lemma write_html_file_doc:
  assumes "path_dirname (path_resolve out p) \<notin> unwritable (world ps)"
    and "path_resolve out p \<notin> unwritable (world ps)"
  shows "write_html_file out (html_doc (p, c)) ps =
     (Inr (), ps\<lparr>world := (world ps)\<lparr>dirs := dirs (world ps) \<union> set (path_prefixes (path_dirname (path_resolve out p))),
                                   files := (files (world ps))(path_resolve out p \<mapsto> c),
                                   console := console (world ps) @ [''Build '' @ p]\<rparr>,
                trace := trace ps @ [Mkdirp (path_dirname (path_resolve out p)), WriteFile (path_resolve out p)]\<rparr>)"
  using assms in_path_prefixes [OF path_dirname_ne, of "path_resolve out p"]
  by (simp add: write_html_file_def html_doc_def obj_lit_def obj_get_def obj_set_def nullish_def
      emit_def on_world_def mkdirp_def write_file_def log_msg_def log_line_def Let_def)

lemma write_html_files_append:
  "write_html_files out (xs @ ys) = bindx (write_html_files out xs) (\<lambda>_. write_html_files out ys)"
  by (induction xs) (simp_all add: bindx_assoc)

lemma write_html_files_docs:
  assumes "\<forall>d \<in> set ds. path_dirname (path_resolve out (fst d)) \<notin> unwritable (world ps) \<and>
                        path_resolve out (fst d) \<notin> unwritable (world ps)"
  shows "fst (write_html_files out (map html_doc ds) ps) = Inr () \<and>
    files (world (snd (write_html_files out (map html_doc ds) ps))) =
      files (world ps) ++ map_of (rev (map (\<lambda>d. (path_resolve out (fst d), snd d)) ds)) \<and>
    console (world (snd (write_html_files out (map html_doc ds) ps))) =
      console (world ps) @ map (\<lambda>d. ''Build '' @ fst d) ds \<and>
    trace (snd (write_html_files out (map html_doc ds) ps)) =
      trace ps @ concat (map (\<lambda>d. [Mkdirp (path_dirname (path_resolve out (fst d))), WriteFile (path_resolve out (fst d))]) ds) \<and>
    unwritable (world (snd (write_html_files out (map html_doc ds) ps))) = unwritable (world ps)"
  using assms
proof (induction ds arbitrary: ps)
  case Nil
  then show ?case by simp
next
  case (Cons d ds)
  obtain p c where d: "d = (p, c)" by (cases d)
  from Cons.prems d have w: "path_dirname (path_resolve out p) \<notin> unwritable (world ps)"
    "path_resolve out p \<notin> unwritable (world ps)" by auto
  define ps1 where "ps1 = snd (write_html_file out (html_doc (p, c)) ps)"
  note wd = write_html_file_doc [OF w, of c]
  have one: "write_html_file out (html_doc (p, c)) ps = (Inr (), ps1)" using wd by (simp add: ps1_def)
  have f1: "files (world ps1) = (files (world ps))(path_resolve out p \<mapsto> c)"
    and c1: "console (world ps1) = console (world ps) @ [''Build '' @ p]"
    and t1: "trace ps1 = trace ps @ [Mkdirp (path_dirname (path_resolve out p)), WriteFile (path_resolve out p)]"
    and u: "unwritable (world ps1) = unwritable (world ps)"
    using wd by (simp_all add: ps1_def)
  from Cons.prems u have "\<forall>d \<in> set ds. path_dirname (path_resolve out (fst d)) \<notin> unwritable (world ps1) \<and>
                        path_resolve out (fst d) \<notin> unwritable (world ps1)" by simp
  note IH = Cons.IH [OF this]
  have run: "write_html_files out (map html_doc (d # ds)) ps = write_html_files out (map html_doc ds) ps1"
    using one d by simp
  have F: "files (world (snd (write_html_files out (map html_doc ds) ps1))) =
      files (world ps) ++ map_of (rev (map (\<lambda>d. (path_resolve out (fst d), snd d)) (d # ds)))"
    using IH unfolding f1 map_upd_add_map_of d by simp
  show ?case unfolding run using IH F c1 t1 u d by simp
qed

lemma write_html_file_eacces:
  assumes "path_dirname (path_resolve out p) \<notin> unwritable (world ps)"
    and "path_resolve out p \<in> unwritable (world ps)"
  shows "fst (write_html_file out (html_doc (p, c)) ps) = Inl (IOFailure (''EACCES: permission denied, open '' @ path_resolve out p)) \<and>
         files (world (snd (write_html_file out (html_doc (p, c)) ps))) = files (world ps)"
  using assms in_path_prefixes [OF path_dirname_ne, of "path_resolve out p"]
  by (simp add: write_html_file_def html_doc_def obj_lit_def obj_get_def obj_set_def nullish_def
      emit_def on_world_def mkdirp_def write_file_def Let_def)

lemma default_html_doc: "default_html m = JArr [html_doc (''index.html'', m)]"
  by (simp add: default_html_def html_doc_def)

lemma write_html_file_doc_Inr:
  assumes "write_html_file out (html_doc (p, c)) ps = (Inr (), ps')"
  shows "files (world ps') (path_resolve out p) = Some c \<and>
         trace ps' = trace ps @ [Mkdirp (path_dirname (path_resolve out p)), WriteFile (path_resolve out p)]"
proof -
  have w: "path_dirname (path_resolve out p) \<notin> unwritable (world ps) \<and> path_resolve out p \<notin> unwritable (world ps)"
  proof (rule ccontr)
    assume "\<not> ?thesis"
    then have "\<exists>e. fst (write_html_file out (html_doc (p, c)) ps) = Inl e"
      using in_path_prefixes [OF path_dirname_ne, of "path_resolve out p"]
      by (auto simp: write_html_file_def html_doc_def obj_lit_def obj_get_def obj_set_def nullish_def
          emit_def on_world_def mkdirp_def write_file_def Let_def bindx_apply log_msg_def log_line_def)
    with assms show False by simp
  qed
  with assms write_html_file_doc [of out p ps c] show ?thesis by auto
qed

subsection \<open>What the loop may touch\<close>

lemma write_html_file_frame:
  assumes "write_html_file out f ps = (r, ps')" and "files (world ps') q \<noteq> files (world ps) q"
  shows "\<exists>p. prop_of f ''path'' = JStr p \<and> q = path_resolve out p"
  using assms
  by (auto simp: write_html_file_def bindx_def emit_def modify_st_def on_world_def mkdirp_def write_file_def
      log_msg_def log_line_def throw_def Let_def split: js.splits if_splits prod.splits sum.splits)

lemma write_html_files_frame:
  assumes "write_html_files out fs ps = (r, ps')" and "files (world ps') q \<noteq> files (world ps) q"
  shows "\<exists>f \<in> set fs. \<exists>p. prop_of f ''path'' = JStr p \<and> q = path_resolve out p"
  using assms
proof (induction fs arbitrary: ps)
  case Nil
  then show ?case by (simp add: ret_def)
next
  case (Cons f fs)
  obtain r1 ps1 where w1: "write_html_file out f ps = (r1, ps1)" by fastforce
  show ?case
  proof (cases "files (world ps1) q = files (world ps) q")
    case True
    show ?thesis
    proof (cases r1)
      case (Inl x)
      with Cons.prems(1) w1 True Cons.prems(2) show ?thesis by (simp add: bindx_def)
    next
      case (Inr x)
      with Cons.prems w1 True have "\<exists>f \<in> set fs. \<exists>p. prop_of f ''path'' = JStr p \<and> q = path_resolve out p"
        by (intro Cons.IH [of ps1]) (simp_all add: bindx_def)
      then show ?thesis by auto
    qed
  next
    case False
    then show ?thesis using write_html_file_frame [OF w1] by auto
  qed
qed

text \<open>
  C12. When no target is unwritable, \<^verbatim>\<open>htmlFiles.forEach\<close> writes every
  document: each below the output path, after creating its directory, in list
  order (a later document with the same path overwrites an earlier one), and
  logs \<^verbatim>\<open>Build <path>\<close> for each.
\<close>

theorem for_each_html_writes:
  assumes "\<forall>d \<in> set ds. path_dirname (path_resolve out (fst d)) \<notin> unwritable (world ps) \<and>
                        path_resolve out (fst d) \<notin> unwritable (world ps)"
  shows "fst (for_each_html out (JArr (map html_doc ds)) ps) = Inr () \<and>
    files (world (snd (for_each_html out (JArr (map html_doc ds)) ps))) =
      files (world ps) ++ map_of (rev (map (\<lambda>d. (path_resolve out (fst d), snd d)) ds)) \<and>
    console (world (snd (for_each_html out (JArr (map html_doc ds)) ps))) =
      console (world ps) @ map (\<lambda>d. ''Build '' @ fst d) ds \<and>
    trace (snd (for_each_html out (JArr (map html_doc ds)) ps)) =
      trace ps @ concat (map (\<lambda>d. [Mkdirp (path_dirname (path_resolve out (fst d))), WriteFile (path_resolve out (fst d))]) ds)"
  using write_html_files_docs [OF assms] by (simp add: for_each_html_def)

theorem for_each_html_writes_witness:
  "fst (for_each_html ''/out'' (JArr (map html_doc [(''index.html'', ''A''), (''404.html'', ''B'')]))
     \<lparr>world = \<lparr>files = Map.empty, dirs = {}, unwritable = {}, console = []\<rparr>, trace = []\<rparr>) = Inr () \<and>
   files (world (snd (for_each_html ''/out'' (JArr (map html_doc [(''index.html'', ''A''), (''404.html'', ''B'')]))
     \<lparr>world = \<lparr>files = Map.empty, dirs = {}, unwritable = {}, console = []\<rparr>, trace = []\<rparr>))) =
     [''/out/index.html'' \<mapsto> ''A'', ''/out/404.html'' \<mapsto> ''B'']"
  using for_each_html_writes [of "[(''index.html'', ''A''), (''404.html'', ''B'')]" "''/out''"
      "\<lparr>world = \<lparr>files = Map.empty, dirs = {}, unwritable = {}, console = []\<rparr>, trace = []\<rparr>"]
  by (simp add: path_eval)

text \<open>
  C13. A write that fails ends the loop with the file system's error, and
  nothing is rolled back (spec section 7): the documents before it stay
  written and none after it is written.
\<close>

theorem html_write_failure_keeps_earlier:
  assumes "\<forall>d \<in> set ds1. path_dirname (path_resolve out (fst d)) \<notin> unwritable (world ps) \<and>
                         path_resolve out (fst d) \<notin> unwritable (world ps)"
    and "path_dirname (path_resolve out p) \<notin> unwritable (world ps)"
    and "path_resolve out p \<in> unwritable (world ps)"
  shows "fst (for_each_html out (JArr (map html_doc (ds1 @ (p, c) # ds2))) ps) =
           Inl (IOFailure (''EACCES: permission denied, open '' @ path_resolve out p)) \<and>
         files (world (snd (for_each_html out (JArr (map html_doc (ds1 @ (p, c) # ds2))) ps))) =
           files (world ps) ++ map_of (rev (map (\<lambda>d. (path_resolve out (fst d), snd d)) ds1))"
proof -
  define ps1 where "ps1 = snd (write_html_files out (map html_doc ds1) ps)"
  note docs = write_html_files_docs [OF assms(1)]
  have run1: "write_html_files out (map html_doc ds1) ps = (Inr (), ps1)"
    using docs by (simp add: ps1_def prod_eq_iff)
  from docs assms(2,3) have w: "path_dirname (path_resolve out p) \<notin> unwritable (world ps1)"
    "path_resolve out p \<in> unwritable (world ps1)" by (simp_all add: ps1_def)
  note fail = write_html_file_eacces [OF w, of c]
  have "for_each_html out (JArr (map html_doc (ds1 @ (p, c) # ds2))) ps = write_html_files out (html_doc (p, c) # map html_doc ds2) ps1"
    by (simp add: for_each_html_def write_html_files_append run1)
  also have "\<dots> = write_html_file out (html_doc (p, c)) ps1"
  proof -
    obtain s' where "write_html_file out (html_doc (p, c)) ps1 =
        (Inl (IOFailure (''EACCES: permission denied, open '' @ path_resolve out p)), s')"
      using fail by (cases "write_html_file out (html_doc (p, c)) ps1") auto
    then show ?thesis by simp
  qed
  finally show ?thesis using fail docs by (simp add: ps1_def)
qed

theorem html_write_failure_keeps_earlier_witness:
  "fst (for_each_html ''/out'' (JArr (map html_doc ([(''index.html'', ''A'')] @ (''locked.html'', ''B'') # [(''late.html'', ''C'')])))
     \<lparr>world = \<lparr>files = Map.empty, dirs = {}, unwritable = {''/out/locked.html''}, console = []\<rparr>, trace = []\<rparr>) =
     Inl (IOFailure ''EACCES: permission denied, open /out/locked.html'') \<and>
   files (world (snd (for_each_html ''/out'' (JArr (map html_doc ([(''index.html'', ''A'')] @ (''locked.html'', ''B'') # [(''late.html'', ''C'')])))
     \<lparr>world = \<lparr>files = Map.empty, dirs = {}, unwritable = {''/out/locked.html''}, console = []\<rparr>, trace = []\<rparr>))) =
     [''/out/index.html'' \<mapsto> ''A'']"
  using html_write_failure_keeps_earlier [of "[(''index.html'', ''A'')]" "''/out''"
      "\<lparr>world = \<lparr>files = Map.empty, dirs = {}, unwritable = {''/out/locked.html''}, console = []\<rparr>, trace = []\<rparr>"
      "''locked.html''" "''B''" "[(''late.html'', ''C'')]"]
  by (simp add: path_eval path_dirname_def)

text \<open>
  C25. The error paths of one iteration of the write loop: a document whose
  content is not a string fails after its directory has been created (the
  \<^verbatim>\<open>mkdirpSync\<close> of line 218 runs before \<^verbatim>\<open>writeFileSync\<close> checks its data),
  leaving the directory and writing nothing; an undefined document or a
  path that is not a string fails before any effect; and an
  \<^verbatim>\<open>htmlFiles\<close> that is undefined (a plugin's handler returned nothing) makes
  \<^verbatim>\<open>forEach\<close> throw.
\<close>

theorem html_content_error_after_mkdir:
  assumes "path_dirname (path_resolve out p) \<notin> unwritable (world ps)" and "\<forall>s. v \<noteq> JStr s"
  shows "write_html_file out (obj_lit [Field ''path'' (JStr p), Field ''content'' v]) ps =
     (Inl (TypeError ''The data argument must be of type string''),
      ps\<lparr>world := (world ps)\<lparr>dirs := dirs (world ps) \<union> set (path_prefixes (path_dirname (path_resolve out p)))\<rparr>,
         trace := trace ps @ [Mkdirp (path_dirname (path_resolve out p))]\<rparr>) \<and>
   write_html_file out JUndef ps = (Inl (TypeError ''Cannot destructure property 'path' of undefined''), ps) \<and>
   write_html_file out (obj_lit [Field ''path'' v, Field ''content'' (JStr c)]) ps =
     (Inl (TypeError ''The paths[1] argument must be of type string''), ps) \<and>
   for_each_html out JUndef ps = (Inl (TypeError ''Cannot read properties of undefined (reading 'forEach')''), ps)"
  using assms
  by (cases v) (simp_all add: write_html_file_def obj_lit_def obj_get_def obj_set_def nullish_def
      emit_def on_world_def mkdirp_def Let_def for_each_html_def)

subsection \<open>The markup arguments\<close>

text \<open>
  C22. The assets of a bundle: none for vite (it injects its own); otherwise
  a \<^verbatim>\<open>{src}\<close> object per entry of \<^verbatim>\<open>assetsMap[k]\<close> when it is an array, none
  when it is missing or falsy, and a TypeError when it is any other truthy
  value.
\<close>

theorem mapped_assets_cases:
  "mapped_assets a (JObj ps) k =
     (if is_vite a then Inr []
      else (case obj_get ps k of
              JArr xs \<Rightarrow> Inr (map (\<lambda>s. obj_lit [Field ''src'' s]) xs)
            | v \<Rightarrow> if truthy v then Inl (TypeError ''map is not a function'') else Inr []))"
  by (cases "obj_get ps k") (simp_all add: mapped_assets_def js_or_def src_objs_def)

text \<open>
  C14. The final markup arguments append the mapped styles after the
  supplied ones and prepend the mapped scripts before the supplied ones (spec
  section 4.5), set \<^verbatim>\<open>esmScript\<close> and \<^verbatim>\<open>path: '/'\<close>, and keep every
  other field of \<^verbatim>\<open>getMarkupArgs\<close>' result.
\<close>

theorem final_markup_args_merge:
  assumes "distinct (map fst (ma_rest ma))"
  shows "prop_of (final_markup_args ma css js esm) ''styles'' = JArr (ma_styles ma @ css) \<and>
         prop_of (final_markup_args ma css js esm) ''scripts'' = JArr (js @ ma_scripts ma) \<and>
         prop_of (final_markup_args ma css js esm) ''esmScript'' = esm \<and>
         prop_of (final_markup_args ma css js esm) ''path'' = JStr ''/'' \<and>
         (\<forall>k. k \<notin> {''styles'', ''scripts'', ''esmScript'', ''path''} \<longrightarrow>
            prop_of (final_markup_args ma css js esm) k = obj_get (ma_rest ma) k)"
  using assms
  unfolding final_markup_args_def markup_args_js_def obj_lit_get lit_lookup.simps item_lookup_Spread_obj_lit
  by (auto simp: map_of_rev_distinct obj_get_def split: option.split)

theorem final_markup_args_merge_witness:
  "prop_of (final_markup_args
      \<lparr>ma_styles = [obj_lit [Field ''src'' (JStr ''b.css'')]], ma_scripts = [obj_lit [Field ''src'' (JStr ''b.js'')]],
       ma_rest = [(''title'', JStr ''App'')]\<rparr>
      [obj_lit [Field ''src'' (JStr ''a.css'')]] [obj_lit [Field ''src'' (JStr ''a.js'')]] (JBool False)) ''scripts'' =
     JArr [obj_lit [Field ''src'' (JStr ''a.js'')], obj_lit [Field ''src'' (JStr ''b.js'')]] \<and>
   prop_of (final_markup_args
      \<lparr>ma_styles = [obj_lit [Field ''src'' (JStr ''b.css'')]], ma_scripts = [obj_lit [Field ''src'' (JStr ''b.js'')]],
       ma_rest = [(''title'', JStr ''App'')]\<rparr>
      [obj_lit [Field ''src'' (JStr ''a.css'')]] [obj_lit [Field ''src'' (JStr ''a.js'')]] (JBool False)) ''styles'' =
     JArr [obj_lit [Field ''src'' (JStr ''b.css'')], obj_lit [Field ''src'' (JStr ''a.css'')]] \<and>
   prop_of (final_markup_args
      \<lparr>ma_styles = [obj_lit [Field ''src'' (JStr ''b.css'')]], ma_scripts = [obj_lit [Field ''src'' (JStr ''b.js'')]],
       ma_rest = [(''title'', JStr ''App'')]\<rparr>
      [obj_lit [Field ''src'' (JStr ''a.css'')]] [obj_lit [Field ''src'' (JStr ''a.js'')]] (JBool False)) ''title'' =
     JStr ''App''"
  using final_markup_args_merge [of "\<lparr>ma_styles = [obj_lit [Field ''src'' (JStr ''b.css'')]],
      ma_scripts = [obj_lit [Field ''src'' (JStr ''b.js'')]], ma_rest = [(''title'', JStr ''App'')]\<rparr>"
      "[obj_lit [Field ''src'' (JStr ''a.css'')]]" "[obj_lit [Field ''src'' (JStr ''a.js'')]]" "JBool False"]
  by (simp add: obj_get_def)

subsection \<open>Where documents land\<close>

text \<open>
  C27. The command writes documents only inside the output directory when
  every document path is relative and has no \<^verbatim>\<open>..\<close> segment: for a
  normalised absolute output path, whatever the loop does (including stopping
  on an error), a file it changes lies under that path.
\<close>

theorem html_writes_stay_in_output:
  assumes "os \<noteq> []" and "\<forall>s \<in> set os. seg_ok s"
    and "\<forall>f \<in> set fs. \<exists>p. prop_of f ''path'' = JStr p \<and> \<not> starts_with ''/'' p \<and> ''..'' \<notin> set (split_on CHR ''/'' p)"
    and "for_each_html (path_str os) (JArr fs) ps = (r, ps')"
    and "files (world ps') q \<noteq> files (world ps) q"
  shows "under (path_str os) q"
proof -
  from assms(4,5) obtain f p where "f \<in> set fs" "prop_of f ''path'' = JStr p" "q = path_resolve (path_str os) p"
    using write_html_files_frame by (fastforce simp: for_each_html_def)
  with assms(1-3) show ?thesis
    by (auto simp: path_resolve_relative under_path_str_append)
qed

theorem html_writes_stay_in_output_witness:
  "files (world (snd (for_each_html ''/app/dist'' (JArr [html_doc (''pages/./a.html'', ''A'')])
     \<lparr>world = \<lparr>files = Map.empty, dirs = {}, unwritable = {}, console = []\<rparr>, trace = []\<rparr>))) ''/app/dist/pages/a.html'' = Some ''A'' \<and>
   under ''/app/dist'' ''/app/dist/pages/a.html''"
proof -
  let ?ps = "\<lparr>world = \<lparr>files = Map.empty, dirs = {}, unwritable = {}, console = []\<rparr>, trace = []\<rparr>"
  let ?fs = "[html_doc (''pages/./a.html'', ''A'')]"
  have o: "path_str [''app'', ''dist''] = ''/app/dist''" by (simp add: path_str_def)
  have w: "files (world (snd (for_each_html ''/app/dist'' (JArr ?fs) ?ps))) ''/app/dist/pages/a.html'' = Some ''A''"
    by (simp add: for_each_html_def write_html_file_doc path_eval path_dirname_def)
  have "under (path_str [''app'', ''dist'']) ''/app/dist/pages/a.html''"
    using html_writes_stay_in_output [where os = "[''app'', ''dist'']" and fs = ?fs and ps = ?ps
        and r = "fst (for_each_html ''/app/dist'' (JArr ?fs) ?ps)" and ps' = "snd (for_each_html ''/app/dist'' (JArr ?fs) ?ps)"
        and q = "''/app/dist/pages/a.html''"] w
    by (simp add: o seg_ok_def html_doc_def obj_lit_get starts_with_def)
  with o w show ?thesis by simp
qed

text \<open>
  C28. Nothing confines a document to the output directory: a
  \<^verbatim>\<open>modifyExportHTMLFiles\<close> handler that returns an absolute path, or a
  path that climbs out with as many \<^verbatim>\<open>..\<close> segments as the output path
  has, has the command write the file where the rest of that path points,
  whatever the output directory is, since \<^verbatim>\<open>path.resolve\<close> lets an
  absolute path replace the base and \<^verbatim>\<open>..\<close> climb out of it.
\<close>

theorem html_path_escapes_output:
  assumes "\<forall>s \<in> set os. seg_ok s"
    and "p = concat (replicate (length os) ''../'') @ r \<or> (p = r \<and> starts_with ''/'' r)"
    and "path_dirname (path_normalize r) \<notin> unwritable (world ps)" and "path_normalize r \<notin> unwritable (world ps)"
  shows "fst (for_each_html (path_str os) (JArr [html_doc (p, c)]) ps) = Inr () \<and>
         files (world (snd (for_each_html (path_str os) (JArr [html_doc (p, c)]) ps))) (path_normalize r) = Some c"
proof -
  have t: "path_resolve (path_str os) p = path_normalize r"
    using assms(2) path_resolve_climb [OF assms(1), of r] by (auto simp: path_resolve_def)
  show ?thesis
    using write_html_files_docs [of "[(p, c)]" "path_str os" ps] assms(3,4)
    by (simp add: for_each_html_def t)
qed

theorem html_path_escapes_output_witness:
  "files (world (snd (for_each_html ''/app/dist'' (JArr [html_doc (''../../etc/passwd'', ''x'')])
     \<lparr>world = \<lparr>files = Map.empty, dirs = {}, unwritable = {}, console = []\<rparr>, trace = []\<rparr>))) ''/etc/passwd'' = Some ''x'' \<and>
   \<not> under ''/app/dist'' ''/etc/passwd''"
proof -
  have o: "path_str [''app'', ''dist''] = ''/app/dist''" and n: "path_normalize ''etc/passwd'' = ''/etc/passwd''"
    by (simp_all add: path_str_def path_normalize_def)
  have "concat (replicate (length [''app'', ''dist'']) ''../'') @ ''etc/passwd'' = ''../../etc/passwd''" by simp
  then show ?thesis
    using html_path_escapes_output [where os = "[''app'', ''dist'']" and r = "''etc/passwd''" and p = "''../../etc/passwd''"
        and c = "''x''" and ps = "\<lparr>world = \<lparr>files = Map.empty, dirs = {}, unwritable = {}, console = []\<rparr>, trace = []\<rparr>"]
    by (simp add: o n seg_ok_def under_def starts_with_def)
qed

end
