(* ===== verification/Build.thy ===== *)
theory Build
  imports Html
begin

text \<open>
  The build command itself, \<^verbatim>\<open>fn\<close> of build.ts (lines 33 to 234), as the
  fixed sequence of stages of spec section 4.3. The local variables of
  \<^verbatim>\<open>fn\<close> that later statements read are the fields of \<open>ctx\<close>; each stage
  reads and extends them, and every statement that throws ends the run with
  that error, the effects made so far kept.
\<close>

named_theorems follows_rules "composition rules for the command's control sequence"

record ctx =
  babel :: jobj
  entry :: js
  opts :: js
  bundler :: js
  stats :: js
  html_files :: js

definition ctx0 :: ctx where
  "ctx0 = \<lparr>babel = [], entry = JUndef, opts = JUndef, bundler = JUndef, stats = JUndef, html_files = JUndef\<rparr>"

datatype stage = PreCheck | Generate | ComposeOptions | ExecuteBuild | MeasureSizes | GenerateHtml | Complete

text \<open>Lines 34 to 46: banner, clearing the temporary directory, \<^verbatim>\<open>onCheckPkgJSON\<close>.\<close>

definition stage_precheck :: "api \<Rightarrow> ctx \<Rightarrow> (ctx, pstate) exn" where
  "stage_precheck a c =
     bindx (log_msg (''Umi v'' @ umi_version a)) (\<lambda>_.
     bindx (emit (Rimraf (abs_tmp_path a))) (\<lambda>_.
     bindx (on_world (modify_st (rimraf (abs_tmp_path a)))) (\<lambda>_.
     bindx (hook (plugins a) ''onCheckPkgJSON'' None None
              (obj_lit [Field ''origin'' JNull, Field ''current'' (app_pkg a)])) (\<lambda>_.
     ret c))))"

text \<open>Lines 49 to 57: the local function \<^verbatim>\<open>generate\<close>.\<close>

definition generate :: "api \<Rightarrow> jobj \<Rightarrow> (unit, pstate) exn" where
  "generate a gopts =
     bindx (hook (plugins a) ''onGenerateFiles'' None None
              (obj_lit [Field ''files'' (js_or (obj_get gopts ''files'') JNull),
                        Field ''isFirstTime'' (obj_get gopts ''isFirstTime'')])) (\<lambda>_. ret ())"

text \<open>Lines 58 to 60: \<^verbatim>\<open>generate({ isFirstTime: true })\<close>.\<close>

definition stage_generate :: "api \<Rightarrow> ctx \<Rightarrow> (ctx, pstate) exn" where
  "stage_generate a c = bindx (generate a [(''isFirstTime'', JBool True)]) (\<lambda>_. ret c)"

text \<open>
  Lines 64 to 152: \<^verbatim>\<open>getBabelOpts\<close>, \<^verbatim>\<open>modifyEntry\<close>, the runtime, the options
  literal, \<^verbatim>\<open>onBeforeCompiler\<close>, \<^verbatim>\<open>modifyUniBundlerOpts\<close> (whose result replaces
  the options) and \<^verbatim>\<open>modifyUniBundler\<close> (whose result is the bundler).
\<close>

definition stage_compose :: "api \<Rightarrow> env \<Rightarrow> ctx \<Rightarrow> (ctx, pstate) exn" where
  "stage_compose a e c =
     (let b = babel_opts e; r = plugins a in
      bindx (hook r ''modifyEntry'' None (Some (obj_lit [Field ''umi'' (JStr (path_join (abs_tmp_path a) ''umi.ts''))])) JUndef) (\<lambda>ent.
      bindx (lift_res (react_runtime (app_react a))) (\<lambda>rt.
      (let o0 = build_opts a b ent rt in
       bindx (hook r ''onBeforeCompiler'' None None
                (obj_lit [Field ''compiler'' (app_bundler a), Field ''opts'' o0])) (\<lambda>_.
       bindx (hook r ''modifyUniBundlerOpts'' None (Some o0)
                (obj_lit [Field ''bundler'' (app_bundler a)])) (\<lambda>o1.
       bindx (hook r ''modifyUniBundler'' None None
                (obj_lit [Field ''bundler'' (app_bundler a), Field ''opts'' o1])) (\<lambda>bd.
       ret (c\<lparr>babel := b, entry := ent, opts := o1, bundler := bd\<rparr>))))))))"

text \<open>Line 154: \<^verbatim>\<open>const stats = await bundler.build(opts)\<close>.\<close>

definition stage_execute :: "api \<Rightarrow> env \<Rightarrow> ctx \<Rightarrow> (ctx, pstate) exn" where
  "stage_execute a e c =
     bindx (lift_res (get_prop (bundler c) ''build'')) (\<lambda>f.
     (case f of
        JFun n \<Rightarrow>
          bindx (emit BuildCall) (\<lambda>_.
          bindx (on_world (backends e n (invoke (plugins a)) (opts c))) (\<lambda>st.
          ret (c\<lparr>stats := st\<rparr>)))
      | _ \<Rightarrow> throw (TypeError ''bundler.build is not a function'')))"

text \<open>\<^verbatim>\<open>resolve(opts.cwd, p)\<close>: Node rejects arguments that are not strings.\<close>

definition js_resolve :: "js \<Rightarrow> js \<Rightarrow> string res" where
  "js_resolve x y =
     (case (x, y) of
        (JStr b, JStr p) \<Rightarrow> Inr (path_resolve b p)
      | _ \<Rightarrow> Inl (TypeError ''The paths argument must be of type string''))"

text \<open>Lines 156 to 171: sizes, only when neither vite nor mako is configured.\<close>

definition stage_sizes :: "api \<Rightarrow> env \<Rightarrow> ctx \<Rightarrow> (ctx, pstate) exn" where
  "stage_sizes a e c =
     (if \<not> is_vite a \<and> \<not> is_mako a then
        bindx (lift_res (get_prop (opts c) ''cwd'')) (\<lambda>cwd.
        bindx (lift_res (get_prop (opts c) ''config'')) (\<lambda>cf.
        bindx (lift_res (get_prop cf ''outputPath'')) (\<lambda>op.
        bindx (lift_res (js_resolve cwd (js_or op (JStr (default_output_path e))))) (\<lambda>out.
        bindx (emit (MeasureDir out)) (\<lambda>_.
        bindx (read_world (measure_sizes e out)) (\<lambda>prev.
        bindx (log_msg '''') (\<lambda>_.
        bindx (log_msg (''File sizes after gzip:'' @ [CHR 0x0A])) (\<lambda>_.
        bindx (emit (PrintSizes out prev (stats c))) (\<lambda>_.
        ret c)))))))))
      else ret c)"

text \<open>Lines 176 to 222: the HTML documents, skipped in multi-page mode.\<close>

definition stage_html :: "api \<Rightarrow> env \<Rightarrow> ctx \<Rightarrow> (ctx, pstate) exn" where
  "stage_html a e c0 =
     (let c = c0\<lparr>html_files := JArr []\<rparr> in
      if truthy (obj_get (api_config a) ''mpa'') then ret c
      else
       (let am = (if is_vite a then JObj [] else assets_map e (stats c) (obj_get (api_config a) ''publicPath''));
            vite = obj_get (api_args a) ''vite'';
            ma = get_markup_args e in
        bindx (lift_res (mapped_assets a am ''umi.css'')) (\<lambda>css.
        bindx (lift_res (mapped_assets a am ''umi.js'')) (\<lambda>js.
        bindx (lift_res (esm_script (opts c) vite)) (\<lambda>esm.
        (let fm = final_markup_args ma css js esm in
         bindx (hook (plugins a) ''modifyExportHTMLFiles'' None (Some (default_html (get_markup e fm)))
                  (obj_lit [Field ''markupArgs'' fm, Field ''getMarkup'' (JFun ''getMarkup'')])) (\<lambda>hf.
         bindx (for_each_html (abs_output_path a) hf) (\<lambda>_.
         ret (c\<lparr>html_files := hf\<rparr>)))))))))"

text \<open>Lines 225 to 231: \<^verbatim>\<open>onBuildHtmlComplete\<close> with \<^verbatim>\<open>{...opts, htmlFiles}\<close>.\<close>

definition complete_args :: "js \<Rightarrow> js \<Rightarrow> js" where
  "complete_args opts_v hf = obj_lit [Spread opts_v, Field ''htmlFiles'' hf]"

definition stage_complete :: "api \<Rightarrow> ctx \<Rightarrow> (ctx, pstate) exn" where
  "stage_complete a c =
     bindx (hook (plugins a) ''onBuildHtmlComplete'' None None
              (complete_args (opts c) (html_files c))) (\<lambda>_. ret c)"

fun run_stage :: "api \<Rightarrow> env \<Rightarrow> stage \<Rightarrow> ctx \<Rightarrow> (ctx, pstate) exn" where
  "run_stage a e PreCheck = stage_precheck a"
| "run_stage a e Generate = stage_generate a"
| "run_stage a e ComposeOptions = stage_compose a e"
| "run_stage a e ExecuteBuild = stage_execute a e"
| "run_stage a e MeasureSizes = stage_sizes a e"
| "run_stage a e GenerateHtml = stage_html a e"
| "run_stage a e Complete = stage_complete a"

fun run_stages :: "api \<Rightarrow> env \<Rightarrow> stage list \<Rightarrow> ctx \<Rightarrow> (ctx, pstate) exn" where
  "run_stages a e [] c = ret c"
| "run_stages a e (s # ss) c = bindx (run_stage a e s c) (run_stages a e ss)"

definition build_stages :: "stage list" where
  "build_stages = [PreCheck, Generate, ComposeOptions, ExecuteBuild, MeasureSizes, GenerateHtml, Complete]"

text \<open>The whole command: \<^verbatim>\<open>fn\<close> resolves to \<^verbatim>\<open>undefined\<close> or rejects.\<close>

definition build_fn :: "api \<Rightarrow> env \<Rightarrow> (unit, pstate) exn" where
  "build_fn a e = bindx (run_stages a e build_stages ctx0) (\<lambda>_. ret ())"

subsection \<open>The stage sequence the spec fixes\<close>

text \<open>
  The control-relevant part of the command's trace: which hook it dispatched,
  the backend call, the size measurement and report, the clearing of the
  temporary directory. The directories and files of the HTML stage depend on
  what the plugins return, and are left out.
\<close>

datatype ctl = CHook string | CBuild | CMeasure | CPrint | CRimraf

fun ctl_act :: "act \<Rightarrow> ctl option" where
  "ctl_act (Hook k) = Some (CHook k)"
| "ctl_act BuildCall = Some CBuild"
| "ctl_act (MeasureDir p) = Some CMeasure"
| "ctl_act (PrintSizes p m st) = Some CPrint"
| "ctl_act (Rimraf p) = Some CRimraf"
| "ctl_act (Mkdirp d) = None"
| "ctl_act (WriteFile p) = None"

fun ctl_of :: "act list \<Rightarrow> ctl list" where
  "ctl_of [] = []"
| "ctl_of (x # t) = (case ctl_act x of None \<Rightarrow> ctl_of t | Some c \<Rightarrow> c # ctl_of t)"

text \<open>Spec section 4.3, stage by stage, with the conditions of lines 156 and 178.\<close>

fun stage_ctl :: "api \<Rightarrow> stage \<Rightarrow> ctl list" where
  "stage_ctl a PreCheck = [CRimraf, CHook ''onCheckPkgJSON'']"
| "stage_ctl a Generate = [CHook ''onGenerateFiles'']"
| "stage_ctl a ComposeOptions =
     [CHook ''modifyEntry'', CHook ''onBeforeCompiler'', CHook ''modifyUniBundlerOpts'', CHook ''modifyUniBundler'']"
| "stage_ctl a ExecuteBuild = [CBuild]"
| "stage_ctl a MeasureSizes = (if \<not> is_vite a \<and> \<not> is_mako a then [CMeasure, CPrint] else [])"
| "stage_ctl a GenerateHtml =
     (if truthy (obj_get (api_config a) ''mpa'') then [] else [CHook ''modifyExportHTMLFiles''])"
| "stage_ctl a Complete = [CHook ''onBuildHtmlComplete'']"

definition expected_ctl :: "api \<Rightarrow> ctl list" where
  "expected_ctl a = concat (map (stage_ctl a) build_stages)"

text \<open>
  A run that returned did exactly the expected steps; a run that threw did a
  prefix of them.
\<close>

definition ctl_ok :: "'a res \<Rightarrow> ctl list \<Rightarrow> ctl list \<Rightarrow> bool" where
  "ctl_ok r cs K = (case r of Inl _ \<Rightarrow> is_prefix cs K | Inr _ \<Rightarrow> cs = K)"

definition follows :: "('a, pstate) exn \<Rightarrow> ctl list \<Rightarrow> bool" where
  "follows m K \<longleftrightarrow>
     (\<forall>ps r ps'. m ps = (r, ps') \<longrightarrow> (\<exists>t. trace ps' = trace ps @ t \<and> ctl_ok r (ctl_of t) K))"

subsection \<open>Each stage does its part of the sequence\<close>

lemma ctl_of_append [simp]: "ctl_of (s @ t) = ctl_of s @ ctl_of t"
  by (induction s) (auto split: option.splits)

lemma ctl_ok_Inl [simp]: "ctl_ok (Inl e) cs K = is_prefix cs K"
  by (simp add: ctl_ok_def)

lemma ctl_ok_Inr [simp]: "ctl_ok (Inr a) cs K = (cs = K)"
  by (simp add: ctl_ok_def)

lemma followsI:
  "(\<And>ps r ps'. m ps = (r, ps') \<Longrightarrow> \<exists>t. trace ps' = trace ps @ t \<and> ctl_ok r (ctl_of t) K) \<Longrightarrow> follows m K"
  by (simp add: follows_def)

lemma followsD:
  "follows m K \<Longrightarrow> m ps = (r, ps') \<Longrightarrow> \<exists>t. trace ps' = trace ps @ t \<and> ctl_ok r (ctl_of t) K"
  by (simp add: follows_def)

lemma follows_ret [follows_rules]: "follows (ret a) []"
  by (rule followsI) auto

lemma follows_throw [follows_rules]: "follows (throw e) K"
  by (rule followsI) auto

lemma follows_lift_res [follows_rules]: "follows (lift_res r) []"
  by (rule followsI) (auto simp: ctl_ok_def split: sum.splits)

lemma follows_on_world [follows_rules]: "follows (on_world m) []"
  by (rule followsI) (auto simp: on_world_def ctl_ok_def split: prod.splits sum.splits)

lemma follows_log_msg [follows_rules]: "follows (log_msg l) []"
  by (simp add: log_msg_def follows_on_world)

lemma follows_read_world [follows_rules]: "follows (read_world f) []"
  by (rule followsI) (auto simp: read_world_def)

lemma follows_emit [follows_rules]: "follows (emit x) (case ctl_act x of None \<Rightarrow> [] | Some c \<Rightarrow> [c])"
  by (rule followsI) (auto simp: emit_def split: option.splits)

lemma follows_hook [follows_rules]: "follows (hook r k ty i args) [CHook k]"
  by (rule followsI) (auto simp: hook_def emit_def on_world_def bindx_def ctl_ok_def split: prod.splits sum.splits)

lemma follows_bindx [follows_rules]:
  assumes m: "follows m K1" and f: "\<And>a. follows (f a) K2" and K: "K = K1 @ K2"
  shows "follows (bindx m f) K"
proof (rule followsI)
  fix ps r ps'
  assume run: "bindx m f ps = (r, ps')"
  show "\<exists>t. trace ps' = trace ps @ t \<and> ctl_ok r (ctl_of t) K"
  proof (cases "m ps")
    case (Pair r1 ps1)
    from followsD [OF m Pair] obtain t1 where
      t1: "trace ps1 = trace ps @ t1" and ok1: "ctl_ok r1 (ctl_of t1) K1" by blast
    show ?thesis
    proof (cases r1)
      case (Inl e)
      with run Pair have "r = Inl e" "ps' = ps1" by (simp_all add: bindx_def)
      with t1 ok1 Inl K show ?thesis by (auto intro: is_prefix_append_right)
    next
      case (Inr a)
      with run Pair have run2: "f a ps1 = (r, ps')" by (simp add: bindx_def)
      from followsD [OF f run2] obtain t2 where
        t2: "trace ps' = trace ps1 @ t2" and ok2: "ctl_ok r (ctl_of t2) K2" by blast
      from ok1 Inr have "ctl_of t1 = K1" by simp
      with t1 t2 ok2 K show ?thesis
        by (intro exI [of _ "t1 @ t2"]) (auto simp: ctl_ok_def is_prefix_append_left split: sum.splits)
    qed
  qed
qed

lemma follows_if [follows_rules]:
  "follows m1 K1 \<Longrightarrow> follows m2 K2 \<Longrightarrow> follows (if b then m1 else m2) (if b then K1 else K2)"
  by simp

lemma follows_stage_precheck: "follows (stage_precheck a c) (stage_ctl a PreCheck)"
  unfolding stage_precheck_def
  by (rule follows_rules | (simp; fail))+

lemma follows_stage_generate: "follows (stage_generate a c) (stage_ctl a Generate)"
  unfolding stage_generate_def generate_def
  by (rule follows_rules | (simp; fail))+

lemma follows_stage_compose: "follows (stage_compose a e c) (stage_ctl a ComposeOptions)"
  unfolding stage_compose_def Let_def
  by (rule follows_rules | (simp; fail))+

lemma follows_if_same [follows_rules]:
  "follows m1 K \<Longrightarrow> follows m2 K \<Longrightarrow> follows (if b then m1 else m2) K"
  by simp

lemma follows_case_js [follows_rules]:
  "follows fu K \<Longrightarrow> follows fn K \<Longrightarrow> (\<And>b. follows (fb b) K) \<Longrightarrow> (\<And>i. follows (fi i) K) \<Longrightarrow>
   (\<And>s. follows (fs s) K) \<Longrightarrow> (\<And>xs. follows (fa xs) K) \<Longrightarrow> (\<And>ps. follows (fo ps) K) \<Longrightarrow>
   (\<And>n. follows (ff n) K) \<Longrightarrow> follows (case_js fu fn fb fi fs fa fo ff v) K"
  by (cases v) simp_all

lemma follows_stage_execute: "follows (stage_execute a e c) (stage_ctl a ExecuteBuild)"
  unfolding stage_execute_def
  by (rule follows_rules | (simp; fail))+

lemma follows_stage_sizes: "follows (stage_sizes a e c) (stage_ctl a MeasureSizes)"
  unfolding stage_sizes_def stage_ctl.simps
  by (rule follows_rules | (simp; fail))+

lemma follows_write_html_file: "follows (write_html_file out f) []"
  unfolding write_html_file_def Let_def
  by (rule follows_rules | (simp; fail))+

lemma follows_write_html_files: "follows (write_html_files out fs) []"
proof (induction fs)
  case Nil
  show ?case unfolding write_html_files.simps by (rule follows_ret)
next
  case (Cons f fs)
  show ?case
    unfolding write_html_files.simps by (rule follows_bindx [OF follows_write_html_file Cons.IH]) simp
qed

lemma follows_for_each_html: "follows (for_each_html out hf) []"
  unfolding for_each_html_def
  by (rule follows_rules follows_write_html_files | (simp; fail))+

lemma follows_stage_html: "follows (stage_html a e c) (stage_ctl a GenerateHtml)"
  unfolding stage_html_def stage_ctl.simps Let_def
  by (rule follows_rules follows_for_each_html | (simp; fail))+

lemma follows_stage_complete: "follows (stage_complete a c) (stage_ctl a Complete)"
  unfolding stage_complete_def
  by (rule follows_rules | (simp; fail))+

lemma follows_run_stage: "follows (run_stage a e s c) (stage_ctl a s)"
  by (cases s) (simp_all only: run_stage.simps follows_stage_precheck follows_stage_generate
    follows_stage_compose follows_stage_execute follows_stage_sizes follows_stage_html follows_stage_complete)

lemma follows_run_stages: "follows (run_stages a e ss c) (concat (map (stage_ctl a) ss))"
proof (induction ss arbitrary: c)
  case Nil
  show ?case unfolding run_stages.simps list.map concat.simps by (rule follows_ret)
next
  case (Cons s ss)
  show ?case
    unfolding run_stages.simps by (rule follows_bindx [OF follows_run_stage Cons.IH]) simp
qed

lemma follows_build_fn: "follows (build_fn a e) (expected_ctl a)"
  unfolding build_fn_def expected_ctl_def
  by (rule follows_bindx [OF follows_run_stages follows_ret]) simp

subsection \<open>Reading a run back\<close>

lemma run_stages_Cons_Inr:
  "run_stages a e (s # ss) c ps = (Inr x, ps') \<Longrightarrow>
   \<exists>c1 ps1. run_stage a e s c ps = (Inr c1, ps1) \<and> run_stages a e ss c1 ps1 = (Inr x, ps')"
  by (simp add: bindx_eq_Inr)

lemma build_fn_Inr:
  "build_fn a e ps = (Inr (), ps') \<Longrightarrow> \<exists>c. run_stages a e build_stages ctx0 ps = (Inr c, ps')"
  by (auto simp: build_fn_def bindx_eq_Inr)

lemma run_stages_append:
  "run_stages a e (xs @ ys) c = bindx (run_stages a e xs c) (run_stages a e ys)"
proof (induction xs arbitrary: c)
  case (Cons s xs)
  have "run_stages a e (xs @ ys) = (\<lambda>c. bindx (run_stages a e xs c) (run_stages a e ys))"
    using Cons.IH by (rule ext)
  then show ?case by (simp add: bindx_assoc)
qed simp

lemma stage_execute_Inr:
  assumes "stage_execute a e c ps = (Inr c', ps')"
  shows "\<exists>n st. backends e n (invoke (plugins a)) (opts c) (world ps) = (Inr st, world ps') \<and>
           trace ps' = trace ps @ [BuildCall] \<and> c' = c\<lparr>stats := st\<rparr>"
proof -
  obtain f where g: "get_prop (bundler c) ''build'' = Inr f"
    using assms by (cases "get_prop (bundler c) ''build''") (auto simp: stage_execute_def)
  moreover obtain n where "f = JFun n"
    using assms g by (cases f) (auto simp: stage_execute_def)
  ultimately show ?thesis
    using assms by (auto simp: stage_execute_def bindx_eq_Inr emit_def on_world_def split: prod.split_asm sum.split_asm) blast
qed

lemma stage_sizes_Inr:
  assumes "stage_sizes a e c ps = (Inr c', ps')" and "\<not> is_vite a" and "\<not> is_mako a"
  shows "\<exists>p. trace ps' = trace ps @ [MeasureDir p, PrintSizes p (measure_sizes e p (world ps)) (stats c)]"
  using assms
  by (auto simp: stage_sizes_def bindx_eq_Inr emit_def read_world_def log_msg_def on_world_def log_line_def
      split: sum.splits)

subsection \<open>Stages that succeed\<close>

lemma stage_precheck_quiet:
  assumes "handlers_for (plugins a) ''onCheckPkgJSON'' = []"
  shows "stage_precheck a c ps =
           (Inr c, ps\<lparr>world := rimraf (abs_tmp_path a) ((world ps)\<lparr>console := console (world ps) @ [''Umi v'' @ umi_version a]\<rparr>),
                      trace := trace ps @ [Rimraf (abs_tmp_path a), Hook ''onCheckPkgJSON'']\<rparr>)"
  using assms
  by (simp add: stage_precheck_def hook_def emit_def on_world_def log_msg_def log_line_def dispatch_no_handlers
      starts_with_def)

lemma stage_generate_quiet:
  assumes "handlers_for (plugins a) ''onGenerateFiles'' = []"
  shows "stage_generate a c ps = (Inr c, ps\<lparr>trace := trace ps @ [Hook ''onGenerateFiles'']\<rparr>)"
  using assms
  by (simp add: stage_generate_def generate_def hook_def emit_def on_world_def dispatch_no_handlers starts_with_def)

lemma stage_compose_bundler_only:
  assumes "handlers_for (plugins a) ''modifyEntry'' = []" and "handlers_for (plugins a) ''onBeforeCompiler'' = []"
    and "handlers_for (plugins a) ''modifyUniBundlerOpts'' = []"
    and "map hook_fn (handlers_for (plugins a) ''modifyUniBundler'') = map pure_fn fs"
    and "react_runtime (app_react a) = Inr rt"
    and "ent = obj_lit [Field ''umi'' (JStr (path_join (abs_tmp_path a) ''umi.ts''))]"
  shows "stage_compose a e c ps =
           (Inr (c\<lparr>babel := babel_opts e, entry := ent, opts := build_opts a (babel_opts e) ent rt,
                   bundler := foldl (\<lambda>m f. f m (obj_lit [Field ''bundler'' (app_bundler a),
                                      Field ''opts'' (build_opts a (babel_opts e) ent rt)])) JUndef fs\<rparr>),
            ps\<lparr>trace := trace ps @ [Hook ''modifyEntry'', Hook ''onBeforeCompiler'', Hook ''modifyUniBundlerOpts'', Hook ''modifyUniBundler'']\<rparr>)"
  using assms
  by (simp add: stage_compose_def Let_def hook_def emit_def on_world_def dispatch_no_handlers starts_with_def
      apply_plugins_Modify run_modify_pure)

lemma stage_execute_runs:
  assumes "get_prop (bundler c) ''build'' = Inr (JFun n)"
    and "backends e n (invoke (plugins a)) (opts c) (world ps) = (Inr st, w')"
  shows "stage_execute a e c ps = (Inr (c\<lparr>stats := st\<rparr>), ps\<lparr>trace := trace ps @ [BuildCall], world := w'\<rparr>)"
  using assms by (simp add: stage_execute_def emit_def on_world_def)

lemma stage_sizes_runs:
  assumes "\<not> is_vite a" and "\<not> is_mako a" and "opts c = build_opts a b ent rt"
    and "distinct (map fst (api_config a))"
    and "(case map_of (api_config a) ''outputPath'' of Some v \<Rightarrow> v
          | None \<Rightarrow> js_or (obj_get (api_user_config a) ''outputPath'') (JStr ''dist'')) = JStr op"
    and "q = path_resolve (api_cwd a) (if op = [] then default_output_path e else op)"
  shows "stage_sizes a e c ps =
           (Inr c, ps\<lparr>world := (world ps)\<lparr>console := console (world ps) @ ['''', ''File sizes after gzip:'' @ [CHR 0x0A]]\<rparr>,
                      trace := trace ps @ [MeasureDir q, PrintSizes q (measure_sizes e q (world ps)) (stats c)]\<rparr>)"
proof -
  let ?cf = "obj_lit [Field ''outputPath'' (js_or (obj_get (api_user_config a) ''outputPath'') (JStr ''dist'')),
                      Spread (JObj (api_config a))]"
  have g: "get_prop (opts c) ''config'' = Inr ?cf" "get_prop (opts c) ''cwd'' = Inr (JStr (api_cwd a))"
    using assms(1,3) by (simp_all add: build_opts_def bundler_fields_def obj_lit_get del: item_lookup.simps(2))
  have "get_prop ?cf ''outputPath'' = Inr (JStr op)"
    using assms(4,5) by (simp add: obj_lit_get item_lookup_Spread_JObj map_of_rev_distinct
      del: item_lookup.simps(2) split: option.split_asm)
  with g show ?thesis
    using assms(1,2,6)
    by (simp add: stage_sizes_def js_resolve_def js_or_def emit_def read_world_def log_msg_def on_world_def log_line_def)
qed

lemma esm_script_build_opts: "\<exists>v. esm_script (build_opts a b ent rt) vite = Inr v"
  by (cases "is_vite a") (simp_all add: esm_script_def build_opts_def bundler_fields_def obj_lit_get
      del: item_lookup.simps(2))

lemma stage_html_default:
  assumes "\<not> truthy (obj_get (api_config a) ''mpa'')"
    and "handlers_for (plugins a) ''modifyExportHTMLFiles'' = []"
    and "mapped_assets a (if is_vite a then JObj [] else assets_map e (stats c) (obj_get (api_config a) ''publicPath'')) ''umi.css'' = Inr css"
    and "mapped_assets a (if is_vite a then JObj [] else assets_map e (stats c) (obj_get (api_config a) ''publicPath'')) ''umi.js'' = Inr jss"
    and "esm_script (opts c) (obj_get (api_args a) ''vite'') = Inr esm"
    and "m = get_markup e (final_markup_args (get_markup_args e) css jss esm)"
    and "t = path_resolve (abs_output_path a) ''index.html''"
    and "path_dirname t \<notin> unwritable (world ps)" and "t \<notin> unwritable (world ps)"
  shows "stage_html a e c ps =
           (Inr (c\<lparr>html_files := JArr [html_doc (''index.html'', m)]\<rparr>),
            ps\<lparr>world := (world ps)\<lparr>dirs := dirs (world ps) \<union> set (path_prefixes (path_dirname t)),
                                  files := (files (world ps))(t \<mapsto> m),
                                  console := console (world ps) @ [''Build index.html'']\<rparr>,
               trace := trace ps @ [Hook ''modifyExportHTMLFiles'', Mkdirp (path_dirname t), WriteFile t]\<rparr>)"
  using assms
  by (cases "is_vite a") (simp_all add: stage_html_def Let_def hook_def emit_def on_world_def dispatch_no_handlers
      starts_with_def default_html_doc for_each_html_def write_html_file_doc)

lemma stage_complete_quiet:
  assumes "handlers_for (plugins a) ''onBuildHtmlComplete'' = []"
  shows "stage_complete a c ps = (Inr c, ps\<lparr>trace := trace ps @ [Hook ''onBuildHtmlComplete'']\<rparr>)"
  using assms
  by (simp add: stage_complete_def hook_def emit_def on_world_def dispatch_no_handlers starts_with_def)

text \<open>The first three stages when the plugins only supply the bundler.\<close>

lemma front_stages_bundler_only:
  assumes quiet: "\<forall>k. k \<noteq> ''modifyUniBundler'' \<longrightarrow> handlers_for (plugins a) k = []"
    and bd: "map hook_fn (handlers_for (plugins a) ''modifyUniBundler'') = map pure_fn fs"
    and rt: "react_runtime (app_react a) = Inr rt"
    and ent: "ent = obj_lit [Field ''umi'' (JStr (path_join (abs_tmp_path a) ''umi.ts''))]"
  shows "run_stages a e [PreCheck, Generate, ComposeOptions] ctx0 ps =
           (Inr (ctx0\<lparr>babel := babel_opts e, entry := ent, opts := build_opts a (babel_opts e) ent rt,
                      bundler := foldl (\<lambda>m f. f m (obj_lit [Field ''bundler'' (app_bundler a),
                                   Field ''opts'' (build_opts a (babel_opts e) ent rt)])) JUndef fs\<rparr>),
            ps\<lparr>world := rimraf (abs_tmp_path a) ((world ps)\<lparr>console := console (world ps) @ [''Umi v'' @ umi_version a]\<rparr>),
               trace := trace ps @ [Rimraf (abs_tmp_path a), Hook ''onCheckPkgJSON'', Hook ''onGenerateFiles'',
                 Hook ''modifyEntry'', Hook ''onBeforeCompiler'', Hook ''modifyUniBundlerOpts'', Hook ''modifyUniBundler'']\<rparr>)"
proof -
  have h: "handlers_for (plugins a) ''onCheckPkgJSON'' = []" "handlers_for (plugins a) ''onGenerateFiles'' = []"
    "handlers_for (plugins a) ''modifyEntry'' = []" "handlers_for (plugins a) ''onBeforeCompiler'' = []"
    "handlers_for (plugins a) ''modifyUniBundlerOpts'' = []"
    using quiet by simp_all
  show ?thesis
    by (simp add: stage_precheck_quiet [OF h(1)] stage_generate_quiet [OF h(2)]
        stage_compose_bundler_only [OF h(3,4,5) bd rt ent])
qed

lemma ctl_act_CBuild [simp]: "ctl_act x = Some CBuild \<longleftrightarrow> x = BuildCall"
  by (cases x) auto

lemma ctl_act_CMeasure [simp]: "ctl_act x = Some CMeasure \<longleftrightarrow> (\<exists>p. x = MeasureDir p)"
  by (cases x) auto

text \<open>An entry of the control sequence comes from one act of the trace.\<close>

lemma ctl_of_split:
  "ctl_of t = xs @ c # ys \<Longrightarrow>
   \<exists>t1 x t2. t = t1 @ x # t2 \<and> ctl_act x = Some c \<and> ctl_of t1 = xs \<and> ctl_of t2 = ys"
proof (induction t arbitrary: xs)
  case Nil
  then show ?case by simp
next
  case (Cons x t)
  show ?case
  proof (cases "ctl_act x")
    case None
    with Cons.prems have "ctl_of t = xs @ c # ys" by simp
    from Cons.IH [OF this] obtain t1 y t2 where
      "t = t1 @ y # t2" "ctl_act y = Some c" "ctl_of t1 = xs" "ctl_of t2 = ys" by blast
    with None show ?thesis by (intro exI [of _ "x # t1"]) auto
  next
    case (Some c')
    show ?thesis
    proof (cases xs)
      case Nil
      with Cons.prems Some show ?thesis by (intro exI [of _ "[]"]) auto
    next
      case (Cons z zs)
      with Cons.prems Some have "ctl_of t = zs @ c # ys" by simp
      from Cons.IH [OF this] obtain t1 y t2 where
        "t = t1 @ y # t2" "ctl_act y = Some c" "ctl_of t1 = zs" "ctl_of t2 = ys" by blast
      with Some Cons.prems \<open>xs = z # zs\<close> show ?thesis by (intro exI [of _ "x # t1"]) auto
    qed
  qed
qed

lemma hook_modify_no_handlers:
  "handlers_for r k = [] \<Longrightarrow> infer_type k ty = Inr Modify \<Longrightarrow>
   hook r k ty None args ps = (Inr JUndef, ps\<lparr>trace := trace ps @ [Hook k]\<rparr>)"
  by (simp add: hook_def emit_def on_world_def apply_plugins_def)

lemma stage_compose_no_bundler:
  assumes "handlers_for (plugins a) ''modifyUniBundler'' = []"
    and "stage_compose a e c ps = (Inr c', ps')"
  shows "bundler c' = JUndef"
proof -
  have "infer_type ''modifyUniBundler'' None = Inr Modify"
    by (simp add: starts_with_def)
  with assms show ?thesis
    by (auto simp: stage_compose_def Let_def bindx_eq_Inr hook_modify_no_handlers)
qed

lemma stage_execute_undefined:
  "bundler c = JUndef \<Longrightarrow>
   fst (stage_execute a e c ps) = Inl (TypeError ''Cannot read properties of undefined (reading build)'')"
  by (simp add: stage_execute_def get_prop_def)

subsection \<open>The options the backend receives\<close>

text \<open>
  C7. Refinement of the options hand-over (lines 105 to 144): when the
  \<^verbatim>\<open>modifyUniBundlerOpts\<close> handlers are pure functions \<open>fs\<close>, the options a
  successful composition stage leaves for \<^verbatim>\<open>bundler.build\<close> are exactly the
  left fold of \<open>fs\<close>, in registration order and each given
  \<^verbatim>\<open>{ bundler: api.appData.bundler }\<close>, over the options literal built from
  the babel options, the entry the stage computed and the runtime chosen from
  the React version.
\<close>

theorem uni_bundler_opts_fold:
  assumes "stage_compose a e c ps = (Inr c', ps')"
    and "map hook_fn (handlers_for (plugins a) ''modifyUniBundlerOpts'') = map pure_fn fs"
  shows "\<exists>rt. react_runtime (app_react a) = Inr rt \<and>
           opts c' = foldl (\<lambda>m f. f m (obj_lit [Field ''bundler'' (app_bundler a)]))
                       (build_opts a (babel_opts e) (entry c') rt) fs"
  using assms
  by (auto simp: stage_compose_def Let_def bindx_eq_Inr hook_eq_Inr apply_plugins_Modify
      starts_with_def run_modify_pure)

subsection \<open>Clearing the temporary directory and failing backends\<close>

text \<open>
  C24. The pre-check stage prints the banner, then clears the temporary
  directory unconditionally (whatever \<^verbatim>\<open>--clean\<close> says), then runs the
  \<^verbatim>\<open>onCheckPkgJSON\<close> handlers in registration order on
  \<^verbatim>\<open>{origin: null, current: pkg}\<close>; the clearing removes every file and
  directory below the temporary path.
\<close>

theorem precheck_clears_tmp:
  assumes "map hook_fn (handlers_for (plugins a) ''onCheckPkgJSON'') = map event_fn gs"
  shows "stage_precheck a c ps =
     (Inr c, ps\<lparr>world := fold (\<lambda>g. g (JObj [(''origin'', JNull), (''current'', app_pkg a)])) gs
                  (rimraf (abs_tmp_path a) ((world ps)\<lparr>console := console (world ps) @ [''Umi v'' @ umi_version a]\<rparr>)),
                trace := trace ps @ [Rimraf (abs_tmp_path a), Hook ''onCheckPkgJSON'']\<rparr>) \<and>
   (\<forall>q. under (abs_tmp_path a) q \<longrightarrow> files (rimraf (abs_tmp_path a) w) q = None \<and> q \<notin> dirs (rimraf (abs_tmp_path a) w))"
  using assms
  by (simp add: stage_precheck_def hook_def emit_def on_world_def log_msg_def log_line_def apply_plugins_Event
      starts_with_def run_event_pure obj_lit_def obj_get_def obj_set_def rimraf_def)

text \<open>
  C26. A backend whose build fails ends the run with its error unchanged
  (spec section 7, BackendBuildFailure): the stages after the build do not
  run, and the world is the one the backend left.
\<close>

theorem backend_failure_halts:
  assumes "get_prop (bundler c) ''build'' = Inr (JFun n)"
    and "backends e n (invoke (plugins a)) (opts c) (world ps) = (Inl err, w')"
  shows "run_stages a e (ExecuteBuild # ss) c ps = (Inl err, ps\<lparr>trace := trace ps @ [BuildCall], world := w'\<rparr>)"
  using assms by (simp add: stage_execute_def emit_def on_world_def bindx_def)

subsection \<open>The size stage\<close>

text \<open>
  C23. The directory the size stage measures and reports: with the options
  literal as composed and no \<^verbatim>\<open>outputPath\<close> in the resolved configuration,
  it is the user's \<^verbatim>\<open>outputPath\<close> resolved against \<^verbatim>\<open>api.cwd\<close>, measured
  once and then reported together with that measurement and the build's
  stats, with the two console lines of lines 164 and 165; the HTML stage
  writes below \<^verbatim>\<open>api.paths.absOutputPath\<close> instead.
\<close>

theorem sizes_measure_dir:
  assumes "\<not> is_vite a" and "\<not> is_mako a" and "opts c = build_opts a b ent rt"
    and "map_of (api_config a) ''outputPath'' = None" and "distinct (map fst (api_config a))"
    and "obj_get (api_user_config a) ''outputPath'' = JStr p" and "p \<noteq> []"
  shows "stage_sizes a e c ps =
           (Inr c, ps\<lparr>world := (world ps)\<lparr>console := console (world ps) @ ['''', ''File sizes after gzip:'' @ [CHR 0x0A]]\<rparr>,
                      trace := trace ps @ [MeasureDir (path_resolve (api_cwd a) p), PrintSizes (path_resolve (api_cwd a) p) (measure_sizes e (path_resolve (api_cwd a) p) (world ps)) (stats c)]\<rparr>)"
  using assms
  by (simp add: stage_sizes_def build_opts_def bundler_fields_def obj_lit_get item_lookup_Spread_JObj
      map_of_rev_distinct js_resolve_def js_or_def emit_def read_world_def log_msg_def on_world_def log_line_def
      del: item_lookup.simps(2))

subsection \<open>The default document\<close>

text \<open>
  C15. Outside multi-page mode and with no \<^verbatim>\<open>modifyExportHTMLFiles\<close> handler,
  a successful HTML stage produces exactly one document, \<^verbatim>\<open>index.html\<close> with
  the rendered markup, and writes it to \<^verbatim>\<open><outputPath>/index.html\<close> after
  creating its directory, and nothing else (spec section 8).
\<close>

theorem default_index_html:
  assumes "\<not> truthy (obj_get (api_config a) ''mpa'')"
    and "handlers_for (plugins a) ''modifyExportHTMLFiles'' = []"
    and "stage_html a e c ps = (Inr c', ps')"
  shows "\<exists>m. html_files c' = JArr [html_doc (''index.html'', m)] \<and>
           files (world ps') (path_resolve (abs_output_path a) ''index.html'') = Some m \<and>
           trace ps' = trace ps @ [Hook ''modifyExportHTMLFiles'',
             Mkdirp (path_dirname (path_resolve (abs_output_path a) ''index.html'')),
             WriteFile (path_resolve (abs_output_path a) ''index.html'')]"
  using assms
  by (auto simp: stage_html_def Let_def bindx_eq_Inr hook_eq_Inr dispatch_no_handlers starts_with_def
      default_html_doc for_each_html_def dest!: write_html_file_doc_Inr)

subsection \<open>What the plugins are told\<close>

text \<open>
  C20. \<^verbatim>\<open>generate({ isFirstTime: true })\<close> dispatches \<^verbatim>\<open>onGenerateFiles\<close>
  with \<^verbatim>\<open>files: null\<close> (the missing \<^verbatim>\<open>opts.files\<close> falls through
  \<^verbatim>\<open>|| null\<close>), not with the empty list spec section 4.3 describes, and
  \<^verbatim>\<open>isFirstTime: true\<close>; the event handlers run on these arguments in
  registration order.
\<close>

theorem generate_files_args:
  assumes "map hook_fn (handlers_for (plugins a) ''onGenerateFiles'') = map event_fn gs"
  shows "stage_generate a c ps =
     (Inr c, ps\<lparr>trace := trace ps @ [Hook ''onGenerateFiles''],
                world := fold (\<lambda>g. g (JObj [(''files'', JNull), (''isFirstTime'', JBool True)])) gs (world ps)\<rparr>)"
  using assms
  by (simp add: stage_generate_def generate_def hook_def emit_def on_world_def apply_plugins_Event
      starts_with_def run_event_pure obj_lit_def obj_get_def js_or_def obj_set_def)

text \<open>
  C21. \<^verbatim>\<open>onBuildHtmlComplete\<close> receives \<^verbatim>\<open>{...opts, htmlFiles}\<close>: its
  handlers run in registration order on an object whose \<^verbatim>\<open>htmlFiles\<close> is the
  documents of the HTML stage (replacing the options' own \<^verbatim>\<open>htmlFiles: []\<close>)
  and whose every other key is the options' value.
\<close>

lemma stage_complete_event:
  assumes "map hook_fn (handlers_for (plugins a) ''onBuildHtmlComplete'') = map event_fn gs"
  shows "stage_complete a c ps =
           (Inr c, ps\<lparr>trace := trace ps @ [Hook ''onBuildHtmlComplete''],
                      world := fold (\<lambda>g. g (complete_args (opts c) (html_files c))) gs (world ps)\<rparr>)"
  using assms
  by (simp add: stage_complete_def hook_def emit_def on_world_def apply_plugins_Event starts_with_def run_event_pure)

theorem build_html_complete_args:
  assumes "map hook_fn (handlers_for (plugins a) ''onBuildHtmlComplete'') = map event_fn gs"
    and "opts c = JObj os" and "distinct (map fst os)"
  shows "stage_complete a c ps =
           (Inr c, ps\<lparr>trace := trace ps @ [Hook ''onBuildHtmlComplete''],
                      world := fold (\<lambda>g. g (complete_args (opts c) (html_files c))) gs (world ps)\<rparr>) \<and>
         prop_of (complete_args (opts c) (html_files c)) ''htmlFiles'' = html_files c \<and>
         (\<forall>k. k \<noteq> ''htmlFiles'' \<longrightarrow> prop_of (complete_args (opts c) (html_files c)) k = obj_get os k)"
proof (intro conjI allI impI)
  show "stage_complete a c ps =
           (Inr c, ps\<lparr>trace := trace ps @ [Hook ''onBuildHtmlComplete''],
                      world := fold (\<lambda>g. g (complete_args (opts c) (html_files c))) gs (world ps)\<rparr>)"
    using assms(1) by (rule stage_complete_event)
  show "prop_of (complete_args (opts c) (html_files c)) ''htmlFiles'' = html_files c"
    by (simp add: complete_args_def obj_lit_get)
  fix k
  assume "k \<noteq> ''htmlFiles''"
  with assms(2,3) show "prop_of (complete_args (opts c) (html_files c)) k = obj_get os k"
    by (simp add: complete_args_def obj_lit_get map_of_rev_distinct obj_get_def)
qed

text \<open>
  C29. In multi-page mode (\<^verbatim>\<open>mpa\<close> truthy) the HTML stage and the
  completion event compose to: no \<^verbatim>\<open>modifyExportHTMLFiles\<close> dispatch, no
  directory created and no file written by the command, and
  \<^verbatim>\<open>onBuildHtmlComplete\<close> told \<^verbatim>\<open>htmlFiles: []\<close> whatever documents the
  context held before, its handlers run in registration order.
\<close>

theorem mpa_html_complete:
  assumes "truthy (obj_get (api_config a) ''mpa'')"
    and "map hook_fn (handlers_for (plugins a) ''onBuildHtmlComplete'') = map event_fn gs"
  shows "run_stages a e [GenerateHtml, Complete] c ps =
           (Inr (c\<lparr>html_files := JArr []\<rparr>),
            ps\<lparr>trace := trace ps @ [Hook ''onBuildHtmlComplete''],
               world := fold (\<lambda>g. g (complete_args (opts c) (JArr []))) gs (world ps)\<rparr>)"
proof -
  have "stage_html a e c ps = (Inr (c\<lparr>html_files := JArr []\<rparr>), ps)"
    using assms(1) by (simp add: stage_html_def ret_def)
  then show ?thesis
    using stage_complete_event [OF assms(2), of "c\<lparr>html_files := JArr []\<rparr>" ps]
    by (simp add: bindx_def ret_def)
qed

end
