(* ===== verification/Command.thy ===== *)
theory Command
  imports Build
begin

text \<open>
  The preset's registration of the command (build.ts, lines 20 to 33 and
  235 to 236): \<^verbatim>\<open>api.registerCommand({ name, description, details, fn })\<close>.
  The command table and \<^verbatim>\<open>registerCommand\<close> belong to \<^verbatim>\<open>@umijs/core\<close>, outside
  \<^verbatim>\<open>src/\<close>; a name can be registered once. The CLI later runs the \<^verbatim>\<open>fn\<close> of
  the command named on the command line.
\<close>

record command =
  cmd_name :: string
  cmd_description :: string
  cmd_details :: string
  cmd_fn :: "api \<Rightarrow> env \<Rightarrow> (unit, pstate) exn"

type_synonym command_table = "string \<rightharpoonup> command"

definition register_command :: "command_table \<Rightarrow> command \<Rightarrow> command_table res" where
  "register_command t cmd =
     (if cmd_name cmd \<in> dom t
      then Inl (InvalidArguments (''api.registerCommand() failed, the command '' @ cmd_name cmd @ '' is exists.''))
      else Inr (t(cmd_name cmd \<mapsto> cmd)))"

definition build_command :: command where
  "build_command = \<lparr>cmd_name = ''build'', cmd_description = ''build app for production'',
     cmd_details = ''umi build  # build without compression: COMPRESS=none umi build  # clean and build: umi build --clean'',
     cmd_fn = build_fn\<rparr>"

definition preset_build :: "command_table \<Rightarrow> command_table res" where
  "preset_build t = register_command t build_command"

text \<open>\<^verbatim>\<open>umi <name>\<close>: the CLI looks the command up and runs it.\<close>

definition run_command :: "command_table \<Rightarrow> string \<Rightarrow> api \<Rightarrow> env \<Rightarrow> (unit, pstate) exn" where
  "run_command t n a e =
     (case t n of None \<Rightarrow> throw (InvalidArguments (''Invalid command '' @ n)) | Some cmd \<Rightarrow> cmd_fn cmd a e)"

end
