(* ===== verification/Spec2Isabelle.thy ===== *)
theory Spec2Isabelle
  imports Command
begin

text \<open>
  \<^bold>\<open>The \<^verbatim>\<open>umi build\<close> command, verified.\<close>

  \<^bold>\<open>The program.\<close> \<^verbatim>\<open>src/packages/preset-umi/src/commands/build.ts\<close> registers
  the command \<^verbatim>\<open>build\<close>; its \<^verbatim>\<open>fn\<close> (lines 33 to 234) is a fixed pipeline
  of hook dispatches through \<^verbatim>\<open>api.applyPlugins\<close> around one call of the
  bundler backend. It clears the temporary directory and dispatches
  \<^verbatim>\<open>onCheckPkgJSON\<close>; dispatches \<^verbatim>\<open>onGenerateFiles\<close>; composes the build
  options (babel options, \<^verbatim>\<open>modifyEntry\<close>, the React runtime chosen by
  \<^verbatim>\<open>semver.gte\<close>, the options literal with the vite or webpack fields and the
  closures that re-enter the dispatcher, then \<^verbatim>\<open>onBeforeCompiler\<close>,
  \<^verbatim>\<open>modifyUniBundlerOpts\<close>, \<^verbatim>\<open>modifyUniBundler\<close>); calls
  \<^verbatim>\<open>bundler.build(opts)\<close>; measures and prints file sizes unless vite or mako
  is configured; outside multi-page mode renders the markup, offers the default
  \<^verbatim>\<open>index.html\<close> to \<^verbatim>\<open>modifyExportHTMLFiles\<close> and writes every document; and
  dispatches \<^verbatim>\<open>onBuildHtmlComplete\<close>. Plugins act only through their handlers;
  the backend acts on the shared world and calls back the closures of the
  options.

  \<^bold>\<open>The theories.\<close>
  \<^item> \<open>Prelude\<close>: the exception-state monad \<open>('a, 's) exn\<close> (an \<^verbatim>\<open>await\<close> is
    \<open>bindx\<close>, a thrown error is an \<open>Inl\<close> result that keeps the effects made so
    far) and list and map lemmas the components share.
  \<^item> \<open>JsValue\<close>: JavaScript values, truthiness, \<^verbatim>\<open>||\<close>, property reads that
    throw on \<^verbatim>\<open>undefined\<close>/\<^verbatim>\<open>null\<close>, optional chaining, and object literals
    with spread (\<open>obj_lit\<close>) with their lookup semantics (\<open>obj_lit_get\<close>) and
    well-formedness (distinct keys).
  \<^item> \<open>Hooks\<close>: the registry and \<^verbatim>\<open>applyPlugins\<close> of \<^verbatim>\<open>@umijs/core\<close>, which is not
    under \<^verbatim>\<open>src/\<close> and is modelled from spec sections 4.1 and 4.2: MODIFY folds
    the handlers in registration order, EVENT runs them, COLLECT folds a list,
    the first throw aborts; the mode comes from the key prefix when the call
    names none.
  \<^item> \<open>Effects\<close>: the world (files, directories, unwritable paths, console)
    and the command's state \<open>pstate\<close> (the world and a trace of the command's
    own acts: hooks, backend call, size measurement, directories, writes);
    \<^verbatim>\<open>rimraf\<close>, \<^verbatim>\<open>mkdirpSync\<close>, \<^verbatim>\<open>writeFileSync\<close>, the path functions and
    \<open>hook\<close>, one dispatch of the command. \<open>path_resolve\<close> is Node's
    \<^verbatim>\<open>path.resolve\<close> for an absolute base, normalising empty, \<^verbatim>\<open>.\<close>
    and \<^verbatim>\<open>..\<close> segments (\<open>norm_segs\<close>, \<open>seg_join\<close>, \<open>path_normalize\<close>);
    \<open>path_join\<close> is concatenation, exact for its one call
    \<^verbatim>\<open>join(absTmpPath, 'umi.ts')\<close>.
  \<^item> \<open>Semver\<close>: the part of node-semver the command calls (line 104), from
    spec section 4.4: parsing, the constructor's checks and precedence, with
    the lemma that a release string parses back to its numbers.
  \<^item> \<open>BuildOpts\<close>: \<open>api\<close> (what \<^verbatim>\<open>fn\<close> reads of the plugin API), \<open>env\<close> (the
    collaborators), \<open>react_runtime\<close> (lines 99 to 107), \<open>bundler_fields\<close> and
    \<open>build_opts\<close> (lines 105 to 131), and \<open>call_closure\<close>, the closures
    \<^verbatim>\<open>chainWebpack\<close>, \<^verbatim>\<open>modifyWebpackConfig\<close>, \<^verbatim>\<open>modifyViteConfig\<close> and
    \<^verbatim>\<open>onBuildComplete\<close> (lines 71 to 92 and 122 to 128).
  \<^item> \<open>Html\<close>: lines 173 to 222, the asset mapping, the markup arguments, the
    default document and the \<^verbatim>\<open>forEach\<close> write loop.
  \<^item> \<open>Build\<close>: \<^verbatim>\<open>fn\<close> as seven stages (\<open>stage_precheck\<close> ... \<open>stage_complete\<close>)
    over a record \<open>ctx\<close> of its local variables, \<open>run_stages\<close> and \<open>build_fn\<close>;
    the control sequence \<open>expected_ctl\<close> of spec section 4.3 and the
    composition rules \<open>follows_rules\<close> that show each stage does its part;
    one lemma per stage giving its exact result when it succeeds, from which
    the success of the whole command is composed.
  \<^item> \<open>Command\<close>: the command record of lines 21 to 33, its registration by the
    preset's default export (\<open>preset_build\<close>) and the CLI running it
    (\<open>run_command\<close>); the command table of \<^verbatim>\<open>@umijs/core\<close> is modelled from the
    spec (a name registers once).
  \<^item> this theory: concrete applications (\<open>app_api\<close>, \<open>app_env\<close>, \<open>disk0\<close>)
    that the witnesses evaluate, and the properties of the whole command.

  \<^bold>\<open>What is proved.\<close> The claims C1 to C29 are marked in the text before each
  theorem. For every plugin set and backend: the command's control sequence is
  the fixed single-pass order of spec section 4.3, and a failing run did a
  prefix of it (C1); without a \<^verbatim>\<open>modifyUniBundler\<close> handler the build never
  succeeds (C2); the size snapshot called "before build" is measured in the
  world the backend returned, so it already holds the new build (C3). When the
  plugins only supply the bundler and the collaborators behave, the command
  succeeds, does the spec's sequence and writes exactly \<^verbatim>\<open>index.html\<close> (C4).
  The options carry exactly one backend's fields (C5); the runtime is
  automatic exactly from React 17 (C6) and a major part beyond
  \<^verbatim>\<open>MAX_SAFE_INTEGER\<close> throws (C19); the backend receives the fold of the
  \<^verbatim>\<open>modifyUniBundlerOpts\<close> handlers over the literal (C7), whose
  \<^verbatim>\<open>outputPath\<close> comes from the resolved configuration first (C18). The
  closures fold, discard, print and abort as the code says (C8 to C11). The
  write loop writes every document in order, and a failing write keeps the
  earlier ones and writes no later one (C12, C13); a document with
  non-string content fails after its directory was created (C25). The markup
  arguments merge styles after and scripts before the supplied ones (C14) and
  a bundle's assets are mapped or refused as the code does (C22); with no HTML
  handler exactly \<^verbatim>\<open>index.html\<close> is written (C15). A dispatch with no handler
  changes nothing, and a MODIFY dispatch folds the handlers in the order the
  plugins registered them (C16, C17). The plugins are told \<^verbatim>\<open>files: null\<close>
  on \<^verbatim>\<open>onGenerateFiles\<close> (C20) and \<^verbatim>\<open>{...opts, htmlFiles}\<close> on
  \<^verbatim>\<open>onBuildHtmlComplete\<close> (C21); the size stage measures the user's output
  path under \<^verbatim>\<open>api.cwd\<close> (C23). The temporary directory is cleared
  unconditionally before \<^verbatim>\<open>onCheckPkgJSON\<close> (C24), and a failing backend
  ends the run with its error (C26). Documents with relative paths free of
  \<^verbatim>\<open>..\<close> are written only under the output directory, whatever the loop does
  (C27), but nothing confines the paths a plugin returns: an absolute path, or
  one climbing out with \<^verbatim>\<open>..\<close>, is written where it points whatever the
  output directory (C28). In multi-page mode the HTML and completion stages
  write nothing and report \<^verbatim>\<open>htmlFiles: []\<close> (C29).

  \<^bold>\<open>Bounds.\<close> No loop of the command can run forever: \<open>run_stages\<close>, the
  handler loops of the dispatcher and the write loop are structural recursion
  on finite lists, so every definition is total and no fuel is used.
  Integers are not computed with; the only numeric limit is semver's
  \<open>MAX_SAFE_INTEGER\<close> on version parts (C19).

  \<^bold>\<open>Not modelled.\<close> The bundler backends (webpack, vite, mako),
  \<^verbatim>\<open>getBabelOpts\<close>, \<^verbatim>\<open>getAssetsMap\<close>, \<^verbatim>\<open>getMarkupArgs\<close>, \<^verbatim>\<open>getMarkup\<close> and the
  file-size reporter live outside \<^verbatim>\<open>src/\<close>: each is a parameter of \<open>env\<close>, so
  every theorem holds for all of them (a backend is any world transformer that
  may call the closures). The \<^verbatim>\<open>details\<close> text of the command is kept as one
  line; the \<^verbatim>\<open>COMPRESS\<close> variable it mentions is read by the backends only.
  The paths \<^verbatim>\<open>api.paths\<close> supplies are taken as absolute (umi computes
  them so; Node would otherwise prefix \<^verbatim>\<open>process.cwd()\<close>); the chalk
  colouring of log lines and the memory figures printed are not modelled.
  Simplifications, each outside what the theorems depend on: JavaScript
  values are immutable, so a handler cannot mutate the options in place (spec
  section 3 forbids it); only the command's own closures are function values
  the backend can call; \<^verbatim>\<open>rimraf.sync\<close> cannot fail, and \<^verbatim>\<open>mkdirpSync\<close> and
  \<^verbatim>\<open>writeFileSync\<close> fail only on unwritable paths and missing directories
  (not on a file in the way). The dispatcher follows spec section 4.2, where a
  MODIFY handler's result is the next accumulator even when it is
  \<^verbatim>\<open>undefined\<close>; umi's tapable waterfall keeps the previous value then.
\<close>

section \<open>Scenarios\<close>

text \<open>
  A concrete application: React 17.1.0, no \<^verbatim>\<open>vite\<close>, \<^verbatim>\<open>mako\<close> or \<^verbatim>\<open>mpa\<close>
  flag, the temporary directory below the source tree, a webpack-like backend
  that returns a stats object, an asset map with one script, and a renderer
  that prints the script tags it receives.
\<close>

definition app_api :: "world registry \<Rightarrow> api" where
  "app_api r = \<lparr>umi_version = ''4.0.0'', abs_tmp_path = ''/app/src/.umi'',
     abs_output_path = ''/app/dist'', api_cwd = ''/app'', app_pkg = JObj [(''name'', JStr ''app'')],
     app_react = JObj [(''version'', JStr ''17.1.0'')], app_bundler = JStr ''webpack'',
     api_user_config = [], api_config = [], api_args = [], plugins = r\<rparr>"

definition script_tags :: "js \<Rightarrow> string" where
  "script_tags fm = (case prop_of fm ''scripts'' of
     JArr xs \<Rightarrow> concat (map (\<lambda>s. case prop_of s ''src'' of JStr u \<Rightarrow> ''<script src='' @ u @ ''>'' | _ \<Rightarrow> []) xs)
   | _ \<Rightarrow> [])"

definition webpack_backend :: backend where
  "webpack_backend call op w = (Inr (JObj [(''hash'', JStr ''abc'')]), w)"

definition app_env :: env where
  "app_env = \<lparr>babel_opts = [(''babelPreset'', JStr ''umi'')],
     backends = (\<lambda>n. if n = ''webpack'' then webpack_backend else (\<lambda>call op w. (Inl (BackendFailure n), w))),
     default_output_path = ''dist'', measure_sizes = (\<lambda>p w. JObj []),
     assets_map = (\<lambda>st pp. JObj [(''umi.js'', JArr [JStr ''/umi.js''])]),
     get_markup_args = \<lparr>ma_styles = [], ma_scripts = [], ma_rest = []\<rparr>,
     get_markup = script_tags\<rparr>"

definition disk0 :: pstate where
  "disk0 = \<lparr>world = \<lparr>files = Map.empty, dirs = {''/app''}, unwritable = {}, console = []\<rparr>, trace = []\<rparr>"

text \<open>The one plugin the traditional run needs: it supplies the bundler object.\<close>

definition uni_bundler_plugin :: "world hook" where
  "uni_bundler_plugin = modify_hook ''preset-bundler'' ''modifyUniBundler'' (\<lambda>m a. JObj [(''build'', JFun ''webpack'')])"

definition webpack_api :: api where
  "webpack_api = app_api (register_all Map.empty [uni_bundler_plugin])"

text \<open>A second plugin that turns the \<^verbatim>\<open>clean\<close> option off.\<close>

definition clean_off :: "js \<Rightarrow> js \<Rightarrow> js" where
  "clean_off m b = (case m of JObj ps \<Rightarrow> JObj (obj_set ps ''clean'' (JBool False)) | _ \<Rightarrow> m)"

definition opts_api :: api where
  "opts_api = app_api (register_all Map.empty
     [uni_bundler_plugin, modify_hook ''clean-off'' ''modifyUniBundlerOpts'' clean_off])"

definition plain_api :: api where
  "plain_api = app_api Map.empty"

definition html_ctx :: ctx where
  "html_ctx = ctx0\<lparr>opts := JObj [(''config'', JObj [])]\<rparr>"

text \<open>A plugin that records what \<^verbatim>\<open>onGenerateFiles\<close> passes as \<^verbatim>\<open>files\<close>.\<close>

definition files_probe :: "js \<Rightarrow> world \<Rightarrow> world" where
  "files_probe args w = w\<lparr>console := console w @ [if prop_of args ''files'' = JNull then ''files: null'' else ''files: other'']\<rparr>"

definition probe_api :: api where
  "probe_api = app_api (register_all Map.empty [event_hook ''probe'' ''onGenerateFiles'' files_probe])"

definition complete_ctx :: ctx where
  "complete_ctx = ctx0\<lparr>opts := JObj [(''cwd'', JStr ''/app''), (''htmlFiles'', JArr [])],
                       html_files := JArr [html_doc (''index.html'', ''x'')]\<rparr>"

definition sizes_api :: api where
  "sizes_api = plain_api\<lparr>api_user_config := [(''outputPath'', JStr ''build'')]\<rparr>"

definition failing_ctx :: ctx where
  "failing_ctx = ctx0\<lparr>bundler := JObj [(''build'', JFun ''vite'')]\<rparr>"

text \<open>A multi-page application with no plugin.\<close>

definition mpa_api :: api where
  "mpa_api = plain_api\<lparr>api_config := [(''mpa'', JBool True)]\<rparr>"

lemmas run_defs = build_fn_def build_stages_def stage_precheck_def stage_generate_def generate_def
  stage_compose_def stage_execute_def stage_sizes_def stage_html_def stage_complete_def complete_args_def
  hook_def emit_def on_world_def log_msg_def log_line_def read_world_def
  apply_plugins_def handlers_for_def starts_with_def register_def
  react_runtime_def build_opts_def bundler_fields_def is_vite_def is_mako_def
  obj_lit_def obj_get_def obj_set_def get_prop_def opt_get_def js_or_def nullish_def
  semver_gte_def to_version_def parse_version_def sv_trim_def sv_space_def parse_core_def
  numeric_id_def sv_digit_def digits_val_def parse_tail_def version_less_def MAX_SAFE_INTEGER_def
  pre_less_def parse_pre_ident_def sv_ident_char_def rimraf_def under_def path_join_def
  js_resolve_def path_eval mapped_assets_def src_objs_def esm_script_def final_markup_args_def
  markup_args_js_def default_html_def for_each_html_def write_html_file_def mkdirp_def write_file_def
  path_dirname_def path_prefixes_def exn_simps Let_def
  app_api_def app_env_def disk0_def modify_hook_def pure_fn_def webpack_backend_def script_tags_def

lemma webpack_run:
  "fst (build_fn webpack_api app_env disk0) = Inr () \<and>
   trace (snd (build_fn webpack_api app_env disk0)) =
     [Rimraf ''/app/src/.umi'', Hook ''onCheckPkgJSON'', Hook ''onGenerateFiles'', Hook ''modifyEntry'',
      Hook ''onBeforeCompiler'', Hook ''modifyUniBundlerOpts'', Hook ''modifyUniBundler'', BuildCall,
      MeasureDir ''/app/dist'', PrintSizes ''/app/dist'' (JObj []) (JObj [(''hash'', JStr ''abc'')]), Hook ''modifyExportHTMLFiles'',
      Mkdirp ''/app/dist'', WriteFile ''/app/dist/index.html'', Hook ''onBuildHtmlComplete''] \<and>
   files (world (snd (build_fn webpack_api app_env disk0))) ''/app/dist/index.html'' = Some ''<script src=/umi.js>'' \<and>
   console (world (snd (build_fn webpack_api app_env disk0))) =
     [''Umi v4.0.0'', [], ''File sizes after gzip:'' @ [CHR 0x0A], ''Build index.html'']"
proof -
  obtain r ps where run: "(r, ps) = build_fn webpack_api app_env disk0"
    by (cases "build_fn webpack_api app_env disk0") simp
  from run have "r = Inr () \<and> trace ps =
     [Rimraf ''/app/src/.umi'', Hook ''onCheckPkgJSON'', Hook ''onGenerateFiles'', Hook ''modifyEntry'',
      Hook ''onBeforeCompiler'', Hook ''modifyUniBundlerOpts'', Hook ''modifyUniBundler'', BuildCall,
      MeasureDir ''/app/dist'', PrintSizes ''/app/dist'' (JObj []) (JObj [(''hash'', JStr ''abc'')]), Hook ''modifyExportHTMLFiles'',
      Mkdirp ''/app/dist'', WriteFile ''/app/dist/index.html'', Hook ''onBuildHtmlComplete''] \<and>
     files (world ps) ''/app/dist/index.html'' = Some ''<script src=/umi.js>'' \<and>
     console (world ps) = [''Umi v4.0.0'', [], ''File sizes after gzip:'' @ [CHR 0x0A], ''Build index.html'']"
    by (simp add: run_defs webpack_api_def uni_bundler_plugin_def)
  with run [symmetric] show ?thesis by simp
qed

theorem uni_bundler_opts_fold_witness:
  "\<exists>c' ps'. stage_compose opts_api app_env ctx0 disk0 = (Inr c', ps') \<and>
     (\<exists>rt. react_runtime (app_react opts_api) = Inr rt \<and>
        opts c' = foldl (\<lambda>m f. f m (obj_lit [Field ''bundler'' (app_bundler opts_api)]))
                    (build_opts opts_api (babel_opts app_env) (entry c') rt) [clean_off])"
proof -
  obtain r ps where run: "(r, ps) = stage_compose opts_api app_env ctx0 disk0"
    by (cases "stage_compose opts_api app_env ctx0 disk0") simp
  from run have "\<exists>c'. r = Inr c'"
    by (simp add: run_defs opts_api_def uni_bundler_plugin_def)
  then obtain c' where "r = Inr c'" by blast
  with run have c': "stage_compose opts_api app_env ctx0 disk0 = (Inr c', ps)" by simp
  have hs: "map hook_fn (handlers_for (plugins opts_api) ''modifyUniBundlerOpts'') = map pure_fn [clean_off]"
    by (simp add: opts_api_def app_api_def handlers_for_register_all modify_hook_def uni_bundler_plugin_def)
  from c' uni_bundler_opts_fold [OF c' hs] show ?thesis by blast
qed

theorem default_index_html_witness:
  "\<exists>c' ps'. stage_html webpack_api app_env html_ctx disk0 = (Inr c', ps') \<and>
     (\<exists>m. html_files c' = JArr [html_doc (''index.html'', m)] \<and>
        files (world ps') (path_resolve (abs_output_path webpack_api) ''index.html'') = Some m \<and>
        trace ps' = trace disk0 @ [Hook ''modifyExportHTMLFiles'',
          Mkdirp (path_dirname (path_resolve (abs_output_path webpack_api) ''index.html'')),
          WriteFile (path_resolve (abs_output_path webpack_api) ''index.html'')])"
proof -
  obtain r ps where run: "(r, ps) = stage_html webpack_api app_env html_ctx disk0"
    by (cases "stage_html webpack_api app_env html_ctx disk0") simp
  from run have "\<exists>c'. r = Inr c'"
    by (simp add: run_defs webpack_api_def uni_bundler_plugin_def html_ctx_def)
  then obtain c' where "r = Inr c'" by blast
  with run have c': "stage_html webpack_api app_env html_ctx disk0 = (Inr c', ps)" by simp
  have "\<not> truthy (obj_get (api_config webpack_api) ''mpa'')"
    "handlers_for (plugins webpack_api) ''modifyExportHTMLFiles'' = []"
    by (simp_all add: webpack_api_def app_api_def obj_get_def handlers_for_register_all uni_bundler_plugin_def modify_hook_def)
  from default_index_html [OF this c'] c' show ?thesis by blast
qed

theorem output_path_precedence_witness:
  "prop_of (prop_of (build_opts (plain_api\<lparr>api_user_config := [(''outputPath'', JStr ''out'')],
                                            api_config := [(''outputPath'', JStr ''build'')]\<rparr>) [] JUndef ''classic'')
      ''config'') ''outputPath'' = JStr ''build''"
  using output_path_precedence [of "plain_api\<lparr>api_user_config := [(''outputPath'', JStr ''out'')],
      api_config := [(''outputPath'', JStr ''build'')]\<rparr>" "[]" JUndef "''classic''"]
  by simp

theorem generate_files_args_witness:
  "console (world (snd (stage_generate probe_api ctx0 disk0))) = [''files: null'']"
  using generate_files_args [of probe_api "[files_probe]" ctx0 disk0]
  by (simp add: probe_api_def app_api_def handlers_for_register_all event_hook_def files_probe_def disk0_def obj_get_def)

theorem build_html_complete_args_witness:
  "stage_complete plain_api complete_ctx disk0 =
     (Inr complete_ctx, disk0\<lparr>trace := [Hook ''onBuildHtmlComplete''], world := world disk0\<rparr>) \<and>
   prop_of (complete_args (opts complete_ctx) (html_files complete_ctx)) ''htmlFiles'' = JArr [html_doc (''index.html'', ''x'')] \<and>
   prop_of (complete_args (opts complete_ctx) (html_files complete_ctx)) ''cwd'' = JStr ''/app''"
  using build_html_complete_args [of plain_api "[]" complete_ctx "[(''cwd'', JStr ''/app''), (''htmlFiles'', JArr [])]" disk0]
  by (simp add: plain_api_def app_api_def complete_ctx_def ctx0_def disk0_def obj_get_def)

theorem sizes_measure_dir_witness:
  "stage_sizes sizes_api app_env (ctx0\<lparr>opts := build_opts sizes_api [] JUndef ''classic''\<rparr>) disk0 =
     (Inr (ctx0\<lparr>opts := build_opts sizes_api [] JUndef ''classic''\<rparr>),
      disk0\<lparr>world := (world disk0)\<lparr>console := console (world disk0) @ ['''', ''File sizes after gzip:'' @ [CHR 0x0A]]\<rparr>,
            trace := trace disk0 @ [MeasureDir ''/app/build'', PrintSizes ''/app/build'' (JObj []) JUndef]\<rparr>)"
proof -
  have "path_resolve (api_cwd sizes_api) ''build'' = ''/app/build''"
    by (simp add: sizes_api_def plain_api_def app_api_def path_eval)
  moreover have "\<not> is_vite sizes_api" "\<not> is_mako sizes_api"
    "map_of (api_config sizes_api) ''outputPath'' = None" "distinct (map fst (api_config sizes_api))"
    "obj_get (api_user_config sizes_api) ''outputPath'' = JStr ''build''"
    by (simp_all add: sizes_api_def plain_api_def app_api_def is_vite_def is_mako_def obj_get_def)
  ultimately show ?thesis
    using sizes_measure_dir [of sizes_api "ctx0\<lparr>opts := build_opts sizes_api [] JUndef ''classic''\<rparr>" "[]" JUndef
        "''classic''" "''build''" app_env disk0]
    by (simp add: app_env_def ctx0_def)
qed

theorem precheck_clears_tmp_witness:
  "stage_precheck plain_api ctx0 disk0 =
     (Inr ctx0, disk0\<lparr>world := rimraf ''/app/src/.umi'' ((world disk0)\<lparr>console := [''Umi v4.0.0'']\<rparr>),
                    trace := [Rimraf ''/app/src/.umi'', Hook ''onCheckPkgJSON'']\<rparr>) \<and>
   files (rimraf ''/app/src/.umi'' ((world disk0)\<lparr>files := [''/app/src/.umi/umi.ts'' \<mapsto> ''x'']\<rparr>)) ''/app/src/.umi/umi.ts'' = None"
  using precheck_clears_tmp [of plain_api "[]" ctx0 disk0 "(world disk0)\<lparr>files := [''/app/src/.umi/umi.ts'' \<mapsto> ''x'']\<rparr>"]
  by (simp add: plain_api_def app_api_def disk0_def under_def starts_with_def)

theorem html_content_error_after_mkdir_witness:
  "write_html_file ''/out'' (obj_lit [Field ''path'' (JStr ''index.html''), Field ''content'' (JNum 1)]) disk0 =
     (Inl (TypeError ''The data argument must be of type string''),
      disk0\<lparr>world := (world disk0)\<lparr>dirs := dirs (world disk0) \<union> set (path_prefixes ''/out'')\<rparr>,
            trace := [Mkdirp ''/out'']\<rparr>)"
proof -
  have d: "path_dirname (path_resolve ''/out'' ''index.html'') = ''/out''"
    by (simp add: path_dirname_def path_eval)
  show ?thesis
    using html_content_error_after_mkdir [of "''/out''" "''index.html''" disk0 "JNum 1" "''''"] d
    by (simp add: disk0_def)
qed

theorem backend_failure_halts_witness:
  "run_stages plain_api app_env [ExecuteBuild, MeasureSizes, GenerateHtml, Complete] failing_ctx disk0 =
     (Inl (BackendFailure ''vite''), disk0\<lparr>trace := [BuildCall]\<rparr>)"
proof -
  have "backends app_env ''vite'' (invoke (plugins plain_api)) (opts failing_ctx) (world disk0) =
        (Inl (BackendFailure ''vite''), world disk0)"
    by (simp add: app_env_def)
  from backend_failure_halts [of failing_ctx "''vite''" app_env plain_api disk0 "BackendFailure ''vite''" "world disk0"
      "[MeasureSizes, GenerateHtml, Complete]", OF _ this]
  show ?thesis by (simp add: failing_ctx_def obj_get_def disk0_def)
qed

theorem mpa_html_complete_witness:
  "run_stages mpa_api app_env [GenerateHtml, Complete] complete_ctx disk0 =
     (Inr (complete_ctx\<lparr>html_files := JArr []\<rparr>), disk0\<lparr>trace := [Hook ''onBuildHtmlComplete'']\<rparr>)"
proof -
  have "truthy (obj_get (api_config mpa_api) ''mpa'')"
    and "map hook_fn (handlers_for (plugins mpa_api) ''onBuildHtmlComplete'') = map event_fn []"
    by (simp_all add: mpa_api_def plain_api_def app_api_def obj_get_def handlers_for_def)
  then show ?thesis
    using mpa_html_complete [where a = mpa_api and e = app_env and gs = "[]" and c = complete_ctx and ps = disk0]
    by (simp add: disk0_def)
qed

section \<open>The pipeline\<close>

text \<open>
  C1. The build stage sequencer is single-pass and linear (spec 4.3): whatever
  the plugins and the backend do, the command dispatches its hooks, calls the
  backend, measures and reports sizes and clears the temporary directory in
  exactly this order, each once; the size stage is present exactly when neither
  vite nor mako is configured and the HTML hook exactly outside multi-page mode.
  A run that throws has done a prefix of this sequence and nothing after it.
\<close>

theorem build_control_sequence:
  assumes "build_fn a e ps = (r, ps')"
  shows "\<exists>t. trace ps' = trace ps @ t \<and>
    ctl_ok r (ctl_of t)
      ([CRimraf, CHook ''onCheckPkgJSON'', CHook ''onGenerateFiles'', CHook ''modifyEntry'',
        CHook ''onBeforeCompiler'', CHook ''modifyUniBundlerOpts'', CHook ''modifyUniBundler'', CBuild] @
       (if \<not> is_vite a \<and> \<not> is_mako a then [CMeasure, CPrint] else []) @
       (if truthy (obj_get (api_config a) ''mpa'') then [] else [CHook ''modifyExportHTMLFiles'']) @
       [CHook ''onBuildHtmlComplete''])"
  using followsD [OF follows_build_fn assms]
  by (simp add: expected_ctl_def build_stages_def)

theorem build_control_sequence_witness:
  "\<exists>t. trace (snd (build_fn plain_api app_env disk0)) = trace disk0 @ t \<and>
    ctl_ok (fst (build_fn plain_api app_env disk0)) (ctl_of t)
      [CRimraf, CHook ''onCheckPkgJSON'', CHook ''onGenerateFiles'', CHook ''modifyEntry'',
       CHook ''onBeforeCompiler'', CHook ''modifyUniBundlerOpts'', CHook ''modifyUniBundler'', CBuild,
       CMeasure, CPrint, CHook ''modifyExportHTMLFiles'', CHook ''onBuildHtmlComplete'']"
  using build_control_sequence [of plain_api app_env disk0 "fst (build_fn plain_api app_env disk0)"
      "snd (build_fn plain_api app_env disk0)"]
  by (simp add: plain_api_def app_api_def is_vite_def is_mako_def obj_get_def)

text \<open>
  C2. The backend object comes from the \<^verbatim>\<open>modifyUniBundler\<close> dispatch alone
  (line 146): when no plugin handles that key, the dispatch returns
  \<^verbatim>\<open>undefined\<close> and \<^verbatim>\<open>bundler.build(opts)\<close> (line 154) throws, so the build
  never succeeds, whatever the configuration flags say.
\<close>

theorem build_requires_bundler_hook:
  assumes "handlers_for (plugins a) ''modifyUniBundler'' = []"
  shows "fst (build_fn a e ps) \<noteq> Inr ()"
proof
  assume ok: "fst (build_fn a e ps) = Inr ()"
  then obtain ps' where "build_fn a e ps = (Inr (), ps')"
    by (cases "build_fn a e ps") auto
  from build_fn_Inr [OF this] obtain c where
    "run_stages a e [PreCheck, Generate, ComposeOptions, ExecuteBuild, MeasureSizes, GenerateHtml, Complete]
       ctx0 ps = (Inr c, ps')"
    unfolding build_stages_def by blast
  then obtain c1 ps1 where
    "run_stages a e [Generate, ComposeOptions, ExecuteBuild, MeasureSizes, GenerateHtml, Complete]
       c1 ps1 = (Inr c, ps')"
    using run_stages_Cons_Inr by blast
  then obtain c2 ps2 where
    "run_stages a e [ComposeOptions, ExecuteBuild, MeasureSizes, GenerateHtml, Complete] c2 ps2 = (Inr c, ps')"
    using run_stages_Cons_Inr by blast
  then obtain c3 ps3 where compose0: "run_stage a e ComposeOptions c2 ps2 = (Inr c3, ps3)" and
    "run_stages a e [ExecuteBuild, MeasureSizes, GenerateHtml, Complete] c3 ps3 = (Inr c, ps')"
    using run_stages_Cons_Inr by blast
  then obtain c4 ps4 where exec0: "run_stage a e ExecuteBuild c3 ps3 = (Inr c4, ps4)"
    using run_stages_Cons_Inr by blast
  from compose0 have compose: "stage_compose a e c2 ps2 = (Inr c3, ps3)" by simp
  from exec0 have exec: "stage_execute a e c3 ps3 = (Inr c4, ps4)" by simp
  from stage_compose_no_bundler [OF assms compose] have "bundler c3 = JUndef" .
  from stage_execute_undefined [OF this, of a e ps3] exec show False by simp
qed

theorem build_requires_bundler_hook_witness:
  "handlers_for (plugins plain_api) ''modifyUniBundler'' = [] \<and> fst (build_fn plain_api app_env disk0) \<noteq> Inr ()"
proof -
  have h: "handlers_for (plugins plain_api) ''modifyUniBundler'' = []"
    by (simp add: plain_api_def app_api_def)
  show ?thesis using h build_requires_bundler_hook [OF h, of app_env disk0] by simp
qed

text \<open>
  C3. The size snapshot that line 157 calls "before build" is taken after it:
  in every successful run without vite or mako, the backend call is followed
  at once by the measurement of a directory and the report on it, and the
  \<^verbatim>\<open>previousSizeMap\<close> handed to \<^verbatim>\<open>printFileSizesAfterBuild\<close> is that
  directory measured in the very world the backend returned along with the
  \<^verbatim>\<open>webpackStats\<close> of the same call, so it already holds the new build's
  sizes and the reported differences compare the build with itself.
\<close>

theorem sizes_measured_after_build:
  assumes "build_fn a e ps = (Inr (), ps')" and "\<not> is_vite a" and "\<not> is_mako a"
  shows "\<exists>t1 t3 p n ov w w' st.
           trace ps' = trace ps @ t1 @ [BuildCall, MeasureDir p, PrintSizes p (measure_sizes e p w') st] @ t3 \<and>
           backends e n (invoke (plugins a)) ov w = (Inr st, w')"
proof -
  from build_fn_Inr [OF assms(1)] obtain c where
    "run_stages a e ([PreCheck, Generate, ComposeOptions] @ [ExecuteBuild, MeasureSizes] @ [GenerateHtml, Complete]) ctx0 ps = (Inr c, ps')"
    by (auto simp: build_stages_def)
  then obtain c1 ps1 c2 ps2 where
    r1: "run_stages a e [PreCheck, Generate, ComposeOptions] ctx0 ps = (Inr c1, ps1)" and
    r2: "run_stages a e [ExecuteBuild, MeasureSizes] c1 ps1 = (Inr c2, ps2)" and
    r3: "run_stages a e [GenerateHtml, Complete] c2 ps2 = (Inr c, ps')"
    by (auto simp: run_stages_append bindx_eq_Inr)
  from followsD [OF follows_run_stages r1] obtain t1 where t1: "trace ps1 = trace ps @ t1" by blast
  from followsD [OF follows_run_stages r3] obtain t3 where t3: "trace ps' = trace ps2 @ t3" by blast
  from r2 obtain c1' ps1' where x: "stage_execute a e c1 ps1 = (Inr c1', ps1')"
    and s: "stage_sizes a e c1' ps1' = (Inr c2, ps2)"
    by (auto simp: bindx_eq_Inr)
  from stage_execute_Inr [OF x] obtain n st where
    b: "backends e n (invoke (plugins a)) (opts c1) (world ps1) = (Inr st, world ps1')"
    and tx: "trace ps1' = trace ps1 @ [BuildCall]" and cx: "c1' = c1\<lparr>stats := st\<rparr>" by blast
  from stage_sizes_Inr [OF s assms(2,3)] cx obtain p where
    "trace ps2 = trace ps1' @ [MeasureDir p, PrintSizes p (measure_sizes e p (world ps1')) st]" by auto
  with t1 t3 tx b show ?thesis by fastforce
qed

theorem sizes_measured_after_build_witness:
  "\<exists>t1 t3 p n ov w w' st.
     trace (snd (build_fn webpack_api app_env disk0)) =
       trace disk0 @ t1 @ [BuildCall, MeasureDir p, PrintSizes p (measure_sizes app_env p w') st] @ t3 \<and>
     backends app_env n (invoke (plugins webpack_api)) ov w = (Inr st, w')"
proof -
  have run: "build_fn webpack_api app_env disk0 = (Inr (), snd (build_fn webpack_api app_env disk0))"
    using webpack_run by (metis prod.collapse)
  have "\<not> is_vite webpack_api" "\<not> is_mako webpack_api"
    by (simp_all add: webpack_api_def app_api_def is_vite_def is_mako_def obj_get_def)
  with run show ?thesis by (rule sizes_measured_after_build)
qed

text \<open>
  C4. When the build succeeds (spec section 8, end-to-end scenario, for every
  application of its kind): if the only handlers are pure
  \<^verbatim>\<open>modifyUniBundler\<close> handlers yielding an object whose \<^verbatim>\<open>build\<close> is a
  backend that returns stats without failing and keeps the unwritable paths,
  the React version is a valid one, no vite, mako or mpa flag is set, the
  configured output path is a string, the asset map gives arrays for
  \<^verbatim>\<open>umi.css\<close> and \<^verbatim>\<open>umi.js\<close>, and \<^verbatim>\<open><outputPath>/index.html\<close> can be
  written, then the command returns, having done exactly the spec's stage
  sequence with one size report and one document written, and that document
  is on disk.
\<close>

theorem build_succeeds:
  assumes quiet: "\<forall>k. k \<noteq> ''modifyUniBundler'' \<longrightarrow> handlers_for (plugins a) k = []"
    and bd: "map hook_fn (handlers_for (plugins a) ''modifyUniBundler'') = map pure_fn fs"
    and build: "\<forall>x. get_prop (foldl (\<lambda>m f. f m x) JUndef fs) ''build'' = Inr (JFun n)"
    and rt: "react_runtime (app_react a) = Inr rt"
    and backend: "\<forall>cl ov w. \<exists>st w'. backends e n cl ov w = (Inr st, w') \<and> unwritable w' = unwritable w"
    and flags: "\<not> is_vite a" "\<not> is_mako a" "\<not> truthy (obj_get (api_config a) ''mpa'')"
    and cfg: "distinct (map fst (api_config a))"
      "(case map_of (api_config a) ''outputPath'' of Some v \<Rightarrow> v
        | None \<Rightarrow> js_or (obj_get (api_user_config a) ''outputPath'') (JStr ''dist'')) = JStr op"
    and assets: "\<forall>st. \<exists>css jss.
        mapped_assets a (assets_map e st (obj_get (api_config a) ''publicPath'')) ''umi.css'' = Inr css \<and>
        mapped_assets a (assets_map e st (obj_get (api_config a) ''publicPath'')) ''umi.js'' = Inr jss"
    and out: "path_dirname (path_resolve (abs_output_path a) ''index.html'') \<notin> unwritable (world ps)"
      "path_resolve (abs_output_path a) ''index.html'' \<notin> unwritable (world ps)"
  shows "fst (build_fn a e ps) = Inr () \<and>
         (\<exists>q m0 st. trace (snd (build_fn a e ps)) = trace ps @
             [Rimraf (abs_tmp_path a), Hook ''onCheckPkgJSON'', Hook ''onGenerateFiles'', Hook ''modifyEntry'',
              Hook ''onBeforeCompiler'', Hook ''modifyUniBundlerOpts'', Hook ''modifyUniBundler'', BuildCall,
              MeasureDir q, PrintSizes q m0 st, Hook ''modifyExportHTMLFiles'',
              Mkdirp (path_dirname (path_resolve (abs_output_path a) ''index.html'')),
              WriteFile (path_resolve (abs_output_path a) ''index.html''), Hook ''onBuildHtmlComplete'']) \<and>
         (\<exists>m. files (world (snd (build_fn a e ps))) (path_resolve (abs_output_path a) ''index.html'') = Some m)"
proof -
  let ?t = "path_resolve (abs_output_path a) ''index.html''"
  let ?ent = "obj_lit [Field ''umi'' (JStr (path_join (abs_tmp_path a) ''umi.ts''))]"
  let ?o = "build_opts a (babel_opts e) ?ent rt"
  have h: "handlers_for (plugins a) ''modifyExportHTMLFiles'' = []" "handlers_for (plugins a) ''onBuildHtmlComplete'' = []"
    using quiet by simp_all
  define ps3 where "ps3 = ps\<lparr>world := rimraf (abs_tmp_path a) ((world ps)\<lparr>console := console (world ps) @ [''Umi v'' @ umi_version a]\<rparr>),
               trace := trace ps @ [Rimraf (abs_tmp_path a), Hook ''onCheckPkgJSON'', Hook ''onGenerateFiles'',
                 Hook ''modifyEntry'', Hook ''onBeforeCompiler'', Hook ''modifyUniBundlerOpts'', Hook ''modifyUniBundler'']\<rparr>"
  define c3 where "c3 = ctx0\<lparr>babel := babel_opts e, entry := ?ent, opts := ?o,
      bundler := foldl (\<lambda>m f. f m (obj_lit [Field ''bundler'' (app_bundler a), Field ''opts'' ?o])) JUndef fs\<rparr>"
  have s3: "run_stages a e [PreCheck, Generate, ComposeOptions] ctx0 ps = (Inr c3, ps3)"
    using front_stages_bundler_only [OF quiet bd rt refl] by (simp add: ps3_def c3_def)
  obtain st w4 where b: "backends e n (invoke (plugins a)) ?o (world ps3) = (Inr st, w4)" and u4: "unwritable w4 = unwritable (world ps3)"
    using backend by blast
  define ps4 where "ps4 = ps3\<lparr>trace := trace ps3 @ [BuildCall], world := w4\<rparr>"
  have s4: "stage_execute a e c3 ps3 = (Inr (c3\<lparr>stats := st\<rparr>), ps4)"
    using stage_execute_runs [of c3 n e a ps3 st w4] build b by (simp add: c3_def ps4_def)
  define q where "q = path_resolve (api_cwd a) (if op = [] then default_output_path e else op)"
  define ps5 where "ps5 = ps4\<lparr>world := (world ps4)\<lparr>console := console (world ps4) @ ['''', ''File sizes after gzip:'' @ [CHR 0x0A]]\<rparr>,
                      trace := trace ps4 @ [MeasureDir q, PrintSizes q (measure_sizes e q (world ps4)) st]\<rparr>"
  have s5: "stage_sizes a e (c3\<lparr>stats := st\<rparr>) ps4 = (Inr (c3\<lparr>stats := st\<rparr>), ps5)"
    using stage_sizes_runs [OF flags(1,2) _ cfg q_def, of "c3\<lparr>stats := st\<rparr>" "babel_opts e" ?ent rt ps4]
    by (simp add: c3_def ps5_def)
  obtain css jss where am: "mapped_assets a (assets_map e st (obj_get (api_config a) ''publicPath'')) ''umi.css'' = Inr css"
      "mapped_assets a (assets_map e st (obj_get (api_config a) ''publicPath'')) ''umi.js'' = Inr jss"
    using assets by blast
  obtain esm where esm: "esm_script ?o (obj_get (api_args a) ''vite'') = Inr esm" using esm_script_build_opts by blast
  have uw: "unwritable (world ps5) = unwritable (world ps)"
    using u4 by (simp add: ps5_def ps4_def ps3_def rimraf_def)
  define m where "m = get_markup e (final_markup_args (get_markup_args e) css jss esm)"
  define ps6 where "ps6 = ps5\<lparr>world := (world ps5)\<lparr>dirs := dirs (world ps5) \<union> set (path_prefixes (path_dirname ?t)),
                                  files := (files (world ps5))(?t \<mapsto> m),
                                  console := console (world ps5) @ [''Build index.html'']\<rparr>,
               trace := trace ps5 @ [Hook ''modifyExportHTMLFiles'', Mkdirp (path_dirname ?t), WriteFile ?t]\<rparr>"
  have s6: "stage_html a e (c3\<lparr>stats := st\<rparr>) ps5 = (Inr (c3\<lparr>stats := st, html_files := JArr [html_doc (''index.html'', m)]\<rparr>), ps6)"
    using stage_html_default [OF flags(3) h(1), of e "c3\<lparr>stats := st\<rparr>" css jss esm m ?t ps5] am esm flags(1) out uw
    by (simp add: c3_def ps6_def m_def)
  have s7: "stage_complete a (c3\<lparr>stats := st, html_files := JArr [html_doc (''index.html'', m)]\<rparr>) ps6 =
      (Inr (c3\<lparr>stats := st, html_files := JArr [html_doc (''index.html'', m)]\<rparr>), ps6\<lparr>trace := trace ps6 @ [Hook ''onBuildHtmlComplete'']\<rparr>)"
    by (rule stage_complete_quiet [OF h(2)])
  have bs: "build_stages = [PreCheck, Generate, ComposeOptions] @ [ExecuteBuild, MeasureSizes, GenerateHtml, Complete]"
    by (simp add: build_stages_def)
  have "run_stages a e build_stages ctx0 ps = run_stages a e [ExecuteBuild, MeasureSizes, GenerateHtml, Complete] c3 ps3"
    unfolding bs run_stages_append by (rule bindx_Inr [where m = "run_stages a e [PreCheck, Generate, ComposeOptions] ctx0", OF s3])
  then have run: "build_fn a e ps = (Inr (), ps6\<lparr>trace := trace ps6 @ [Hook ''onBuildHtmlComplete'']\<rparr>)"
    by (simp add: build_fn_def s4 s5 s6 s7)
  show ?thesis
    by (simp add: run ps6_def ps5_def ps4_def ps3_def)
qed

theorem build_succeeds_witness:
  "fst (build_fn webpack_api app_env disk0) = Inr () \<and>
   (\<exists>m. files (world (snd (build_fn webpack_api app_env disk0))) ''/app/dist/index.html'' = Some m)"
proof -
  have q: "\<forall>k. k \<noteq> ''modifyUniBundler'' \<longrightarrow> handlers_for (plugins webpack_api) k = []"
    and bd: "map hook_fn (handlers_for (plugins webpack_api) ''modifyUniBundler'') =
       map pure_fn [\<lambda>m a. JObj [(''build'', JFun ''webpack'')]]"
    by (simp_all add: webpack_api_def app_api_def handlers_for_register_all uni_bundler_plugin_def modify_hook_def)
  have rt: "react_runtime (app_react webpack_api) = Inr ''automatic''"
    by (simp add: run_defs webpack_api_def)
  have be: "\<forall>cl ov w. \<exists>st w'. backends app_env ''webpack'' cl ov w = (Inr st, w') \<and> unwritable w' = unwritable w"
    by (simp add: app_env_def webpack_backend_def)
  have fl: "\<not> is_vite webpack_api" "\<not> is_mako webpack_api" "\<not> truthy (obj_get (api_config webpack_api) ''mpa'')"
    "distinct (map fst (api_config webpack_api))"
    "(case map_of (api_config webpack_api) ''outputPath'' of Some v \<Rightarrow> v
      | None \<Rightarrow> js_or (obj_get (api_user_config webpack_api) ''outputPath'') (JStr ''dist'')) = JStr ''dist''"
    by (simp_all add: webpack_api_def app_api_def is_vite_def is_mako_def obj_get_def js_or_def)
  have am: "\<forall>st. \<exists>css jss.
      mapped_assets webpack_api (assets_map app_env st (obj_get (api_config webpack_api) ''publicPath'')) ''umi.css'' = Inr css \<and>
      mapped_assets webpack_api (assets_map app_env st (obj_get (api_config webpack_api) ''publicPath'')) ''umi.js'' = Inr jss"
    by (simp add: app_env_def mapped_assets_def fl(1) get_prop_def obj_get_def js_or_def src_objs_def)
  have t: "path_resolve (abs_output_path webpack_api) ''index.html'' = ''/app/dist/index.html''"
    "path_dirname ''/app/dist/index.html'' = ''/app/dist''"
    by (simp_all add: webpack_api_def app_api_def path_eval path_dirname_def)
  have o: "path_dirname (path_resolve (abs_output_path webpack_api) ''index.html'') \<notin> unwritable (world disk0)"
    "path_resolve (abs_output_path webpack_api) ''index.html'' \<notin> unwritable (world disk0)"
    by (simp_all add: disk0_def)
  show ?thesis
    using build_succeeds [OF q bd _ rt be fl am o] t
    by (simp add: get_prop_def obj_get_def)
qed

end
